(* ===== verification/Prelude.thy ===== *)
theory Prelude
  imports Main "HOL-Library.Word"
begin

text \<open>
  Shared vocabulary of the development: bytes and byte strings, the little- and
  big-endian byte layouts that Rust's \<open>to_le_bytes\<close>/\<open>to_be_bytes\<close> and
  \<open>from_le_bytes\<close>/\<open>from_be_bytes\<close> produce and read, the bind of the error sum
  (\<open>?\<close> in Rust), and the lemmas about them that every component uses.
\<close>

type_synonym byte = "8 word"
type_synonym bytes = "byte list"

text \<open>Wall-clock instants and durations are nanosecond counts; \<open>Instant - Instant\<close>
  and \<open>Instant::elapsed\<close> saturate at zero in Rust, as \<open>nat\<close> subtraction does.\<close>

type_synonym instant = nat
type_synonym duration = nat

named_theorems codec_simps "equations that evaluate encoders and decoders"

subsection \<open>Rust's \<open>?\<close> on results\<close>

definition sbind :: "'e + 'a \<Rightarrow> ('a \<Rightarrow> 'e + 'b) \<Rightarrow> 'e + 'b" where
  "sbind m f = (case m of Inl e \<Rightarrow> Inl e | Inr a \<Rightarrow> f a)"

lemma sbind_Inl [simp]: "sbind (Inl e) f = Inl e"
  by (simp add: sbind_def)

lemma sbind_Inr [simp]: "sbind (Inr a) f = f a"
  by (simp add: sbind_def)

lemma sbind_eq_Inr:
  "sbind m f = Inr b \<longleftrightarrow> (\<exists>a. m = Inr a \<and> f a = Inr b)"
  by (cases m) simp_all

lemma sbind_eq_Inl:
  "sbind m f = Inl e \<longleftrightarrow> (m = Inl e \<or> (\<exists>a. m = Inr a \<and> f a = Inl e))"
  by (cases m) simp_all

subsection \<open>Little-endian digits of a number\<close>

text \<open>\<open>nat_to_le n x\<close> is the \<open>n\<close> low base-256 digits of \<open>x\<close>, least significant
  first; \<open>le_to_nat\<close> reads them back.\<close>

fun nat_to_le :: "nat \<Rightarrow> nat \<Rightarrow> bytes" where
  "nat_to_le 0 x = []"
| "nat_to_le (Suc n) x = word_of_nat (x mod 256) # nat_to_le n (x div 256)"

fun le_to_nat :: "bytes \<Rightarrow> nat" where
  "le_to_nat [] = 0"
| "le_to_nat (b # bs) = unat b + 256 * le_to_nat bs"

lemma length_nat_to_le [simp]: "length (nat_to_le n x) = n"
  by (induction n arbitrary: x) simp_all

lemma unat_byte_of_mod: "unat (word_of_nat (x mod 256) :: byte) = x mod 256"
  by (simp add: unat_of_nat)

lemma le_to_nat_nat_to_le: "le_to_nat (nat_to_le n x) = x mod 256 ^ n"
proof (induction n arbitrary: x)
  case 0
  then show ?case by simp
next
  case (Suc n)
  have "le_to_nat (nat_to_le (Suc n) x) = x mod 256 + 256 * ((x div 256) mod 256 ^ n)"
    by (simp add: Suc.IH unat_byte_of_mod)
  also have "\<dots> = x mod 256 ^ Suc n"
    by (simp add: mod_mult2_eq mult.commute)
  finally show ?case .
qed

lemma le_to_nat_bound: "le_to_nat bs < 256 ^ length bs"
proof (induction bs)
  case Nil
  then show ?case by simp
next
  case (Cons b bs)
  have "unat b < 256"
    using unsigned_less [of b] by simp
  with Cons.IH show ?case by simp
qed

lemma nat_to_le_zero: "nat_to_le n 0 = replicate n 0"
  by (induction n) simp_all

subsection \<open>Words as byte strings\<close>

definition le_bytes :: "nat \<Rightarrow> 'a::len word \<Rightarrow> bytes" where
  "le_bytes n w = nat_to_le n (unat w)"

definition word_of_le :: "bytes \<Rightarrow> 'a::len word" where
  "word_of_le bs = word_of_nat (le_to_nat bs)"

definition be_bytes :: "nat \<Rightarrow> 'a::len word \<Rightarrow> bytes" where
  "be_bytes n w = rev (le_bytes n w)"

definition word_of_be :: "bytes \<Rightarrow> 'a::len word" where
  "word_of_be bs = word_of_le (rev bs)"

lemma length_le_bytes [simp]: "length (le_bytes n w) = n"
  by (simp add: le_bytes_def)

lemma length_be_bytes [simp]: "length (be_bytes n w) = n"
  by (simp add: be_bytes_def)

lemma word_of_le_le_bytes [simp]:
  assumes "LENGTH('a) \<le> 8 * n"
  shows "word_of_le (le_bytes n (w :: 'a::len word)) = w"
proof -
  have "unat w < 2 ^ LENGTH('a)"
    by (rule unsigned_less)
  also have "(2::nat) ^ LENGTH('a) \<le> 2 ^ (8 * n)"
    using assms by (simp add: power_increasing)
  also have "(2::nat) ^ (8 * n) = 256 ^ n"
    by (simp add: power_mult)
  finally have "unat w mod 256 ^ n = unat w"
    by simp
  then show ?thesis
    by (simp add: word_of_le_def le_bytes_def le_to_nat_nat_to_le)
qed

lemma word_of_be_be_bytes [simp]:
  "LENGTH('a) \<le> 8 * n \<Longrightarrow> word_of_be (be_bytes n (w :: 'a::len word)) = w"
  by (simp add: word_of_be_def be_bytes_def)

lemma le_bytes_0 [simp]: "le_bytes n (0 :: 'a::len word) = replicate n 0"
  by (simp add: le_bytes_def nat_to_le_zero)

lemma be_bytes_0 [simp]: "be_bytes n (0 :: 'a::len word) = replicate n 0"
  by (simp add: be_bytes_def)

lemma unat_word_of_le:
  assumes "8 * length bs \<le> LENGTH('a)"
  shows "unat (word_of_le bs :: 'a::len word) = le_to_nat bs"
proof -
  have "le_to_nat bs < 256 ^ length bs"
    by (rule le_to_nat_bound)
  also have "(256::nat) ^ length bs = 2 ^ (8 * length bs)"
    by (simp add: power_mult)
  also have "(2::nat) ^ (8 * length bs) \<le> 2 ^ LENGTH('a)"
    using assms by (simp add: power_increasing)
  finally show ?thesis
    by (simp add: word_of_le_def unat_of_nat)
qed

subsection \<open>Narrowing casts (\<open>as u8\<close>, \<open>as u16\<close>)\<close>

lemma unat_ucast_small:
  "unat (w :: 'a::len word) < 2 ^ LENGTH('b) \<Longrightarrow> unat (ucast w :: 'b::len word) = unat w"
  by (simp add: unsigned_ucast_eq take_bit_eq_mod)

lemma unat_le_250:
  assumes "(v :: 'a::len word) \<le> 250" and "8 \<le> LENGTH('a)"
  shows "unat v \<le> 250"
proof -
  have "(256::nat) \<le> 2 ^ LENGTH('a)"
    using assms(2) power_increasing [of 8 "LENGTH('a)" "2::nat"] by simp
  then have "take_bit LENGTH('a) (250::nat) = 250"
    by (simp add: take_bit_nat_eq_self_iff)
  with assms(1) show ?thesis by (simp add: word_le_nat_alt)
qed

lemma ucast_byte_roundtrip:
  assumes "(v :: 'a::len word) \<le> 250" and "8 \<le> LENGTH('a)"
  shows "(ucast (ucast v :: byte) :: 'a word) = v"
proof -
  have v: "unat v \<le> 250" using assms by (rule unat_le_250)
  then have b: "unat (ucast v :: byte) = unat v" by (simp add: unat_ucast_small)
  have "unat (ucast v :: byte) < 2 ^ LENGTH('a)"
    using b by (simp add: unsigned_less)
  then have "unat (ucast (ucast v :: byte) :: 'a word) = unat (ucast v :: byte)"
    by (rule unat_ucast_small)
  with b have "unat (ucast (ucast v :: byte) :: 'a word) = unat v" by simp
  then show ?thesis by (simp add: word_unat_eq_iff)
qed

lemma ucast_byte_small:
  "(v :: 'a::len word) \<le> 250 \<Longrightarrow> 8 \<le> LENGTH('a) \<Longrightarrow> unat (ucast v :: byte) \<le> 250"
  using unat_le_250 [of v] by (simp add: unat_ucast_small)

lemma byte_small_not_marker:
  "unat (b :: byte) \<le> 250 \<Longrightarrow> b \<noteq> 251 \<and> b \<noteq> 252 \<and> b \<noteq> 253 \<and> b \<noteq> 254 \<and> b \<noteq> 255"
  by (auto simp: word_unat_eq_iff)

text \<open>Reading the high half of a big-endian string: the first \<open>k\<close> of \<open>n\<close> bytes of
  a number below \<open>256 ^ (n - k)\<close> are zero.\<close>

lemma nat_to_le_high_zero:
  "x < 256 ^ m \<Longrightarrow> nat_to_le (m + k) x = nat_to_le m x @ replicate k 0"
proof (induction m arbitrary: x)
  case 0
  then show ?case by (simp add: nat_to_le_zero)
next
  case (Suc m)
  then have "x div 256 < 256 ^ m" by (simp add: less_mult_imp_div_less mult.commute)
  with Suc.IH show ?case by simp
qed

subsection \<open>\<open>std::sync::mpsc\<close> channels\<close>

text \<open>A channel is the queue of values sent and not yet received, and whether the
  receiving end still exists. \<open>Sender::send\<close> fails once the receiver is dropped
  (\<open>Inl ()\<close>; the sources \<open>unwrap\<close> it, a panic); \<open>Receiver::try_recv\<close> takes the
  oldest value, or reports that there is none.\<close>

record 'a channel =
  chan_open :: bool
  chan_queue :: "'a list"

definition chan_send :: "'a \<Rightarrow> 'a channel \<Rightarrow> unit + 'a channel" where
  "chan_send x c = (if chan_open c then Inr (c\<lparr>chan_queue := chan_queue c @ [x]\<rparr>) else Inl ())"

definition chan_try_recv :: "'a channel \<Rightarrow> ('a \<times> 'a channel) option" where
  "chan_try_recv c = (case chan_queue c of [] \<Rightarrow> None | x # xs \<Rightarrow> Some (x, c\<lparr>chan_queue := xs\<rparr>))"

lemma chan_send_open [simp]:
  "chan_open c \<Longrightarrow> chan_send x c = Inr (c\<lparr>chan_queue := chan_queue c @ [x]\<rparr>)"
  by (simp add: chan_send_def)

lemma chan_send_closed [simp]: "\<not> chan_open c \<Longrightarrow> chan_send x c = Inl ()"
  by (simp add: chan_send_def)

lemma chan_send_Inr: "chan_send x c = Inr c' \<Longrightarrow> chan_open c' \<and> chan_queue c' = chan_queue c @ [x]"
  by (auto simp: chan_send_def split: if_splits)

subsection \<open>Splitting concatenations\<close>

lemma take_append_ge:
  "length xs \<le> k \<Longrightarrow> take k (xs @ ys) = xs @ take (k - length xs) ys"
  by simp

lemma take_prefix_short:
  "k < length xs \<Longrightarrow> take k (xs @ ys) = take k xs"
  by simp

end
