(* ===== verification/Codec.thy ===== *)
theory Codec
  imports Prelude
begin

text \<open>
  The packet codec of \<open>src/shared/src/protocol.rs\<close>: the \<open>ReliablePacket\<close> and
  \<open>PacketAction\<close> enums and the \<open>bincode::Encode\<close>/\<open>bincode::Decode\<close> derives on
  them, run with \<open>bincode::config::standard()\<close> as \<open>src/shared/src/bincode_ext.rs\<close>
  selects it. That configuration is little-endian with variable-length integers:
  a \<open>u16\<close>/\<open>u32\<close> at most 250 is one byte, a larger one a marker byte
  (251 for a \<open>u16\<close> body, 252 for a \<open>u32\<close> body) and its little-endian bytes; an
  enum's variant index is such a \<open>u32\<close>; a \<open>bool\<close> is one byte 0 or 1; an \<open>f32\<close>
  is its four little-endian bit-pattern bytes; a fixed array \<open>[T; N]\<close> is its
  \<open>N\<close> elements in order, with no length. A decoder takes the byte string still to be
  read and returns the value with the bytes it left, or a \<open>DecodeError\<close>.
\<close>

datatype decode_error =
    UnexpectedEnd
  | UnexpectedVariant "32 word"
  | InvalidIntegerType
  | InvalidBooleanValue byte

type_synonym 'a decoder = "bytes \<Rightarrow> decode_error + ('a \<times> bytes)"

text \<open>An \<open>f32\<close> is carried by its IEEE-754 bit pattern (\<open>f32::to_bits\<close>); the codec
  never interprets it, so the bit pattern is the whole of its meaning here.\<close>

type_synonym f32 = "32 word"

subsection \<open>Primitive readers\<close>

fun read_byte :: "byte decoder" where
  "read_byte [] = Inl UnexpectedEnd"
| "read_byte (b # bs) = Inr (b, bs)"

definition read_bytes :: "nat \<Rightarrow> bytes decoder" where
  "read_bytes n bs = (if length bs < n then Inl UnexpectedEnd else Inr (take n bs, drop n bs))"

subsection \<open>Variable-length integers\<close>

definition varint_encode_u16 :: "16 word \<Rightarrow> bytes" where
  "varint_encode_u16 v = (if v \<le> 250 then [ucast v] else 251 # le_bytes 2 v)"

definition varint_encode_u32 :: "32 word \<Rightarrow> bytes" where
  "varint_encode_u32 v =
     (if v \<le> 250 then [ucast v]
      else if v \<le> 65535 then 251 # le_bytes 2 v
      else 252 # le_bytes 4 v)"

definition varint_decode_u16 :: "16 word decoder" where
  "varint_decode_u16 bs = sbind (read_byte bs) (\<lambda>(b, r).
     if b = 251 then sbind (read_bytes 2 r) (\<lambda>(xs, r'). Inr (word_of_le xs, r'))
     else if b = 252 \<or> b = 253 \<or> b = 254 \<or> b = 255 then Inl InvalidIntegerType
     else Inr (ucast b, r))"

definition varint_decode_u32 :: "32 word decoder" where
  "varint_decode_u32 bs = sbind (read_byte bs) (\<lambda>(b, r).
     if b = 251 then sbind (read_bytes 2 r) (\<lambda>(xs, r'). Inr (ucast (word_of_le xs :: 16 word), r'))
     else if b = 252 then sbind (read_bytes 4 r) (\<lambda>(xs, r'). Inr (word_of_le xs, r'))
     else if b = 253 \<or> b = 254 \<or> b = 255 then Inl InvalidIntegerType
     else Inr (ucast b, r))"

subsection \<open>Booleans, floats and fixed arrays\<close>

definition encode_bool :: "bool \<Rightarrow> bytes" where
  "encode_bool b = [if b then 1 else 0]"

definition decode_bool :: "bool decoder" where
  "decode_bool bs = sbind (read_byte bs) (\<lambda>(b, r).
     if b = 0 then Inr (False, r) else if b = 1 then Inr (True, r)
     else Inl (InvalidBooleanValue b))"

definition encode_f32 :: "f32 \<Rightarrow> bytes" where
  "encode_f32 x = le_bytes 4 x"

definition decode_f32 :: "f32 decoder" where
  "decode_f32 bs = sbind (read_bytes 4 bs) (\<lambda>(xs, r). Inr (word_of_le xs, r))"

definition encode_array :: "('a \<Rightarrow> bytes) \<Rightarrow> 'a list \<Rightarrow> bytes" where
  "encode_array enc xs = concat (map enc xs)"

fun decode_array :: "nat \<Rightarrow> 'a decoder \<Rightarrow> 'a list decoder" where
  "decode_array 0 dec bs = Inr ([], bs)"
| "decode_array (Suc n) dec bs =
     sbind (dec bs) (\<lambda>(x, r). sbind (decode_array n dec r) (\<lambda>(xs, r'). Inr (x # xs, r')))"

subsection \<open>The packet types\<close>

text \<open>\<open>ReliablePacket\<close>, with its variants and fields in declaration order.
  \<open>[bool; 6]\<close> and \<open>[f32; 2]\<close> are lists whose lengths the well-formedness predicate
  fixes; \<open>UnreliablePacket\<close> has no variants and so no values, which is why
  \<open>PacketAction\<close> takes the unreliable payload as a type parameter.\<close>

datatype reliable_packet =
    Handshake (udp_port: "16 word")
  | HandshakeRes (player_id: "32 word")
  | MovementInput (directions: "bool list") (rotations: "f32 list")

datatype 'u packet_action =
    Reliable reliable_packet
  | Unreliable 'u

fun wf_reliable :: "reliable_packet \<Rightarrow> bool" where
  "wf_reliable (MovementInput ds rs) = (length ds = 6 \<and> length rs = 2)"
| "wf_reliable _ = True"

definition encode_reliable :: "reliable_packet \<Rightarrow> bytes" where
  "encode_reliable p = (case p of
       Handshake port \<Rightarrow> varint_encode_u32 0 @ varint_encode_u16 port
     | HandshakeRes pid \<Rightarrow> varint_encode_u32 1 @ varint_encode_u32 pid
     | MovementInput ds rs \<Rightarrow>
         varint_encode_u32 2 @ encode_array encode_bool ds @ encode_array encode_f32 rs)"

definition decode_reliable :: "reliable_packet decoder" where
  "decode_reliable bs = sbind (varint_decode_u32 bs) (\<lambda>(tag, r).
     if tag = 0 then sbind (varint_decode_u16 r) (\<lambda>(port, r'). Inr (Handshake port, r'))
     else if tag = 1 then sbind (varint_decode_u32 r) (\<lambda>(pid, r'). Inr (HandshakeRes pid, r'))
     else if tag = 2 then
       sbind (decode_array 6 decode_bool r) (\<lambda>(ds, r').
         sbind (decode_array 2 decode_f32 r') (\<lambda>(rs, r''). Inr (MovementInput ds rs, r'')))
     else Inl (UnexpectedVariant tag))"

text \<open>\<open>ReliablePacket::to_buf\<close> and \<open>write_encoded\<close> into a fresh \<open>Vec\<close>: the
  encoding appended to an empty buffer.\<close>

definition write_encoded :: "bytes \<Rightarrow> reliable_packet \<Rightarrow> bytes" where
  "write_encoded buf p = buf @ encode_reliable p"

definition reliable_to_buf :: "reliable_packet \<Rightarrow> bytes" where
  "reliable_to_buf p = write_encoded [] p"

text \<open>The private \<open>ToBuf\<close> of \<open>bincode_ext.rs\<close> encodes with \<open>encode_into_slice\<close>
  into \<open>&mut buf\<close> for an empty \<open>Vec\<close>, that is, into a slice of length 0; the
  encoder fails when the encoding does not fit, and \<open>unwrap\<close> turns that into a
  panic (\<open>None\<close> here).\<close>

definition encode_into_slice :: "bytes \<Rightarrow> reliable_packet \<Rightarrow> (nat \<times> bytes) option" where
  "encode_into_slice dst p =
     (let enc = encode_reliable p in
      if length enc \<le> length dst then Some (length enc, enc @ drop (length enc) dst) else None)"

text \<open>\<open>read_decoded\<close> of \<open>bincode_ext.rs\<close> on a byte slice: \<open>decode_from_std_read\<close>
  reads one value from the front of the slice and ignores what follows it.\<close>

definition read_decoded :: "bytes \<Rightarrow> decode_error + reliable_packet" where
  "read_decoded buf = sbind (decode_reliable buf) (\<lambda>(p, _). Inr p)"

definition tobuf_to_buf :: "reliable_packet \<Rightarrow> bytes option" where
  "tobuf_to_buf p = (let buf = [] in map_option snd (encode_into_slice buf p))"

subsection \<open>Round trip of every field codec\<close>

lemma read_bytes_append [codec_simps]: "read_bytes (length xs) (xs @ r) = Inr (xs, r)"
  by (simp add: read_bytes_def)

lemma varint_u16_roundtrip [codec_simps]:
  "varint_decode_u16 (varint_encode_u16 v @ r) = Inr (v, r)"
proof (cases "v \<le> 250")
  case True
  then have "unat (ucast v :: byte) \<le> 250" by (simp add: ucast_byte_small)
  then have "ucast v \<noteq> (251::byte) \<and> ucast v \<noteq> (252::byte) \<and> ucast v \<noteq> (253::byte) \<and> ucast v \<noteq> (254::byte) \<and> ucast v \<noteq> (255::byte)"
    by (rule byte_small_not_marker)
  with True show ?thesis
    by (simp add: varint_encode_u16_def varint_decode_u16_def ucast_byte_roundtrip)
next
  case False
  have "read_bytes 2 (le_bytes 2 v @ r) = Inr (le_bytes 2 v, r)"
    using read_bytes_append [of "le_bytes 2 v" r] by simp
  with False show ?thesis
    by (simp add: varint_encode_u16_def varint_decode_u16_def)
qed

lemma ucast_u16_le_bytes:
  assumes "(v :: 32 word) \<le> 65535"
  shows "(ucast (word_of_le (le_bytes 2 v) :: 16 word) :: 32 word) = v"
proof -
  have small: "unat v < 65536" using assms by (simp add: word_le_nat_alt)
  have e: "unat (word_of_le (le_bytes 2 v) :: 16 word) = unat v"
    using small by (simp add: unat_word_of_le le_bytes_def le_to_nat_nat_to_le)
  moreover have "unat (word_of_le (le_bytes 2 v) :: 16 word) < 2 ^ LENGTH(32)"
    using e small by simp
  ultimately have "unat (ucast (word_of_le (le_bytes 2 v) :: 16 word) :: 32 word) = unat v"
    by (simp add: unat_ucast_small)
  then show ?thesis by (simp add: word_unat_eq_iff)
qed

lemma varint_u32_roundtrip [codec_simps]:
  "varint_decode_u32 (varint_encode_u32 v @ r) = Inr (v, r)"
proof -
  consider (one) "v \<le> 250" | (two) "\<not> v \<le> 250" "v \<le> 65535" | (four) "\<not> v \<le> 65535"
    by fastforce
  then show ?thesis
  proof cases
    case one
    then have "unat (ucast v :: byte) \<le> 250" by (simp add: ucast_byte_small)
    then have "ucast v \<noteq> (251::byte) \<and> ucast v \<noteq> (252::byte) \<and> ucast v \<noteq> (253::byte) \<and> ucast v \<noteq> (254::byte) \<and> ucast v \<noteq> (255::byte)"
      by (rule byte_small_not_marker)
    with one show ?thesis
      by (simp add: varint_encode_u32_def varint_decode_u32_def ucast_byte_roundtrip)
  next
    case two
    have "read_bytes 2 (le_bytes 2 v @ r) = Inr (le_bytes 2 v, r)"
      using read_bytes_append [of "le_bytes 2 v" r] by simp
    with two show ?thesis
      by (simp add: varint_encode_u32_def varint_decode_u32_def ucast_u16_le_bytes)
  next
    case four
    then have "\<not> v \<le> 250" by (auto simp: word_le_nat_alt)
    have "read_bytes 4 (le_bytes 4 v @ r) = Inr (le_bytes 4 v, r)"
      using read_bytes_append [of "le_bytes 4 v" r] by simp
    with four \<open>\<not> v \<le> 250\<close> show ?thesis
      by (simp add: varint_encode_u32_def varint_decode_u32_def)
  qed
qed

lemma bool_roundtrip [codec_simps]: "decode_bool (encode_bool b @ r) = Inr (b, r)"
  by (simp add: encode_bool_def decode_bool_def)

lemma f32_roundtrip [codec_simps]: "decode_f32 (encode_f32 x @ r) = Inr (x, r)"
proof -
  have "read_bytes 4 (le_bytes 4 x @ r) = Inr (le_bytes 4 x, r)"
    using read_bytes_append [of "le_bytes 4 x" r] by simp
  then show ?thesis by (simp add: encode_f32_def decode_f32_def)
qed

lemma array_roundtrip:
  assumes "\<And>x r. dec (enc x @ r) = Inr (x, r)"
  shows "decode_array (length xs) dec (encode_array enc xs @ r) = Inr (xs, r)"
proof (induction xs)
  case Nil
  then show ?case by (simp add: encode_array_def)
next
  case (Cons x xs)
  then show ?case by (simp add: encode_array_def assms)
qed

lemma decode_encode_reliable [codec_simps]:
  "wf_reliable p \<Longrightarrow> decode_reliable (encode_reliable p @ r) = Inr (p, r)"
proof (cases p)
  case (MovementInput ds rs)
  moreover assume "wf_reliable p"
  ultimately have "length ds = 6" "length rs = 2" by simp_all
  then show ?thesis using MovementInput
    array_roundtrip [of decode_bool encode_bool ds "encode_array encode_f32 rs @ r", OF bool_roundtrip]
    array_roundtrip [of decode_f32 encode_f32 rs r, OF f32_roundtrip]
    by (simp add: encode_reliable_def decode_reliable_def codec_simps)
qed (simp_all add: encode_reliable_def decode_reliable_def codec_simps)

subsection \<open>Truncation and consumption\<close>

lemma read_bytes_short [codec_simps]: "length xs < n \<Longrightarrow> read_bytes n xs = Inl UnexpectedEnd"
  by (simp add: read_bytes_def)

lemma varint_u16_truncated:
  "k < length (varint_encode_u16 v) \<Longrightarrow> varint_decode_u16 (take k (varint_encode_u16 v)) = Inl UnexpectedEnd"
  by (cases k) (auto simp: varint_encode_u16_def varint_decode_u16_def read_bytes_def split: if_splits)

lemma varint_u32_truncated:
  "k < length (varint_encode_u32 v) \<Longrightarrow> varint_decode_u32 (take k (varint_encode_u32 v)) = Inl UnexpectedEnd"
  by (cases k) (auto simp: varint_encode_u32_def varint_decode_u32_def read_bytes_def split: if_splits)

lemma bool_truncated:
  "k < length (encode_bool b) \<Longrightarrow> decode_bool (take k (encode_bool b)) = Inl UnexpectedEnd"
  by (simp add: encode_bool_def decode_bool_def)

lemma f32_truncated:
  "k < length (encode_f32 x) \<Longrightarrow> decode_f32 (take k (encode_f32 x)) = Inl UnexpectedEnd"
  by (simp add: encode_f32_def decode_f32_def read_bytes_def)

lemma array_truncated:
  assumes rt: "\<And>x r. dec (enc x @ r) = Inr (x, r)"
    and tr: "\<And>x k. k < length (enc x) \<Longrightarrow> dec (take k (enc x)) = Inl UnexpectedEnd"
  shows "k < length (encode_array enc xs) \<Longrightarrow>
    decode_array (length xs) dec (take k (encode_array enc xs)) = Inl UnexpectedEnd"
proof (induction xs arbitrary: k)
  case Nil
  then show ?case by (simp add: encode_array_def)
next
  case (Cons x xs)
  show ?case
  proof (cases "k < length (enc x)")
    case True
    then show ?thesis by (simp add: encode_array_def tr)
  next
    case False
    then have "take k (encode_array enc (x # xs)) = enc x @ take (k - length (enc x)) (encode_array enc xs)"
      by (simp add: encode_array_def)
    moreover have "k - length (enc x) < length (encode_array enc xs)"
      using False Cons.prems by (simp add: encode_array_def)
    ultimately show ?thesis by (simp add: rt Cons.IH)
  qed
qed

lemma decode_array_length:
  "decode_array n dec bs = Inr (xs, r) \<Longrightarrow> length xs = n"
  by (induction n dec bs arbitrary: xs r rule: decode_array.induct)
     (auto simp: sbind_eq_Inr split: prod.splits)

lemma length_encode_array_const:
  "(\<And>x. length (enc x) = w) \<Longrightarrow> length (encode_array enc xs) = w * length xs"
  by (induction xs) (simp_all add: encode_array_def)

lemma length_varint_u32: "1 \<le> length (varint_encode_u32 v) \<and> length (varint_encode_u32 v) \<le> 5"
  by (simp add: varint_encode_u32_def)

lemma length_varint_u16: "1 \<le> length (varint_encode_u16 v) \<and> length (varint_encode_u16 v) \<le> 3"
  by (simp add: varint_encode_u16_def)

lemma length_encode_reliable:
  "length (encode_reliable p) = (case p of
       Handshake port \<Rightarrow> 1 + length (varint_encode_u16 port)
     | HandshakeRes pid \<Rightarrow> 1 + length (varint_encode_u32 pid)
     | MovementInput ds rs \<Rightarrow> 1 + length ds + 4 * length rs)"
  using length_encode_array_const [of encode_bool 1] length_encode_array_const [of encode_f32 4]
  by (cases p) (simp_all add: encode_reliable_def varint_encode_u32_def encode_bool_def encode_f32_def)

lemma varint_u32_small: "v \<le> 250 \<Longrightarrow> varint_encode_u32 v = [ucast v]"
  by (simp add: varint_encode_u32_def)

lemma varint_decode_u32_Nil [codec_simps]: "varint_decode_u32 [] = Inl UnexpectedEnd"
  by (simp add: varint_decode_u32_def)

lemma varint_decode_u32_byte:
  "(b :: byte) \<le> 250 \<Longrightarrow> varint_decode_u32 (b # r) = Inr (ucast b, r)"
  using byte_small_not_marker [of b] by (simp add: varint_decode_u32_def word_le_nat_alt)

lemma varint_decode_u32_tags [codec_simps]:
  "varint_decode_u32 (0 # r) = Inr (0, r)"
  "varint_decode_u32 (1 # r) = Inr (1, r)"
  "varint_decode_u32 (2 # r) = Inr (2, r)"
  by (simp_all add: varint_decode_u32_def)

lemma read_byte_consumes: "read_byte bs = Inr (b, r) \<Longrightarrow> bs = b # r"
  by (cases bs) simp_all

lemma read_bytes_consumes: "read_bytes n bs = Inr (xs, r) \<Longrightarrow> bs = xs @ r"
  by (auto simp: read_bytes_def split: if_splits)

lemma varint_u16_consumes: "varint_decode_u16 bs = Inr (v, r) \<Longrightarrow> \<exists>c. bs = c @ r"
  by (cases bs)
     (auto simp: varint_decode_u16_def sbind_eq_Inr split: if_splits prod.splits
           dest!: read_bytes_consumes)

lemma varint_u32_consumes: "varint_decode_u32 bs = Inr (v, r) \<Longrightarrow> \<exists>c. bs = c @ r"
  by (cases bs)
     (auto simp: varint_decode_u32_def sbind_eq_Inr split: if_splits prod.splits
           dest!: read_bytes_consumes)

lemma bool_consumes: "decode_bool bs = Inr (v, r) \<Longrightarrow> \<exists>c. bs = c @ r"
  by (cases bs) (auto simp: decode_bool_def split: if_splits)

lemma f32_consumes: "decode_f32 bs = Inr (v, r) \<Longrightarrow> \<exists>c. bs = c @ r"
  by (auto simp: decode_f32_def sbind_eq_Inr split: prod.splits dest!: read_bytes_consumes)

lemma array_consumes:
  assumes "\<And>bs x r. dec bs = Inr (x, r) \<Longrightarrow> \<exists>c. bs = c @ r"
  shows "decode_array n dec bs = Inr (xs, r) \<Longrightarrow> \<exists>c. bs = c @ r"
proof (induction n arbitrary: bs xs)
  case 0
  then show ?case by simp
next
  case (Suc n)
  then obtain x r1 xs' where d: "dec bs = Inr (x, r1)" and a: "decode_array n dec r1 = Inr (xs', r)"
    by (auto simp: sbind_eq_Inr split: prod.splits)
  from assms [OF d] obtain c1 where "bs = c1 @ r1" by blast
  moreover from Suc.IH [OF a] obtain c2 where "r1 = c2 @ r" by blast
  ultimately show ?case by auto
qed

subsection \<open>Properties of the codec\<close>

text \<open>C1: encoding a well-formed \<open>ReliablePacket\<close> with \<open>to_buf\<close> and decoding the buffer with \<open>read_decoded\<close> gives the packet back.\<close>

theorem reliable_packet_roundtrip: "wf_reliable p \<Longrightarrow> read_decoded (reliable_to_buf p) = Inr p"
  using decode_encode_reliable [of p "[]"]
  by (simp add: read_decoded_def reliable_to_buf_def write_encoded_def)

text \<open>C14: every strict prefix of the encoding of a well-formed packet is rejected with \<open>UnexpectedEnd\<close>: truncated field data never yields a partial packet.\<close>

theorem truncated_packet_rejected:
  assumes "wf_reliable p" and "k < length (encode_reliable p)"
  shows "decode_reliable (take k (encode_reliable p)) = Inl UnexpectedEnd"
proof (cases p)
  case (Handshake port)
  show ?thesis
  proof (cases k)
    case 0 then show ?thesis by (simp add: decode_reliable_def varint_decode_u32_Nil)
  next
    case (Suc j)
    with assms(2) Handshake have "j < length (varint_encode_u16 port)"
      by (simp add: encode_reliable_def varint_u32_small)
    with Suc Handshake show ?thesis
      by (simp add: encode_reliable_def decode_reliable_def varint_u32_small varint_decode_u32_tags varint_u16_truncated)
  qed
next
  case (HandshakeRes pid)
  show ?thesis
  proof (cases k)
    case 0 then show ?thesis by (simp add: decode_reliable_def varint_decode_u32_Nil)
  next
    case (Suc j)
    with assms(2) HandshakeRes have "j < length (varint_encode_u32 pid)"
      by (simp add: encode_reliable_def varint_u32_small)
    with Suc HandshakeRes show ?thesis
      by (simp add: encode_reliable_def decode_reliable_def varint_u32_small varint_decode_u32_tags varint_u32_truncated)
  qed
next
  case (MovementInput ds rs)
  with assms(1) have len: "length ds = 6" "length rs = 2" by simp_all
  have la: "length (encode_array encode_bool ds) = 6"
    using len length_encode_array_const [of encode_bool 1 ds] by (simp add: encode_bool_def)
  have lb: "length (encode_array encode_f32 rs) = 8"
    using len length_encode_array_const [of encode_f32 4 rs] by (simp add: encode_f32_def)
  let ?A = "encode_array encode_bool ds" and ?B = "encode_array encode_f32 rs"
  have enc: "encode_reliable p = 2 # ?A @ ?B"
    using MovementInput by (simp add: encode_reliable_def varint_u32_small)
  have k15: "k < 15" using assms(2) enc la lb by simp
  consider (z) "k = 0" | (a) j where "k = Suc j" "j < 6" | (b) j where "k = Suc (6 + j)" "j < 8"
  proof (cases k)
    case (Suc j)
    show ?thesis
    proof (cases "j < 6")
      case False
      then have "j = 6 + (j - 6)" by simp
      moreover have "j - 6 < 8" using Suc k15 by simp
      ultimately show ?thesis using Suc that(3) by metis
    qed (use Suc that(2) in blast)
  qed (use that(1) in blast)
  then show ?thesis
  proof cases
    case z then show ?thesis by (simp add: decode_reliable_def varint_decode_u32_Nil)
  next
    case a
    then have "decode_array (length ds) decode_bool (take j ?A) = Inl UnexpectedEnd"
      using array_truncated [OF bool_roundtrip bool_truncated] la by simp
    with a enc len la show ?thesis
      by (simp add: decode_reliable_def varint_decode_u32_tags)
  next
    case b
    then have "decode_array (length rs) decode_f32 (take j ?B) = Inl UnexpectedEnd"
      using array_truncated [OF f32_roundtrip f32_truncated] lb by simp
    moreover have "decode_array (length ds) decode_bool (?A @ take j ?B) = Inr (ds, take j ?B)"
      by (rule array_roundtrip [OF bool_roundtrip])
    moreover have "take (6 + j) (?A @ ?B) = ?A @ take j ?B" using la by simp
    then have "take k (encode_reliable p) = 2 # ?A @ take j ?B"
      by (simp only: b(1) enc take_Suc_Cons)
    ultimately show ?thesis using len
      by (simp add: decode_reliable_def varint_decode_u32_tags)
  qed
qed

text \<open>a variant index other than 0, 1 and 2 is rejected with \<open>UnexpectedVariant\<close> carrying that index.\<close>

theorem unknown_variant_rejected:
  "tag \<notin> {0, 1, 2} \<Longrightarrow> decode_reliable (varint_encode_u32 tag @ r) = Inl (UnexpectedVariant tag)"
  by (simp add: decode_reliable_def varint_u32_roundtrip)

text \<open>the encoding of a well-formed packet is between 2 and 15 bytes long.\<close>

theorem encoded_length_bounds:
  assumes "wf_reliable p"
  shows "2 \<le> length (encode_reliable p) \<and> length (encode_reliable p) \<le> 15"
proof (cases p)
  case (Handshake port)
  then show ?thesis using length_varint_u16 [of port] by (simp add: length_encode_reliable)
next
  case (HandshakeRes pid)
  then show ?thesis using length_varint_u32 [of pid] by (simp add: length_encode_reliable)
next
  case (MovementInput ds rs)
  then show ?thesis using assms by (simp add: length_encode_reliable)
qed

text \<open>C33: the private \<open>ToBuf::to_buf\<close> of \<open>bincode_ext.rs\<close> panics for every packet: it encodes into the zero-length slice of an empty \<open>Vec\<close>, and no encoding is empty.\<close>

theorem tobuf_to_buf_panics: "tobuf_to_buf p = None"
proof -
  have "encode_reliable p \<noteq> []"
    by (cases p) (simp_all add: encode_reliable_def varint_u32_small)
  then show ?thesis by (simp add: tobuf_to_buf_def encode_into_slice_def Let_def)
qed

text \<open>decoding is not injective on byte strings: the non-minimal varint \<open>[251, 5, 0]\<close> is accepted as the port 5, whose encoding is the single byte 5, so \<open>encode (decode b) = b\<close> fails although \<open>decode (encode p) = p\<close> holds.\<close>

theorem decode_accepts_noncanonical:
  "decode_reliable [0, 251, 5, 0] = Inr (Handshake 5, []) \<and> encode_reliable (Handshake 5) = [0, 5]"
  by (simp add: decode_reliable_def varint_decode_u16_def varint_decode_u32_tags read_bytes_def
     word_of_le_def encode_reliable_def varint_encode_u16_def varint_encode_u32_def)

subsection \<open>Witnesses at concrete packets\<close>

theorem reliable_packet_roundtrip_witness:
  "wf_reliable (MovementInput [True, False, False, False, False, False] [0, 0]) \<and>
   read_decoded (reliable_to_buf (MovementInput [True, False, False, False, False, False] [0, 0]))
     = Inr (MovementInput [True, False, False, False, False, False] [0, 0])"
  using reliable_packet_roundtrip [of "MovementInput [True, False, False, False, False, False] [0, 0]"]
  by simp

theorem truncated_packet_rejected_witness:
  "wf_reliable (Handshake 300) \<and> 2 < length (encode_reliable (Handshake 300)) \<and>
   decode_reliable (take 2 (encode_reliable (Handshake 300))) = Inl UnexpectedEnd"
proof -
  have len: "2 < length (encode_reliable (Handshake 300))"
    by (simp add: encode_reliable_def varint_encode_u16_def varint_encode_u32_def)
  show ?thesis using truncated_packet_rejected [of "Handshake 300" 2] len by simp
qed

theorem unknown_variant_rejected_witness:
  "(3::32 word) \<notin> {0, 1, 2} \<and> decode_reliable (varint_encode_u32 3 @ [1]) = Inl (UnexpectedVariant 3)"
  using unknown_variant_rejected [of 3 "[1]"] by simp

theorem encoded_length_bounds_witness:
  "wf_reliable (HandshakeRes 70000) \<and>
   2 \<le> length (encode_reliable (HandshakeRes 70000)) \<and> length (encode_reliable (HandshakeRes 70000)) \<le> 15"
  using encoded_length_bounds [of "HandshakeRes 70000"] by simp

end
