(* ===== verification/Framing.thy ===== *)
theory Framing
  imports Codec
begin

text \<open>
  Length-prefixed framing of packets on the two transports, \<open>src/shared/src/packet_ext.rs\<close>.
  A TCP stream is the bytes its peer has sent and not yet been read (reading past them
  is end of file) and the bytes written to it; a UDP socket is the queue of datagrams
  waiting with their senders and the list of datagrams sent. Every \<open>unwrap\<close> and
  \<open>panic!\<close> of the source is a value of \<open>failure\<close>: the call does not return.
  \<open>usize\<close> is 64 bits wide, as on the 64-bit targets the program is built for.
\<close>

datatype failure =
    IoUnexpectedEof
  | DecodePanic decode_error
  | WrongChannel
  | Blocked

datatype socket_addr =
    SocketAddrV4 "32 word" "16 word"
  | SocketAddrV6 "128 word" "16 word"

record tcp_stream =
  tcp_in :: bytes
  tcp_out :: bytes

record udp_socket =
  udp_in :: "(bytes \<times> socket_addr) list"
  udp_out :: "bytes list"

type_synonym usize = "64 word"

subsection \<open>Transport primitives\<close>

text \<open>\<open>Read::read_exact\<close> on the stream, unwrapped.\<close>

definition read_exact :: "nat \<Rightarrow> tcp_stream \<Rightarrow> failure + (bytes \<times> tcp_stream)" where
  "read_exact n s =
     (if length (tcp_in s) < n then Inl IoUnexpectedEof
      else Inr (take n (tcp_in s), s\<lparr>tcp_in := drop n (tcp_in s)\<rparr>))"

definition write_all :: "bytes \<Rightarrow> tcp_stream \<Rightarrow> tcp_stream" where
  "write_all bs s = s\<lparr>tcp_out := tcp_out s @ bs\<rparr>"

text \<open>\<open>UdpSocket::recv\<close>/\<open>recv_from\<close> into a buffer: it takes the next datagram
  (blocking while there is none), copies as much of it as fits over the front of the
  buffer and discards the rest of the datagram.\<close>

definition udp_recv_from ::
  "bytes \<Rightarrow> udp_socket \<Rightarrow> failure + ((bytes \<times> nat \<times> socket_addr) \<times> udp_socket)" where
  "udp_recv_from buf s = (case udp_in s of
       [] \<Rightarrow> Inl Blocked
     | (d, a) # ds \<Rightarrow>
         Inr ((take (length buf) d @ drop (length d) buf, min (length buf) (length d), a),
              s\<lparr>udp_in := ds\<rparr>))"

definition udp_send :: "bytes \<Rightarrow> udp_socket \<Rightarrow> udp_socket" where
  "udp_send d s = s\<lparr>udp_out := udp_out s @ [d]\<rparr>"

subsection \<open>\<open>PacketStreamReadExt\<close>\<close>

definition tcp_read_reliable :: "tcp_stream \<Rightarrow> failure + (reliable_packet \<times> tcp_stream)" where
  "tcp_read_reliable s = sbind (read_exact 4 s) (\<lambda>(hdr, s1).
     let size = (word_of_be hdr :: 32 word) in
     sbind (read_exact (unat size) s1) (\<lambda>(buf, s2).
       case read_decoded buf of Inl e \<Rightarrow> Inl (DecodePanic e) | Inr p \<Rightarrow> Inr (p, s2)))"

definition tcp_read_unreliable :: "tcp_stream \<Rightarrow> failure + ('u \<times> tcp_stream)" where
  "tcp_read_unreliable s = Inl WrongChannel"

definition tcp_read_unreliable_from ::
  "tcp_stream \<Rightarrow> failure + (('u \<times> socket_addr) \<times> tcp_stream)" where
  "tcp_read_unreliable_from s = Inl WrongChannel"

definition udp_read_reliable :: "udp_socket \<Rightarrow> failure + (reliable_packet \<times> udp_socket)" where
  "udp_read_reliable s = Inl WrongChannel"

text \<open>The UDP readers are generic in the decoder of \<open>UnreliablePacket\<close>, a type with
  no values whose derived decoder rejects every input.\<close>

definition udp_read_unreliable :: "'u decoder \<Rightarrow> udp_socket \<Rightarrow> failure + ('u \<times> udp_socket)" where
  "udp_read_unreliable dec s = sbind (udp_recv_from (replicate 4 0) s) (\<lambda>((hdr, _, _), s1).
     let size = (word_of_be hdr :: 32 word); buf = [] in
     sbind (udp_recv_from buf s1) (\<lambda>((buf', _, _), s2).
       case dec buf' of Inl e \<Rightarrow> Inl (DecodePanic e) | Inr (p, _) \<Rightarrow> Inr (p, s2)))"

definition udp_read_unreliable_from ::
  "'u decoder \<Rightarrow> udp_socket \<Rightarrow> failure + (('u \<times> socket_addr) \<times> udp_socket)" where
  "udp_read_unreliable_from dec s = sbind (udp_recv_from (replicate 4 0) s) (\<lambda>((hdr, _, addr), s1).
     let size = (word_of_be hdr :: 32 word); buf = [] in
     sbind (udp_recv_from buf s1) (\<lambda>((buf', _, _), s2).
       case dec buf' of Inl e \<Rightarrow> Inl (DecodePanic e) | Inr (p, _) \<Rightarrow> Inr ((p, addr), s2)))"

subsection \<open>\<open>PacketStreamWriteExt\<close>\<close>

text \<open>\<open>write_reliable\<close> on a TCP stream: the length prefix is \<open>buf.len().to_be_bytes()\<close>,
  the eight big-endian bytes of a \<open>usize\<close>.\<close>

definition tcp_write_reliable :: "reliable_packet \<Rightarrow> tcp_stream \<Rightarrow> tcp_stream" where
  "tcp_write_reliable p s =
     (let buf = write_encoded [] p;
          s1 = write_all (be_bytes 8 (word_of_nat (length buf) :: usize)) s
      in write_all buf s1)"

definition tcp_write_unreliable :: "'u \<Rightarrow> tcp_stream \<Rightarrow> failure option \<times> tcp_stream" where
  "tcp_write_unreliable u s = (Some WrongChannel, s)"

definition udp_write_reliable :: "reliable_packet \<Rightarrow> udp_socket \<Rightarrow> failure option \<times> udp_socket" where
  "udp_write_reliable p s = (Some WrongChannel, s)"

text \<open>\<open>write_unreliable\<close> on a UDP socket, step by step: \<open>split_off(0)\<close> moves the whole
  encoding into \<open>v\<close> and leaves \<open>buf\<close> empty, so the prefix is the length of the
  emptied buffer.\<close>

definition udp_write_unreliable :: "('u \<Rightarrow> bytes) \<Rightarrow> 'u \<Rightarrow> udp_socket \<Rightarrow> udp_socket" where
  "udp_write_unreliable enc u s =
     (let buf = enc u;
          v = drop 0 buf;
          buf = take 0 buf;
          buf = buf @ be_bytes 8 (word_of_nat (length buf) :: usize);
          buf = buf @ v
      in udp_send buf s)"

text \<open>The two implementations of \<open>PacketStreamWriteExt\<close> side by side: a transport is
  a TCP stream or a UDP socket, and a \<open>PacketAction\<close> is written with the method its
  variant names. The first component of the result is the panic, if any.\<close>

datatype transport = TcpTransport tcp_stream | UdpTransport udp_socket

fun write_action :: "('u \<Rightarrow> bytes) \<Rightarrow> 'u packet_action \<Rightarrow> transport \<Rightarrow> failure option \<times> transport" where
  "write_action enc (Reliable p) (TcpTransport s) = (None, TcpTransport (tcp_write_reliable p s))"
| "write_action enc (Reliable p) (UdpTransport s) = map_prod id UdpTransport (udp_write_reliable p s)"
| "write_action enc (Unreliable u) (TcpTransport s) = map_prod id TcpTransport (tcp_write_unreliable u s)"
| "write_action enc (Unreliable u) (UdpTransport s) = (None, UdpTransport (udp_write_unreliable enc u s))"

text \<open>The frame \<open>spec.md\<close> (section 6) describes: a four-byte big-endian length and the
  payload. It is the reference the reader and the writers are compared with.\<close>

definition spec_frame :: "bytes \<Rightarrow> bytes" where
  "spec_frame payload = be_bytes 4 (word_of_nat (length payload) :: 32 word) @ payload"

subsection \<open>Frames on the wire\<close>

lemma encode_reliable_short: "wf_reliable p \<Longrightarrow> length (encode_reliable p) < 2 ^ 32"
proof (cases p)
  case (Handshake port)
  then show ?thesis using length_varint_u16 [of port] by (simp add: length_encode_reliable)
next
  case (HandshakeRes pid)
  then show ?thesis using length_varint_u32 [of pid] by (simp add: length_encode_reliable)
next
  case (MovementInput ds rs)
  moreover assume "wf_reliable p"
  ultimately show ?thesis by (simp add: length_encode_reliable)
qed

lemma be_bytes_64_small:
  assumes "n < 2 ^ 32"
  shows "be_bytes 8 (word_of_nat n :: usize) = replicate 4 0 @ be_bytes 4 (word_of_nat n :: 32 word)"
proof -
  have u64: "unat (word_of_nat n :: usize) = n" using assms by (simp add: unat_of_nat)
  have u32: "unat (word_of_nat n :: 32 word) = n" using assms by (simp add: unat_of_nat)
  have "n < 256 ^ 4" using assms by simp
  then have "nat_to_le (4 + 4) n = nat_to_le 4 n @ replicate 4 0"
    by (rule nat_to_le_high_zero)
  then show ?thesis by (simp add: be_bytes_def le_bytes_def u64 u32)
qed

lemma tcp_out_write_reliable:
  "tcp_out (tcp_write_reliable p s) =
     tcp_out s @ be_bytes 8 (word_of_nat (length (encode_reliable p)) :: usize) @ encode_reliable p"
  by (simp add: tcp_write_reliable_def write_all_def write_encoded_def Let_def)

lemma read_exact_append: "read_exact (length xs) (s\<lparr>tcp_in := xs @ r\<rparr>) = Inr (xs, s\<lparr>tcp_in := r\<rparr>)"
  by (simp add: read_exact_def)

lemma read_decoded_Nil: "read_decoded [] = Inl UnexpectedEnd"
  by (simp add: read_decoded_def decode_reliable_def varint_decode_u32_Nil)

lemma le_to_nat_zeros: "le_to_nat (replicate n 0) = 0"
  by (induction n) simp_all

lemma word_of_be_zero: "word_of_be (replicate n 0) = 0"
  by (simp add: word_of_be_def word_of_le_def le_to_nat_zeros)

lemma tcp_reliable_frame_layout:
  assumes "wf_reliable p"
  shows "tcp_out (tcp_write_reliable p \<lparr>tcp_in = i, tcp_out = []\<rparr>)
      = replicate 4 0 @ be_bytes 4 (word_of_nat (length (encode_reliable p)) :: 32 word) @ encode_reliable p"
  using be_bytes_64_small [OF encode_reliable_short [OF assms]] by (simp add: tcp_out_write_reliable)

lemma tcp_read_reliable_zero_prefix:
  "tcp_read_reliable (s\<lparr>tcp_in := replicate 4 0 @ r\<rparr>) = Inl (DecodePanic UnexpectedEnd)"
proof -
  have hdr: "read_exact 4 (s\<lparr>tcp_in := replicate 4 0 @ r\<rparr>) = Inr (replicate 4 0, s\<lparr>tcp_in := r\<rparr>)"
    using read_exact_append [of "replicate 4 0"] by simp
  show ?thesis
    unfolding tcp_read_reliable_def by (simp add: hdr word_of_be_zero read_exact_def read_decoded_Nil)
qed

subsection \<open>Properties of the framing\<close>

text \<open>C2: a frame written by \<open>TcpStream::write_reliable\<close> cannot be read back by \<open>TcpStream::read_reliable\<close>: the writer puts an eight-byte \<open>usize\<close> length in front of the payload, the reader takes the first four bytes, which are the zero high half of that length, reads an empty payload and panics on \<open>UnexpectedEnd\<close>.\<close>

theorem reliable_frame_unreadable:
  assumes "wf_reliable p"
  shows "tcp_read_reliable (s\<lparr>tcp_in := tcp_out (tcp_write_reliable p \<lparr>tcp_in = i, tcp_out = []\<rparr>) @ rest\<rparr>)
     = Inl (DecodePanic UnexpectedEnd)"
  using tcp_read_reliable_zero_prefix [where s = s] by (simp add: tcp_reliable_frame_layout [OF assms])

text \<open>C26: \<open>TcpStream::read_reliable\<close> itself reads the frame of \<open>spec.md\<close>: on a four-byte big-endian length followed by the encoding of a well-formed packet it returns that packet and leaves exactly the bytes after the frame.\<close>

theorem spec_frame_read:
  assumes "wf_reliable p"
  shows "tcp_read_reliable (s\<lparr>tcp_in := spec_frame (encode_reliable p) @ rest\<rparr>) = Inr (p, s\<lparr>tcp_in := rest\<rparr>)"
proof -
  let ?e = "encode_reliable p"
  have short: "length ?e < 2 ^ 32" using assms by (rule encode_reliable_short)
  then have size: "unat (word_of_nat (length ?e) :: 32 word) = length ?e"
    by (simp add: unat_of_nat)
  have hdr: "read_exact 4 (s\<lparr>tcp_in := be_bytes 4 (word_of_nat (length ?e) :: 32 word) @ ?e @ rest\<rparr>)
      = Inr (be_bytes 4 (word_of_nat (length ?e) :: 32 word), s\<lparr>tcp_in := ?e @ rest\<rparr>)"
    using read_exact_append [of "be_bytes 4 (word_of_nat (length ?e) :: 32 word)"] by simp
  have dec: "read_decoded ?e = Inr p"
    using decode_encode_reliable [OF assms, of "[]"] by (simp add: read_decoded_def)
  show ?thesis
    by (simp add: spec_frame_def hdr tcp_read_reliable_def size read_exact_append dec)
qed

text \<open>every datagram \<open>UdpSocket::write_unreliable\<close> sends starts with eight zero bytes, whatever the payload: the length is taken after \<open>split_off(0)\<close> has emptied the buffer, so the prefix never states the payload length.\<close>

theorem unreliable_prefix_zero:
  "udp_out (udp_write_unreliable enc u s) = udp_out s @ [replicate 8 0 @ enc u]"
  by (simp add: udp_write_unreliable_def udp_send_def Let_def)

text \<open>C27: \<open>UdpSocket::read_unreliable\<close> never returns a packet: it receives the second datagram into an empty buffer, so the decoder sees no bytes; with fewer than two datagrams it blocks, otherwise it panics with the decoder's error.\<close>

theorem unreliable_read_never_returns:
  assumes "dec [] = Inl e"
  shows "udp_read_unreliable dec s = Inl (if length (udp_in s) < 2 then Blocked else DecodePanic e)"
  using assms
  by (auto simp: udp_read_unreliable_def udp_recv_from_def Let_def split: list.splits)

text \<open>C15: writing a \<open>PacketAction\<close> through the transport of the other channel panics with the wrong-channel message before any byte is written: the transport is returned unchanged.\<close>

theorem wrong_channel_no_write:
  assumes "(\<exists>p. a = Reliable p) \<noteq> (\<exists>s. t = TcpTransport s)"
  shows "write_action enc a t = (Some WrongChannel, t)"
  using assms
  by (cases a; cases t) (auto simp: udp_write_reliable_def tcp_write_unreliable_def)

subsection \<open>Witnesses\<close>

theorem reliable_frame_unreadable_witness:
  "wf_reliable (Handshake 7) \<and>
   tcp_read_reliable (\<lparr>tcp_in = [], tcp_out = []\<rparr>\<lparr>tcp_in :=
       tcp_out (tcp_write_reliable (Handshake 7) \<lparr>tcp_in = [], tcp_out = []\<rparr>) @ [1, 2]\<rparr>)
     = Inl (DecodePanic UnexpectedEnd)"
  using reliable_frame_unreadable [where p = "Handshake 7" and s = "\<lparr>tcp_in = [], tcp_out = []\<rparr>"
      and i = "[]" and rest = "[1, 2]"]
  by simp

theorem spec_frame_read_witness:
  "wf_reliable (HandshakeRes 9) \<and>
   tcp_read_reliable (\<lparr>tcp_in = [], tcp_out = []\<rparr>\<lparr>tcp_in := spec_frame (encode_reliable (HandshakeRes 9)) @ [3]\<rparr>)
     = Inr (HandshakeRes 9, \<lparr>tcp_in = [], tcp_out = []\<rparr>\<lparr>tcp_in := [3]\<rparr>)"
  using spec_frame_read [where p = "HandshakeRes 9" and s = "\<lparr>tcp_in = [], tcp_out = []\<rparr>" and rest = "[3]"]
  by simp

theorem unreliable_read_never_returns_witness:
  "decode_reliable [] = Inl UnexpectedEnd \<and>
   udp_read_unreliable decode_reliable
     \<lparr>udp_in = [([0, 0, 0, 2], SocketAddrV4 1 80), ([0, 5], SocketAddrV4 1 80)], udp_out = []\<rparr>
     = Inl (DecodePanic UnexpectedEnd)"
proof -
  have e: "decode_reliable [] = Inl UnexpectedEnd"
    by (simp add: decode_reliable_def varint_decode_u32_Nil)
  show ?thesis
    using unreliable_read_never_returns [where dec = decode_reliable and e = UnexpectedEnd
        and s = "\<lparr>udp_in = [([0, 0, 0, 2], SocketAddrV4 1 80), ([0, 5], SocketAddrV4 1 80)], udp_out = []\<rparr>"] e
    by simp
qed

theorem wrong_channel_no_write_witness:
  "((\<exists>p. (Reliable (Handshake 1) :: nat packet_action) = Reliable p) \<noteq>
     (\<exists>s. UdpTransport \<lparr>udp_in = [], udp_out = []\<rparr> = TcpTransport s)) \<and>
   write_action (\<lambda>n. [of_nat n]) (Reliable (Handshake 1) :: nat packet_action)
       (UdpTransport \<lparr>udp_in = [], udp_out = []\<rparr>)
     = (Some WrongChannel, UdpTransport \<lparr>udp_in = [], udp_out = []\<rparr>)"
  using wrong_channel_no_write [where a = "Reliable (Handshake 1) :: nat packet_action"
      and t = "UdpTransport \<lparr>udp_in = [], udp_out = []\<rparr>" and enc = "\<lambda>n. [of_nat n]"]
  by simp

end
