(* ===== verification/Input.thy ===== *)
theory Input
  imports Prelude
begin

text \<open>
  The input state tracker of the client, \<open>src/client/src/game_loop.rs\<close> (lines 12 to 72):
  \<open>FrameContext\<close> with its table of 163 key states, one per \<open>VirtualKeyCode\<close> of winit,
  each the last transition (pressed or released) with the frame counter at which it
  happened; the four queries and the keyboard handler. A key code is the index
  \<open>keycode as usize\<close>; winit's enumeration has exactly 163 variants, so every key
  code is below \<open>key_count\<close> and the indexing never goes out of range. The frame
  counter is a \<open>u64\<close>.
\<close>

datatype key_state = Pressed | Released

datatype element_state = ElementPressed | ElementReleased

type_synonym keycode = nat

record keyboard_input =
  ki_state :: element_state
  virtual_keycode :: "keycode option"

definition key_count :: nat where
  "key_count = 163"

record frame_context =
  is_fixed :: bool
  delta_time :: duration
  fixed_delta_time :: duration
  key_states :: "(key_state \<times> 64 word) list"
  frame :: "64 word"

text \<open>The context \<open>client_game_loop\<close> starts with.\<close>

definition initial_context :: frame_context where
  "initial_context =
     \<lparr>is_fixed = True, delta_time = 0, fixed_delta_time = 0,
      key_states = replicate key_count (Released, 0), frame = 1\<rparr>"

definition just_pressed :: "frame_context \<Rightarrow> keycode \<Rightarrow> bool" where
  "just_pressed ctx k \<longleftrightarrow> key_states ctx ! k = (Pressed, frame ctx)"

definition pressed :: "frame_context \<Rightarrow> keycode \<Rightarrow> bool" where
  "pressed ctx k \<longleftrightarrow> fst (key_states ctx ! k) = Pressed"

definition just_released :: "frame_context \<Rightarrow> keycode \<Rightarrow> bool" where
  "just_released ctx k \<longleftrightarrow> key_states ctx ! k = (Released, frame ctx)"

definition released :: "frame_context \<Rightarrow> keycode \<Rightarrow> bool" where
  "released ctx k \<longleftrightarrow> fst (key_states ctx ! k) = Released"

text \<open>\<open>handle_keyboard_event\<close>: a key event without a virtual key code is ignored; a
  press is recorded only on a released key and a release only on a pressed one, each
  stamped with the current frame.\<close>

definition handle_keyboard_event :: "frame_context \<Rightarrow> keyboard_input \<Rightarrow> frame_context" where
  "handle_keyboard_event ctx input = (case virtual_keycode input of
       None \<Rightarrow> ctx
     | Some k \<Rightarrow> (case ki_state input of
          ElementPressed \<Rightarrow>
            if fst (key_states ctx ! k) = Released
            then ctx\<lparr>key_states := (key_states ctx)[k := (Pressed, frame ctx)]\<rparr> else ctx
        | ElementReleased \<Rightarrow>
            if fst (key_states ctx ! k) = Pressed
            then ctx\<lparr>key_states := (key_states ctx)[k := (Released, frame ctx)]\<rparr> else ctx))"

text \<open>\<open>ctx.frame += 1\<close> at the end of a redraw (line 154). In a release build a \<open>u64\<close>
  wraps; the counter would need 2^64 frames to get there.\<close>

definition advance_frame :: "frame_context \<Rightarrow> frame_context" where
  "advance_frame ctx = ctx\<lparr>frame := frame ctx + 1\<rparr>"

text \<open>The table has one entry per key code.\<close>

definition wf_context :: "frame_context \<Rightarrow> bool" where
  "wf_context ctx \<longleftrightarrow> length (key_states ctx) = key_count"

definition press :: "keycode \<Rightarrow> keyboard_input" where
  "press k = \<lparr>ki_state = ElementPressed, virtual_keycode = Some k\<rparr>"

definition release :: "keycode \<Rightarrow> keyboard_input" where
  "release k = \<lparr>ki_state = ElementReleased, virtual_keycode = Some k\<rparr>"

subsection \<open>Frame and table lemmas\<close>

lemma handle_keyboard_event_fields [simp]:
  "frame (handle_keyboard_event ctx i) = frame ctx"
  "is_fixed (handle_keyboard_event ctx i) = is_fixed ctx"
  "delta_time (handle_keyboard_event ctx i) = delta_time ctx"
  "fixed_delta_time (handle_keyboard_event ctx i) = fixed_delta_time ctx"
  "length (key_states (handle_keyboard_event ctx i)) = length (key_states ctx)"
  by (simp_all add: handle_keyboard_event_def split: option.splits element_state.splits)

lemma handle_keyboard_event_other_key:
  "virtual_keycode i \<noteq> Some k \<Longrightarrow>
   key_states (handle_keyboard_event ctx i) ! k = key_states ctx ! k"
  by (auto simp: handle_keyboard_event_def split: option.splits element_state.splits)

lemma advance_frame_fields [simp]:
  "key_states (advance_frame ctx) = key_states ctx"
  "frame (advance_frame ctx) = frame ctx + 1"
  by (simp_all add: advance_frame_def)

lemma key_state_cases: "fst (key_states ctx ! k) = Released \<longleftrightarrow> \<not> fst (key_states ctx ! k) = Pressed"
  by (cases "fst (key_states ctx ! k)") simp_all

lemma advance_frame_funpow [simp]:
  "key_states ((advance_frame ^^ n) ctx) = key_states ctx"
  "frame ((advance_frame ^^ n) ctx) = frame ctx + of_nat n"
  by (induction n) (simp_all add: algebra_simps)

lemma word64_of_nat_eq_0: "(of_nat n :: 64 word) = 0 \<longleftrightarrow> 2 ^ 64 dvd n"
  by (simp add: word_of_nat_eq_0_iff)

subsection \<open>Properties of the input tracker\<close>

text \<open>the key-state table keeps one entry per key code: \<open>handle_keyboard_event\<close> and the frame increment preserve its length.\<close>

theorem context_wf_preserved:
  assumes "wf_context ctx"
  shows "wf_context (handle_keyboard_event ctx i) \<and> wf_context (advance_frame ctx)"
  using assms by (simp add: wf_context_def advance_frame_def)

text \<open>C4: edge triggering: pressing a released key makes \<open>just_pressed\<close> true in the frame of the press; one frame later \<open>just_pressed\<close> is false while \<open>pressed\<close> stays true.\<close>

theorem edge_trigger_press:
  assumes "wf_context ctx" and "k < key_count" and "released ctx k"
  shows "just_pressed (handle_keyboard_event ctx (press k)) k \<and>
         \<not> just_pressed (advance_frame (handle_keyboard_event ctx (press k))) k \<and>
         pressed (advance_frame (handle_keyboard_event ctx (press k))) k"
  using assms
  by (simp add: wf_context_def just_pressed_def pressed_def released_def handle_keyboard_event_def press_def)

text \<open>C17: the frame counter is a \<open>u64\<close> that wraps: after a key is pressed, \<open>just_pressed\<close> holds after exactly those numbers \<open>n\<close> of frame increments that are multiples of \<open>2^64\<close> (so in the frame of the press, never in the next \<open>2^64 - 1\<close> frames, and again when the counter has wrapped), as long as no further event for the key arrives.\<close>

theorem just_pressed_wraps:
  assumes "wf_context ctx" and "k < key_count" and "released ctx k"
  shows "just_pressed ((advance_frame ^^ n) (handle_keyboard_event ctx (press k))) k \<longleftrightarrow> 2 ^ 64 dvd n"
proof -
  have "key_states (handle_keyboard_event ctx (press k)) ! k = (Pressed, frame ctx)"
    using assms by (simp add: wf_context_def released_def handle_keyboard_event_def press_def)
  then show ?thesis by (simp add: just_pressed_def word64_of_nat_eq_0)
qed

text \<open>a press event for a key that is already pressed (keyboard auto-repeat) leaves the context unchanged, so a held key is never reported as freshly pressed again.\<close>

theorem repeat_press_ignored:
  "pressed ctx k \<Longrightarrow> handle_keyboard_event ctx (press k) = ctx"
  by (simp add: pressed_def handle_keyboard_event_def press_def)

text \<open>the loop starts at frame 1 with every key released at frame 0, so no key is pressed and none is reported as just released in the first frame.\<close>

theorem initial_keys_released:
  "k < key_count \<Longrightarrow> wf_context initial_context \<and> released initial_context k \<and>
     \<not> just_released initial_context k \<and> \<not> pressed initial_context k"
  by (simp add: initial_context_def wf_context_def released_def just_released_def pressed_def)

text \<open>C32: a key pressed and released within one frame is never seen as \<open>just_pressed\<close>: the release overwrites the press stamp and only \<open>just_released\<close> holds.\<close>

theorem tap_within_frame_lost:
  assumes "wf_context ctx" and "k < key_count" and "released ctx k"
  shows "\<not> just_pressed (handle_keyboard_event (handle_keyboard_event ctx (press k)) (release k)) k \<and>
         just_released (handle_keyboard_event (handle_keyboard_event ctx (press k)) (release k)) k"
  using assms
  by (simp add: wf_context_def just_pressed_def just_released_def released_def handle_keyboard_event_def press_def release_def)

subsection \<open>Witnesses\<close>

theorem context_wf_preserved_witness:
  "wf_context initial_context \<and>
   wf_context (handle_keyboard_event initial_context (press 10)) \<and> wf_context (advance_frame initial_context)"
proof -
  have w: "wf_context initial_context" by (simp add: initial_context_def wf_context_def)
  show ?thesis using context_wf_preserved [OF w, of "press 10"] w by simp
qed

theorem edge_trigger_press_witness:
  "wf_context initial_context \<and> 10 < key_count \<and> released initial_context 10 \<and>
   just_pressed (handle_keyboard_event initial_context (press 10)) 10 \<and>
   \<not> just_pressed (advance_frame (handle_keyboard_event initial_context (press 10))) 10 \<and>
   pressed (advance_frame (handle_keyboard_event initial_context (press 10))) 10"
proof -
  have h: "wf_context initial_context" "10 < key_count" "released initial_context 10"
    by (simp_all add: initial_context_def wf_context_def key_count_def released_def)
  show ?thesis using edge_trigger_press [OF h] h by simp
qed

theorem just_pressed_wraps_witness:
  "wf_context initial_context \<and> 10 < key_count \<and> released initial_context 10 \<and>
   \<not> just_pressed ((advance_frame ^^ 5) (handle_keyboard_event initial_context (press 10))) 10 \<and>
   just_pressed ((advance_frame ^^ (2 ^ 64)) (handle_keyboard_event initial_context (press 10))) 10"
proof -
  have h: "wf_context initial_context" "10 < key_count" "released initial_context 10"
    by (simp_all add: initial_context_def wf_context_def key_count_def released_def)
  show ?thesis using just_pressed_wraps [OF h, of 5] just_pressed_wraps [OF h, of "2 ^ 64"] h by simp
qed

theorem repeat_press_ignored_witness:
  "pressed (handle_keyboard_event initial_context (press 10)) 10 \<and>
   handle_keyboard_event (handle_keyboard_event initial_context (press 10)) (press 10)
     = handle_keyboard_event initial_context (press 10)"
proof -
  have h: "pressed (handle_keyboard_event initial_context (press 10)) 10"
    by (simp add: pressed_def handle_keyboard_event_def press_def initial_context_def key_count_def)
  show ?thesis using repeat_press_ignored [OF h] h by simp
qed

theorem initial_keys_released_witness:
  "0 < key_count \<and> wf_context initial_context \<and> released initial_context 0 \<and>
   \<not> just_released initial_context 0 \<and> \<not> pressed initial_context 0"
  using initial_keys_released [of 0] by (simp add: key_count_def)

theorem tap_within_frame_lost_witness:
  "wf_context initial_context \<and> 10 < key_count \<and> released initial_context 10 \<and>
   \<not> just_pressed (handle_keyboard_event (handle_keyboard_event initial_context (press 10)) (release 10)) 10 \<and>
   just_released (handle_keyboard_event (handle_keyboard_event initial_context (press 10)) (release 10)) 10"
proof -
  have h: "wf_context initial_context" "10 < key_count" "released initial_context 10"
    by (simp_all add: initial_context_def wf_context_def key_count_def released_def)
  show ?thesis using tap_within_frame_lost [OF h] h by simp
qed

end
