(* ===== verification/Renderer.thy ===== *)
theory Renderer
  imports Complex_Main Prelude
begin

text \<open>
  The client's drawing layer: \<open>Renderer\<close> of \<open>src/client/src/renderer.rs\<close>
  (\<open>new\<close>, \<open>resize\<close>, and the frame path \<open>get_output\<close>, \<open>create_texture_view\<close>,
  \<open>create_command_encoder\<close>, \<open>create_render_pass\<close>, \<open>present\<close>) and \<open>UiRenderer\<close>
  of \<open>src/client/src/ui_renderer.rs\<close> (\<open>new\<close> and \<open>render\<close>). wgpu and imgui are
  libraries: what the adapter reports (\<open>get_capabilities\<close>) is an input, a failed
  \<open>unwrap\<close> or \<open>expect\<close> is \<open>Inl ()\<close>, and the effects the program has on the
  surface and the queue are recorded in the renderer: each \<open>surface.configure\<close> in
  \<open>configured\<close>, each \<open>queue.submit\<close> in \<open>submitted\<close>, each \<open>present\<close> in
  \<open>presented\<close>. A render pass records its attachment settings and the commands
  drawn into it.
\<close>

record physical_size =
  ps_width :: "32 word"
  ps_height :: "32 word"

record texture_format =
  tf_id :: nat
  tf_is_srgb :: bool

record surface_capabilities =
  cap_formats :: "texture_format list"
  cap_present_modes :: "nat list"
  cap_alpha_modes :: "nat list"

record surface_configuration =
  sc_format :: texture_format
  sc_width :: "32 word"
  sc_height :: "32 word"
  sc_present_mode :: nat
  sc_alpha_mode :: nat

subsection \<open>Frames: textures, passes and command buffers\<close>

text \<open>The wgpu objects a frame goes through, with what the program puts in them:
  the texture \<open>get_current_texture\<close> hands out (it has the surface's current
  configuration), the view on it, the colour attachment's operations, and the
  commands recorded in a render pass. imgui draws into the pass; its draw data is
  the list of widgets the UI callback declared.\<close>

record color =
  red :: real
  green :: real
  blue :: real
  alpha :: real

datatype load_op = Clear color | Load

record operations =
  ops_load :: load_op
  ops_store :: bool

record surface_texture =
  texture_config :: surface_configuration

record texture_view =
  view_config :: surface_configuration

datatype ui_condition = Always | Once | FirstUseEver | Appearing

datatype ui_widget =
    ImguiWindow string "real \<times> real" ui_condition "ui_widget list"
  | ImguiText string

datatype draw_cmd = ImguiDraw "ui_widget list"

record render_pass =
  rp_label :: "string option"
  rp_view :: texture_view
  rp_ops :: operations
  rp_depth_stencil :: bool
  rp_draws :: "draw_cmd list"

record command_encoder =
  enc_label :: "string option"
  enc_passes :: "render_pass list"

text \<open>\<open>Renderer\<close>: the surface configuration, the window size, and the effects on
  the surface and the queue the program causes: every configuration given to the
  surface, every command buffer submitted to the queue, and every texture
  presented.\<close>

record renderer =
  surface_config :: surface_configuration
  renderer_size :: physical_size
  configured :: "surface_configuration list"
  submitted :: "render_pass list list"
  presented :: "surface_configuration list"

text \<open>\<open>Renderer::new\<close>: \<open>None\<close> for the capabilities when creating the surface,
  the adapter or the device fails. The format is the first sRGB one, else
  \<open>formats[0]\<close>; that index, like \<open>present_modes[0]\<close> and \<open>alpha_modes[0]\<close>, is
  evaluated in any case and panics on an empty list.\<close>

definition renderer_new :: "physical_size \<Rightarrow> surface_capabilities option \<Rightarrow> unit + renderer" where
  "renderer_new window_size caps =
     (case caps of
        None \<Rightarrow> Inl ()
      | Some c \<Rightarrow>
          if cap_formats c = [] \<or> cap_present_modes c = [] \<or> cap_alpha_modes c = [] then Inl ()
          else
            let surface_format = (case find tf_is_srgb (cap_formats c) of
                                    Some f \<Rightarrow> f | None \<Rightarrow> cap_formats c ! 0);
                cfg = \<lparr>sc_format = surface_format, sc_width = ps_width window_size, sc_height = ps_height window_size,
                       sc_present_mode = cap_present_modes c ! 0, sc_alpha_mode = cap_alpha_modes c ! 0\<rparr>
            in Inr \<lparr>surface_config = cfg, renderer_size = window_size, configured = [cfg],
                   submitted = [], presented = []\<rparr>)"

definition resize :: "renderer \<Rightarrow> physical_size \<Rightarrow> renderer" where
  "resize r new_size =
     (if ps_width new_size > 0 \<and> ps_height new_size > 0 then
        let cfg = (surface_config r)\<lparr>sc_width := ps_width new_size, sc_height := ps_height new_size\<rparr>
        in r\<lparr>renderer_size := new_size, surface_config := cfg, configured := configured r @ [cfg]\<rparr>
      else r)"

text \<open>\<open>get_output\<close>: \<open>get_current_texture().unwrap()\<close>; \<open>available\<close> is whether the
  surface yields a texture.\<close>

definition get_output :: "renderer \<Rightarrow> bool \<Rightarrow> unit + surface_texture" where
  "get_output r available = (if available then Inr \<lparr>texture_config = surface_config r\<rparr> else Inl ())"

text \<open>\<open>create_texture_view\<close> with the default descriptor: a view of the whole texture.\<close>

definition create_texture_view :: "renderer \<Rightarrow> surface_texture \<Rightarrow> texture_view" where
  "create_texture_view r output = \<lparr>view_config = texture_config output\<rparr>"

definition create_command_encoder :: "renderer \<Rightarrow> command_encoder" where
  "create_command_encoder r = \<lparr>enc_label = Some ''Render Encoder'', enc_passes = []\<rparr>"

text \<open>\<open>create_render_pass\<close>: one colour attachment on the view, cleared to
  \<open>(0.1, 0.2, 0.3, 1.0)\<close> and stored, no resolve target and no depth-stencil
  attachment. The pass is recorded into the encoder when it is dropped, at the end
  of the block that uses it.\<close>

definition create_render_pass :: "renderer \<Rightarrow> command_encoder \<Rightarrow> texture_view \<Rightarrow> render_pass" where
  "create_render_pass r encoder view =
     \<lparr>rp_label = None, rp_view = view,
      rp_ops = \<lparr>ops_load = Clear \<lparr>red = 0.1, green = 0.2, blue = 0.3, alpha = 1.0\<rparr>, ops_store = True\<rparr>,
      rp_depth_stencil = False, rp_draws = []\<rparr>"

text \<open>\<open>present\<close>: \<open>queue.submit(once(command_encoder.finish()))\<close>, then
  \<open>output.present()\<close>.\<close>

definition present :: "renderer \<Rightarrow> surface_texture \<Rightarrow> command_encoder \<Rightarrow> renderer" where
  "present r output command_encoder =
     (let r = r\<lparr>submitted := submitted r @ [enc_passes command_encoder]\<rparr>
      in r\<lparr>presented := presented r @ [texture_config output]\<rparr>)"

text \<open>The surface configuration agrees with the size the renderer tracks, and is the
  last configuration the surface was given.\<close>

definition renderer_wf :: "renderer \<Rightarrow> bool" where
  "renderer_wf r \<longleftrightarrow>
     sc_width (surface_config r) = ps_width (renderer_size r) \<and>
     sc_height (surface_config r) = ps_height (renderer_size r) \<and>
     configured r \<noteq> [] \<and> last (configured r) = surface_config r"

subsection \<open>The UI renderer\<close>

type_synonym mouse_cursor = nat

text \<open>The settings \<open>UiRenderer::new\<close> gives the imgui context: no ini file, the
  global font scale, and the one font it adds (\<open>FontConfig\<close> with
  \<open>oversample_h\<close>, \<open>pixel_snap_h\<close> and \<open>size_pixels\<close>, the rest default).\<close>

record imgui_config =
  ini_filename :: "string option"
  font_global_scale :: real
  font_oversample_h :: nat
  font_pixel_snap_h :: bool
  font_size_pixels :: real

text \<open>\<open>UiRenderer\<close>: the imgui context's settings, the texture format the
  \<open>imgui_wgpu\<close> renderer was built for, and the cursor cache. The winit platform
  and the imgui renderer's GPU objects carry no state the program reads.\<close>

record ui_renderer =
  imgui :: imgui_config
  imgui_texture_format :: texture_format
  last_cursor :: "mouse_cursor option option"

text \<open>\<open>UiRenderer::new(window, renderer)\<close>: \<open>scale_factor\<close> is
  \<open>window.scale_factor()\<close>. The \<open>f64\<close> arithmetic and the \<open>as f32\<close> casts are
  taken exactly, over the reals. The imgui renderer is configured with the
  format of the renderer's surface configuration.\<close>

definition ui_renderer_new :: "real \<Rightarrow> renderer \<Rightarrow> ui_renderer" where
  "ui_renderer_new scale_factor r =
     (let font_size = 13 * scale_factor;
          cfg = \<lparr>ini_filename = None, font_global_scale = 1 / scale_factor,
                 font_oversample_h = 1, font_pixel_snap_h = True, font_size_pixels = font_size\<rparr>
      in \<lparr>imgui = cfg, imgui_texture_format = sc_format (surface_config r), last_cursor = None\<rparr>)"

text \<open>One \<open>render\<close>: \<open>prepare_frame(...).expect\<close>, the UI callback, then
  \<open>prepare_render\<close> only when the cursor differs from the cached one, then the imgui
  render \<open>expect\<close>. The result says whether \<open>prepare_render\<close> ran.\<close>

definition update_cursor :: "mouse_cursor option \<Rightarrow> ui_renderer \<Rightarrow> bool \<times> ui_renderer" where
  "update_cursor mouse_cursor_option u =
     (if last_cursor u \<noteq> Some mouse_cursor_option
      then (True, u\<lparr>last_cursor := Some mouse_cursor_option\<rparr>)
      else (False, u))"

definition ui_render ::
  "(ui_widget list \<Rightarrow> ui_widget list) \<Rightarrow> bool \<Rightarrow> mouse_cursor option \<Rightarrow> bool \<Rightarrow> ui_renderer \<Rightarrow> render_pass
   \<Rightarrow> unit + (bool \<times> ui_renderer \<times> render_pass)" where
  "ui_render ui_fn prepare_ok mouse_cursor_option render_ok u render_pass =
     (if \<not> prepare_ok then Inl ()
      else
        let ui = ui_fn [];
            (prepared, u) = update_cursor mouse_cursor_option u
        in if \<not> render_ok then Inl ()
           else Inr (prepared, u, render_pass\<lparr>rp_draws := rp_draws render_pass @ [ImguiDraw ui]\<rparr>))"

text \<open>Successive frames whose imgui calls succeed, with the cursor each frame reports
  (by \<open>ui_render_cursor\<close> below, each such \<open>render\<close> updates the cache as
  \<open>update_cursor\<close> does); the result lists whether each frame called
  \<open>prepare_render\<close>.\<close>

fun ui_render_frames :: "mouse_cursor option list \<Rightarrow> ui_renderer \<Rightarrow> bool list \<times> ui_renderer" where
  "ui_render_frames [] u = ([], u)"
| "ui_render_frames (c # cs) u =
     (let (p, u') = update_cursor c u; (ps, u'') = ui_render_frames cs u' in (p # ps, u''))"

subsection \<open>Lemmas\<close>

lemma update_cursor_eq:
  "update_cursor c u = (last_cursor u \<noteq> Some c, u\<lparr>last_cursor := Some c\<rparr>)"
  by (simp add: update_cursor_def)

lemma ui_render_cursor:
  "ui_render f p c ok u pass = Inr (b, u', pass') \<longleftrightarrow>
   p \<and> ok \<and> (b, u') = update_cursor c u \<and> pass' = pass\<lparr>rp_draws := rp_draws pass @ [ImguiDraw (f [])]\<rparr>"
  by (auto simp: ui_render_def Let_def split: prod.splits)

lemma ui_render_fail: "\<not> (p \<and> ok) \<Longrightarrow> ui_render f p c ok u pass = Inl ()"
  by (auto simp: ui_render_def Let_def split: prod.splits)

lemma present_fields [simp]:
  "surface_config (present r o' e) = surface_config r"
  "renderer_size (present r o' e) = renderer_size r"
  "configured (present r o' e) = configured r"
  "submitted (present r o' e) = submitted r @ [enc_passes e]"
  "presented (present r o' e) = presented r @ [texture_config o']"
  by (simp_all add: present_def Let_def)

lemma resize_effects [simp]:
  "submitted (resize r s) = submitted r" "presented (resize r s) = presented r"
  by (simp_all add: resize_def Let_def)

lemma resize_format [simp]: "sc_format (surface_config (resize r s)) = sc_format (surface_config r)"
  by (simp add: resize_def Let_def)

lemma ui_render_frames_cached:
  "last_cursor u = Some c0 \<Longrightarrow>
   count_list (fst (ui_render_frames cs u)) True = length (remdups_adj (c0 # cs)) - 1"
proof (induction cs arbitrary: c0 u)
  case Nil
  then show ?case by simp
next
  case (Cons c cs)
  show ?case
  proof (cases "c = c0")
    case True
    then show ?thesis using Cons.IH [of "u\<lparr>last_cursor := Some c\<rparr>" c0] Cons.prems by (simp add: update_cursor_eq split_def Let_def)
  next
    case False
    then show ?thesis using Cons.IH [of "u\<lparr>last_cursor := Some c\<rparr>" c] Cons.prems by (simp add: update_cursor_eq split_def Let_def)
  qed
qed

lemma resize_wf: "renderer_wf r \<Longrightarrow> renderer_wf (resize r s)"
  by (simp add: renderer_wf_def resize_def Let_def)

lemma renderer_new_result:
  assumes "renderer_new ws caps = Inr r"
  shows "renderer_wf r \<and> configured r = [surface_config r] \<and> renderer_size r = ws \<and>
   (\<exists>c. caps = Some c \<and> (if list_ex tf_is_srgb (cap_formats c) then tf_is_srgb (sc_format (surface_config r))
                          else sc_format (surface_config r) = hd (cap_formats c)))"
proof -
  obtain c where c: "caps = Some c" and ne: "cap_formats c \<noteq> []" "cap_present_modes c \<noteq> []" "cap_alpha_modes c \<noteq> []"
    using assms by (auto simp: renderer_new_def split: option.splits if_splits)
  show ?thesis
  proof (cases "find tf_is_srgb (cap_formats c)")
    case None
    then have "\<not> list_ex tf_is_srgb (cap_formats c)" by (simp add: find_None_iff list_ex_iff)
    then show ?thesis using assms c ne None
      by (auto simp: renderer_new_def renderer_wf_def Let_def hd_conv_nth)
  next
    case (Some f)
    then have "list_ex tf_is_srgb (cap_formats c)" "tf_is_srgb f"
      by (auto simp: find_Some_iff list_ex_iff)
    then show ?thesis using assms c ne Some
      by (auto simp: renderer_new_def renderer_wf_def Let_def)
  qed
qed

text \<open>\<open>Renderer::new\<close> has no zero-size guard: a window created minimised configures the surface with width and height 0, which \<open>resize\<close> takes care never to do.\<close>

lemma renderer_new_zero_size:
  "renderer_new \<lparr>ps_width = 0, ps_height = 0\<rparr> (Some \<lparr>cap_formats = [\<lparr>tf_id = 0, tf_is_srgb = True\<rparr>],
       cap_present_modes = [0], cap_alpha_modes = [0]\<rparr>)
   = Inr \<lparr>surface_config = \<lparr>sc_format = \<lparr>tf_id = 0, tf_is_srgb = True\<rparr>, sc_width = 0, sc_height = 0,
            sc_present_mode = 0, sc_alpha_mode = 0\<rparr>,
          renderer_size = \<lparr>ps_width = 0, ps_height = 0\<rparr>,
          configured = [\<lparr>sc_format = \<lparr>tf_id = 0, tf_is_srgb = True\<rparr>, sc_width = 0, sc_height = 0,
            sc_present_mode = 0, sc_alpha_mode = 0\<rparr>], submitted = [], presented = []\<rparr>"
  by (simp add: renderer_new_def Let_def)

subsection \<open>Properties of the drawing layer\<close>

text \<open>C28: the UI renderer calls \<open>prepare_render\<close> exactly once per change of mouse cursor: over any sequence of frames starting from \<open>UiRenderer::new\<close>, the number of calls equals the number of runs of equal cursors in the sequence, \<open>remdups_adj\<close> of the library.\<close>

theorem prepare_render_once_per_cursor_change:
  "count_list (fst (ui_render_frames cs (ui_renderer_new sf r))) True = length (remdups_adj cs)"
proof (cases cs)
  case Nil
  then show ?thesis by simp
next
  case (Cons c cs')
  then show ?thesis
    using ui_render_frames_cached [of "(ui_renderer_new sf r)\<lparr>last_cursor := Some c\<rparr>" c cs']
    by (simp add: update_cursor_eq ui_renderer_new_def split_def Let_def)
qed

text \<open>C24: \<open>Renderer::resize\<close> keeps the surface configuration equal to the tracked size and the last configuration given to the surface; a resize to a zero width or height (a minimised window) changes nothing and configures nothing, any other resize configures the surface exactly once with the new size.\<close>

theorem resize_guard:
  "renderer_wf r \<Longrightarrow>
   renderer_wf (resize r s) \<and>
   (ps_width s = 0 \<or> ps_height s = 0 \<longrightarrow> resize r s = r) \<and>
   (0 < ps_width s \<and> 0 < ps_height s \<longrightarrow>
      renderer_size (resize r s) = s \<and> length (configured (resize r s)) = Suc (length (configured r)))"
  by (auto simp: renderer_wf_def resize_def Let_def)

subsection \<open>Witnesses\<close>

theorem resize_guard_witness:
  "renderer_wf (projr (renderer_new \<lparr>ps_width = 800, ps_height = 600\<rparr> (Some \<lparr>cap_formats = [\<lparr>tf_id = 0, tf_is_srgb = True\<rparr>],
       cap_present_modes = [0], cap_alpha_modes = [0]\<rparr>))) \<and>
   resize (projr (renderer_new \<lparr>ps_width = 800, ps_height = 600\<rparr> (Some \<lparr>cap_formats = [\<lparr>tf_id = 0, tf_is_srgb = True\<rparr>],
       cap_present_modes = [0], cap_alpha_modes = [0]\<rparr>))) \<lparr>ps_width = 0, ps_height = 600\<rparr>
     = projr (renderer_new \<lparr>ps_width = 800, ps_height = 600\<rparr> (Some \<lparr>cap_formats = [\<lparr>tf_id = 0, tf_is_srgb = True\<rparr>],
       cap_present_modes = [0], cap_alpha_modes = [0]\<rparr>))"
proof -
  have h: "renderer_wf (projr (renderer_new \<lparr>ps_width = 800, ps_height = 600\<rparr> (Some \<lparr>cap_formats = [\<lparr>tf_id = 0, tf_is_srgb = True\<rparr>],
       cap_present_modes = [0], cap_alpha_modes = [0]\<rparr>)))"
    by (simp add: renderer_new_def renderer_wf_def Let_def)
  show ?thesis using resize_guard [OF h, of "\<lparr>ps_width = 0, ps_height = 600\<rparr>"] h by simp
qed

end
