(* ===== verification/ClientPlayer.thy ===== *)
theory ClientPlayer
  imports Codec Input Renderer
begin

text \<open>
  The client's state and player: \<open>Player\<close> and its movement
  (\<open>src/client/src/player.rs\<close>), \<open>ClientState\<close> with its outbound packet queue
  (\<open>src/client/src/state.rs\<close>), and \<open>update\<close> of \<open>src/client/src/main.rs\<close>,
  the per-iteration callback of the client loop, which reads the movement keys into
  the player and queues a \<open>MovementInput\<close>.
\<close>

subsection \<open>Player and state\<close>

record player_movement =
  mv_directions :: "bool list"
  mv_rotations :: "f32 list"

record client_player =
  cp_id :: "32 word"
  cp_movement :: player_movement

definition new_client_player :: "32 word \<Rightarrow> client_player" where
  "new_client_player i =
     \<lparr>cp_id = i, cp_movement = \<lparr>mv_directions = replicate 6 False, mv_rotations = replicate 2 0\<rparr>\<rparr>"

text \<open>The modelled part of \<open>ClientState\<close>: the renderer, the player, the window's
  identity and scale factor, and the sending end of the outbound \<open>PacketAction\<close> channel (the two
  receivers are never read by the client). \<open>UnreliablePacket\<close> is the type
  parameter \<open>'u\<close>.\<close>

record 'u client_state =
  renderer :: renderer
  player :: client_player
  window_id :: nat
  window_scale_factor :: real
  packet_action_sender :: "'u packet_action channel"

definition send_packet_action :: "'u client_state \<Rightarrow> 'u packet_action \<Rightarrow> unit + 'u client_state" where
  "send_packet_action st a =
     (case chan_send a (packet_action_sender st) of
        Inl e \<Rightarrow> Inl e
      | Inr c \<Rightarrow> Inr (st\<lparr>packet_action_sender := c\<rparr>))"

definition send_reliable_packet :: "'u client_state \<Rightarrow> reliable_packet \<Rightarrow> unit + 'u client_state" where
  "send_reliable_packet st p = send_packet_action st (Reliable p)"

definition send_unreliable_packet :: "'u client_state \<Rightarrow> 'u \<Rightarrow> unit + 'u client_state" where
  "send_unreliable_packet st u = send_packet_action st (Unreliable u)"

text \<open>The winit key codes the movement reads, in the order of \<open>directions\<close>:
  \<open>A\<close>, \<open>W\<close>, \<open>D\<close>, \<open>S\<close>, \<open>LShift\<close>, \<open>Space\<close> (their positions in winit's
  \<open>VirtualKeyCode\<close>).\<close>

definition key_A :: keycode where "key_A = 10"
definition key_W :: keycode where "key_W = 32"
definition key_D :: keycode where "key_D = 13"
definition key_S :: keycode where "key_S = 28"
definition key_LShift :: keycode where "key_LShift = 118"
definition key_Space :: keycode where "key_Space = 76"

definition update_player_movement :: "frame_context \<Rightarrow> 'u client_state \<Rightarrow> 'u client_state" where
  "update_player_movement ctx st =
     (let m = cp_movement (player st);
          ds = mv_directions m;
          ds = ds[0 := pressed ctx key_A];
          ds = ds[1 := pressed ctx key_W];
          ds = ds[2 := pressed ctx key_D];
          ds = ds[3 := pressed ctx key_S];
          ds = ds[4 := pressed ctx key_LShift];
          ds = ds[5 := pressed ctx key_Space];
          rs = mv_rotations m;
          rs = rs[0 := 0];
          rs = rs[1 := 0]
      in st\<lparr>player := (player st)\<lparr>cp_movement := \<lparr>mv_directions = ds, mv_rotations = rs\<rparr>\<rparr>\<rparr>)"

definition send_player_movement_packet :: "frame_context \<Rightarrow> 'u client_state \<Rightarrow> unit + 'u client_state" where
  "send_player_movement_packet ctx st =
     (let m = cp_movement (player st) in
      send_reliable_packet st (MovementInput (mv_directions m) (mv_rotations m)))"

text \<open>\<open>update\<close> of \<open>main.rs\<close>, the \<open>on_update\<close> callback: it runs on every
  iteration, fixed or not.\<close>

definition client_update :: "frame_context \<Rightarrow> 'u client_state \<Rightarrow> unit + 'u client_state" where
  "client_update ctx st = send_player_movement_packet ctx (update_player_movement ctx st)"

text \<open>\<open>ui\<close> of \<open>main.rs\<close>, the \<open>on_ui\<close> callback: it declares one imgui window
  \<open>"sask"\<close> of size 300 by 200 (applied the first time it is used) holding one line
  of text; it reads neither the context nor the state.\<close>

definition client_ui :: "frame_context \<Rightarrow> 'u client_state \<Rightarrow> ui_widget list \<Rightarrow> ui_widget list" where
  "client_ui ctx st ui = ui @ [ImguiWindow ''sask'' (300, 200) FirstUseEver [ImguiText ''velho calvo'']]"

text \<open>\<open>render\<close> of \<open>main.rs\<close>, the \<open>on_render\<close> callback, has an empty body.\<close>

definition client_render :: "frame_context \<Rightarrow> 'u client_state \<Rightarrow> render_pass \<Rightarrow> render_pass" where
  "client_render ctx st render_pass = render_pass"

subsection \<open>Observations\<close>

definition movement_keys :: "keycode list" where
  "movement_keys = [key_A, key_W, key_D, key_S, key_LShift, key_Space]"

definition movement_wf :: "'u client_state \<Rightarrow> bool" where
  "movement_wf st \<longleftrightarrow> length (mv_directions (cp_movement (player st))) = 6 \<and>
                      length (mv_rotations (cp_movement (player st))) = 2"

definition sent_state :: "frame_context \<Rightarrow> 'u client_state \<Rightarrow> 'u client_state" where
  "sent_state c st = (update_player_movement c st)\<lparr>packet_action_sender :=
     (packet_action_sender st)\<lparr>chan_queue := chan_queue (packet_action_sender st) @
        [Reliable (MovementInput (mv_directions (cp_movement (player (update_player_movement c st))))
                                 (mv_rotations (cp_movement (player (update_player_movement c st)))))]\<rparr>\<rparr>"

text \<open>A client whose player has id 1, in window 0 of 800 by 600 pixels, with an open
  outbound channel.\<close>

definition example_renderer :: renderer where
  "example_renderer =
     (let cfg = \<lparr>sc_format = \<lparr>tf_id = 0, tf_is_srgb = True\<rparr>, sc_width = 800, sc_height = 600,
                 sc_present_mode = 0, sc_alpha_mode = 0\<rparr>
      in \<lparr>surface_config = cfg, renderer_size = \<lparr>ps_width = 800, ps_height = 600\<rparr>, configured = [cfg],
          submitted = [], presented = []\<rparr>)"

definition example_client_state :: "nat client_state" where
  "example_client_state = \<lparr>renderer = example_renderer, player = new_client_player 1, window_id = 0,
     window_scale_factor = 1, packet_action_sender = \<lparr>chan_open = True, chan_queue = []\<rparr>\<rparr>"

subsection \<open>Lemmas on the movement update\<close>

lemma list6_update:
  "length xs = 6 \<Longrightarrow> xs[0 := a, Suc 0 := b, 2 := c, 3 := d, 4 := e, 5 := f] = [a, b, c, d, e, f]"
  by (auto simp: numeral_eq_Suc length_Suc_conv)

lemma list2_update: "length xs = 2 \<Longrightarrow> xs[0 := a, Suc 0 := b] = [a, b]"
  by (auto simp: numeral_eq_Suc length_Suc_conv)

lemma update_player_movement_wf:
  "movement_wf st \<Longrightarrow> cp_movement (player (update_player_movement c st)) =
     \<lparr>mv_directions = map (pressed c) movement_keys, mv_rotations = [0, 0]\<rparr>"
  by (simp add: update_player_movement_def movement_wf_def Let_def list6_update list2_update movement_keys_def)

lemma update_player_movement_other [simp]:
  "window_id (update_player_movement c st) = window_id st"
  "packet_action_sender (update_player_movement c st) = packet_action_sender st"
  "cp_id (player (update_player_movement c st)) = cp_id (player st)"
  by (simp_all add: update_player_movement_def Let_def)

lemma movement_wf_update: "movement_wf st \<Longrightarrow> movement_wf (update_player_movement c st)"
  by (simp add: movement_wf_def update_player_movement_def Let_def)

lemma client_update_open:
  assumes "chan_open (packet_action_sender st)"
  shows "client_update c st = Inr ((update_player_movement c st)\<lparr>packet_action_sender :=
     (packet_action_sender st)\<lparr>chan_queue := chan_queue (packet_action_sender st) @
        [Reliable (MovementInput (mv_directions (cp_movement (player (update_player_movement c st))))
                                 (mv_rotations (cp_movement (player (update_player_movement c st)))))]\<rparr>\<rparr>)"
  using assms
  by (simp add: client_update_def send_player_movement_packet_def send_reliable_packet_def
      send_packet_action_def Let_def)

lemma pressed_timing_update [simp]:
  "pressed (c\<lparr>delta_time := x\<rparr>) = pressed c"
  "pressed (c\<lparr>is_fixed := b, fixed_delta_time := y\<rparr>) = pressed c"
  "pressed (c\<lparr>is_fixed := b\<rparr>) = pressed c"
  by (simp_all add: pressed_def fun_eq_iff)

lemma update_player_movement_keys:
  "key_states c = key_states c' \<Longrightarrow> update_player_movement c st = update_player_movement c' st"
  by (simp add: update_player_movement_def pressed_def)

lemma client_update_keys:
  assumes "chan_open (packet_action_sender st)" and "key_states c = key_states c'"
  shows "client_update c st = Inr (sent_state c' st)"
  using client_update_open [OF assms(1), of c] update_player_movement_keys [OF assms(2), of st]
  by (simp add: sent_state_def)

lemma sent_state_open [simp]:
  "chan_open (packet_action_sender (sent_state c st)) = chan_open (packet_action_sender st)"
  by (simp add: sent_state_def)

lemma sent_state_queue:
  "movement_wf st \<Longrightarrow> chan_queue (packet_action_sender (sent_state c st)) =
     chan_queue (packet_action_sender st) @ [Reliable (MovementInput (map (pressed c) movement_keys) [0, 0])]"
  by (simp add: sent_state_def update_player_movement_wf)

end
