(* ===== verification/ClientLoop.thy ===== *)
theory ClientLoop
  imports ClientPlayer
begin

text \<open>
  The event handler of \<open>client_game_loop\<close> (\<open>src/client/src/game_loop.rs\<close>,
  lines 74 to 160) over the client of \<open>ClientPlayer\<close>. The renderer is the one of
  \<open>Renderer\<close>, resized on \<open>Resized\<close>; of the window only its identity and the
  redraw requests are kept. A redraw reads the monotonic clock four times, as the
  code does (\<open>Instant::now()\<close> and three \<open>elapsed()\<close> calls); \<open>clock_reads\<close>
  holds the four readings. \<open>client_run\<close> is winit's runner: it delivers the
  events in order, keeps delivering the iteration in which \<open>ControlFlow::Exit\<close>
  was set up to its \<open>RedrawEventsCleared\<close>, and then destroys the loop.
  \<open>movement_log\<close> is the abstract specification of what the loop sends, which
  \<open>client_run\<close> refines.
\<close>

subsection \<open>The event loop\<close>

record clock_reads =
  read_now :: instant
  read_delta :: instant
  read_check :: instant
  read_fixed :: instant

text \<open>What the environment provides to one iteration of the handler: the clock
  readings, and for a redraw whether the surface yields a texture
  (\<open>get_current_texture\<close>), whether imgui's \<open>prepare_frame\<close> and \<open>render\<close>
  succeed, and the mouse cursor imgui reports.\<close>

record frame_inputs = clock_reads +
  surface_available :: bool
  imgui_prepare_ok :: bool
  frame_cursor :: "mouse_cursor option"
  imgui_render_ok :: bool

datatype window_event =
    Resized physical_size
  | CloseRequested
  | KeyboardInput keyboard_input
  | OtherWindowEvent

datatype event =
    WindowEvent nat window_event
  | MainEventsCleared
  | RedrawRequested nat
  | RedrawEventsCleared
  | OtherEvent

record 'u client_loop =
  ctx :: frame_context
  cstate :: "'u client_state"
  last_tick :: instant
  last_fixed_tick :: instant
  exit_requested :: bool
  redraw_requests :: nat
  ui_rend :: ui_renderer
  loop_destroyed :: bool

definition start_client_loop :: "'u client_state \<Rightarrow> instant \<Rightarrow> 'u client_loop" where
  "start_client_loop st t0 =
     \<lparr>ctx = initial_context, cstate = st, last_tick = t0, last_fixed_tick = t0,
      exit_requested = False, redraw_requests = 0,
      ui_rend = ui_renderer_new (window_scale_factor st) (renderer st), loop_destroyed = False\<rparr>"

text \<open>The update half of a redraw (lines 121 to 136 and the frame increment of line
  154): the timing update, the fixed-tick decision (strictly more than \<open>interval\<close>
  since the last fixed tick) and \<open>on_update\<close>.\<close>

definition redraw :: "duration \<Rightarrow> 'z clock_reads_scheme \<Rightarrow> 'u client_loop \<Rightarrow> unit + 'u client_loop" where
  "redraw interval t L =
     (let now = read_now t;
          c = (ctx L)\<lparr>delta_time := read_delta t - last_tick L\<rparr>;
          (c, lf) = (if read_check t - last_fixed_tick L > interval
                     then (c\<lparr>is_fixed := True, fixed_delta_time := read_fixed t - last_fixed_tick L\<rparr>, now)
                     else (c\<lparr>is_fixed := False\<rparr>, last_fixed_tick L))
      in case client_update c (cstate L) of
           Inl e \<Rightarrow> Inl e
         | Inr st \<Rightarrow> Inr (L\<lparr>ctx := advance_frame c, cstate := st, last_tick := now, last_fixed_tick := lf\<rparr>))"

text \<open>Drawing the frame (lines 138 to 152): \<open>get_output\<close>, the texture view and
  command encoder, the render pass in which \<open>UiRenderer::render\<close> runs the \<open>ui\<close>
  callback of \<open>src/client/src/main.rs\<close> and draws its widgets, then the \<open>render\<close>
  callback; the pass is recorded into the encoder when its block ends, and
  \<open>present\<close> submits the encoder and presents the texture. The callbacks change
  neither the context nor the state. The model performs the frame increment of line
  154 in \<open>redraw\<close>, before drawing; drawing neither reads nor writes the frame
  counter.\<close>

definition draw_frame :: "'z frame_inputs_scheme \<Rightarrow> 'u client_loop \<Rightarrow> unit + 'u client_loop" where
  "draw_frame t L =
     (let r = renderer (cstate L) in
      case get_output r (surface_available t) of
        Inl e \<Rightarrow> Inl e
      | Inr output \<Rightarrow>
          (let view = create_texture_view r output;
               command_encoder = create_command_encoder r;
               render_pass = create_render_pass r command_encoder view
           in case ui_render (client_ui (ctx L) (cstate L)) (imgui_prepare_ok t) (frame_cursor t)
                     (imgui_render_ok t) (ui_rend L) render_pass of
                Inl e \<Rightarrow> Inl e
              | Inr (prepared, u, render_pass) \<Rightarrow>
                  (let render_pass = client_render (ctx L) (cstate L) render_pass;
                       command_encoder = command_encoder\<lparr>enc_passes := enc_passes command_encoder @ [render_pass]\<rparr>
                   in Inr (L\<lparr>ui_rend := u, cstate := (cstate L)\<lparr>renderer := present r output command_encoder\<rparr>\<rparr>))))"

text \<open>The drawing of a frame succeeds: the surface yields a texture and both imgui
  calls succeed.\<close>

definition draw_ok :: "'z frame_inputs_scheme \<Rightarrow> bool" where
  "draw_ok t \<longleftrightarrow> surface_available t \<and> imgui_prepare_ok t \<and> imgui_render_ok t"

fun client_event :: "duration \<Rightarrow> frame_inputs \<Rightarrow> 'u client_loop \<Rightarrow> event \<Rightarrow> unit + 'u client_loop" where
  "client_event interval t L (WindowEvent wid we) =
     (if wid = window_id (cstate L) then
        (case we of
           Resized new_size \<Rightarrow> Inr (L\<lparr>cstate := (cstate L)\<lparr>renderer := resize (renderer (cstate L)) new_size\<rparr>\<rparr>)
         | CloseRequested \<Rightarrow> Inr (L\<lparr>exit_requested := True\<rparr>)
         | KeyboardInput i \<Rightarrow> Inr (L\<lparr>ctx := handle_keyboard_event (ctx L) i\<rparr>)
         | OtherWindowEvent \<Rightarrow> Inr L)
      else Inr L)"
| "client_event interval t L MainEventsCleared = Inr (L\<lparr>redraw_requests := Suc (redraw_requests L)\<rparr>)"
| "client_event interval t L (RedrawRequested wid) =
     (if wid = window_id (cstate L) then
        (case redraw interval t L of Inl e \<Rightarrow> Inl e | Inr L' \<Rightarrow> draw_frame t L')
      else Inr L)"
| "client_event interval t L RedrawEventsCleared = Inr L"
| "client_event interval t L OtherEvent = Inr L"

text \<open>winit's \<open>EventLoop::run\<close> (the pre-0.29 API the client is written against, with
  \<open>MainEventsCleared\<close> and \<open>RedrawRequested\<close>)
  delivers events one at a time to the closure of \<open>run\<close>. \<open>ControlFlow::Exit\<close> is
  sticky: once set, the runner still delivers the rest of the current iteration
  (the pending window events, \<open>MainEventsCleared\<close>, the \<open>RedrawRequested\<close> it
  asked for, \<open>RedrawEventsCleared\<close>) and ends the loop when that iteration is
  over, with \<open>LoopDestroyed\<close>; the flag \<open>loop_destroyed\<close> is that end, and later
  events are never delivered. A panic in a callback ends the loop.\<close>

fun client_run :: "duration \<Rightarrow> (event \<times> frame_inputs) list \<Rightarrow> 'u client_loop \<Rightarrow> unit + 'u client_loop" where
  "client_run interval [] L = Inr L"
| "client_run interval ((e, t) # es) L =
     (if loop_destroyed L then Inr L
      else (case client_event interval t L e of
              Inl x \<Rightarrow> Inl x
            | Inr L' \<Rightarrow> client_run interval es
                (if e = RedrawEventsCleared \<and> exit_requested L' then L'\<lparr>loop_destroyed := True\<rparr> else L')))"

subsection \<open>Observing the loop\<close>

fun redraw_trace :: "duration \<Rightarrow> 'z clock_reads_scheme list \<Rightarrow> 'u client_loop \<Rightarrow> unit + 'u client_loop list" where
  "redraw_trace iv [] L = Inr []"
| "redraw_trace iv (t # ts) L =
     (case redraw iv t L of
        Inl e \<Rightarrow> Inl e
      | Inr L' \<Rightarrow> (case redraw_trace iv ts L' of Inl e \<Rightarrow> Inl e | Inr tr \<Rightarrow> Inr (L' # tr)))"

text \<open>An event that releases key \<open>k\<close> in some window.\<close>

fun key_release_event :: "keycode \<Rightarrow> event \<Rightarrow> bool" where
  "key_release_event k (WindowEvent w (KeyboardInput i)) \<longleftrightarrow>
     virtual_keycode i = Some k \<and> ki_state i = ElementReleased"
| "key_release_event k e \<longleftrightarrow> False"

fun clock_ok :: "nat \<Rightarrow> instant \<Rightarrow> 'z clock_reads_scheme list \<Rightarrow> bool" where
  "clock_ok d p [] = True"
| "clock_ok d p (t # ts) \<longleftrightarrow>
     p \<le> read_now t \<and> read_now t \<le> read_delta t \<and> read_delta t \<le> read_check t \<and>
     read_check t \<le> read_fixed t \<and> read_check t \<le> read_now t + d \<and> clock_ok d (read_fixed t) ts"

text \<open>Redraws come at least every \<open>g\<close> time units: each redraw's \<open>now\<close> is at most \<open>g\<close> after the previous one.\<close>

fun clock_gap :: "nat \<Rightarrow> instant \<Rightarrow> 'z clock_reads_scheme list \<Rightarrow> bool" where
  "clock_gap g p [] = True"
| "clock_gap g p (t # ts) \<longleftrightarrow> read_now t \<le> p + g \<and> clock_gap g (read_now t) ts"

text \<open>The loop state with its UI renderer and renderer replaced: what drawing a frame
  changes.\<close>

abbreviation frame_state :: "'u client_loop \<Rightarrow> ui_renderer \<Rightarrow> renderer \<Rightarrow> 'u client_loop" where
  "frame_state L u r \<equiv> L\<lparr>ui_rend := u, cstate := (cstate L)\<lparr>renderer := r\<rparr>\<rparr>"

text \<open>The frame the client draws on a texture of configuration \<open>cfg\<close>: one render
  pass on a view of the whole texture, cleared to \<open>(0.1, 0.2, 0.3, 1.0)\<close> and
  stored, without depth-stencil attachment, whose only commands are imgui's draw of
  the \<open>"sask"\<close> window; and the renderer after presenting it.\<close>

definition main_pass :: "surface_configuration \<Rightarrow> render_pass" where
  "main_pass cfg =
     \<lparr>rp_label = None, rp_view = \<lparr>view_config = cfg\<rparr>,
      rp_ops = \<lparr>ops_load = Clear \<lparr>red = 0.1, green = 0.2, blue = 0.3, alpha = 1.0\<rparr>, ops_store = True\<rparr>,
      rp_depth_stencil = False,
      rp_draws = [ImguiDraw [ImguiWindow ''sask'' (300, 200) FirstUseEver [ImguiText ''velho calvo'']]]\<rparr>"

definition drawn :: "renderer \<Rightarrow> renderer" where
  "drawn r = r\<lparr>submitted := submitted r @ [[main_pass (surface_config r)]],
               presented := presented r @ [surface_config r]\<rparr>"

text \<open>Every command buffer submitted is the client's frame for the texture presented
  with it.\<close>

definition frames_ok :: "renderer \<Rightarrow> bool" where
  "frames_ok r \<longleftrightarrow> submitted r = map (\<lambda>cfg. [main_pass cfg]) (presented r)"

text \<open>The imgui renderer draws into textures of the surface's format.\<close>

definition ui_format_ok :: "'u client_loop \<Rightarrow> bool" where
  "ui_format_ok L \<longleftrightarrow> imgui_texture_format (ui_rend L) = sc_format (surface_config (renderer (cstate L)))"

text \<open>What the client promises the transport, abstractly: over a sequence of
  events for window \<open>w\<close>, one \<open>MovementInput\<close> per redraw of \<open>w\<close>, carrying the
  movement keys held at that moment (the rotations are zero), in the order of the
  redraws; a close request of \<open>w\<close> marks the iteration as the last one
  (\<open>closing\<close>), and nothing is sent after the end of that iteration. Only the key
  table and the frame counter are tracked.\<close>

fun movement_log :: "nat \<Rightarrow> bool \<Rightarrow> frame_context \<Rightarrow> event list \<Rightarrow> reliable_packet list" where
  "movement_log w closing c [] = []"
| "movement_log w closing c (WindowEvent w' we # es) =
     (if w' \<noteq> w then movement_log w closing c es else
      case we of
        CloseRequested \<Rightarrow> movement_log w True c es
      | KeyboardInput i \<Rightarrow> movement_log w closing (handle_keyboard_event c i) es
      | _ \<Rightarrow> movement_log w closing c es)"
| "movement_log w closing c (RedrawRequested w' # es) =
     (if w' = w then MovementInput (map (pressed c) movement_keys) [0, 0] # movement_log w closing (advance_frame c) es
      else movement_log w closing c es)"
| "movement_log w closing c (MainEventsCleared # es) = movement_log w closing c es"
| "movement_log w closing c (RedrawEventsCleared # es) = (if closing then [] else movement_log w closing c es)"
| "movement_log w closing c (OtherEvent # es) = movement_log w closing c es"

subsection \<open>Lemmas on updates and redraws\<close>

lemma redraw_fixed:
  assumes "chan_open (packet_action_sender (cstate L))" and "read_check t - last_fixed_tick L > iv"
  shows "redraw iv t L = Inr (L\<lparr>ctx := advance_frame ((ctx L)\<lparr>delta_time := read_delta t - last_tick L,
      is_fixed := True, fixed_delta_time := read_fixed t - last_fixed_tick L\<rparr>),
      cstate := sent_state (ctx L) (cstate L), last_tick := read_now t, last_fixed_tick := read_now t\<rparr>)"
  using assms by (simp add: redraw_def Let_def client_update_keys [where c' = "ctx L"])

lemma redraw_not_fixed:
  assumes "chan_open (packet_action_sender (cstate L))" and "\<not> read_check t - last_fixed_tick L > iv"
  shows "redraw iv t L = Inr (L\<lparr>ctx := advance_frame ((ctx L)\<lparr>delta_time := read_delta t - last_tick L,
      is_fixed := False\<rparr>), cstate := sent_state (ctx L) (cstate L), last_tick := read_now t\<rparr>)"
  using assms by (simp add: redraw_def Let_def client_update_keys [where c' = "ctx L"])

lemma clock_ok_mono: "clock_ok d p ts \<Longrightarrow> q \<le> p \<Longrightarrow> clock_ok d q ts"
  by (cases ts) auto

lemma redraw_fixed_fields [simp]:
  "is_fixed (ctx (L\<lparr>ctx := advance_frame (c\<lparr>is_fixed := b, fixed_delta_time := x\<rparr>), cstate := st,
      last_tick := n, last_fixed_tick := m\<rparr>)) = b"
  "is_fixed (ctx (L\<lparr>ctx := advance_frame (c\<lparr>is_fixed := b\<rparr>), cstate := st, last_tick := n\<rparr>)) = b"
  by (simp_all add: advance_frame_def)

lemma add_gap_steps: "a + g \<le> b \<Longrightarrow> b + n * g \<le> c \<Longrightarrow> a + Suc n * g \<le> (c::nat)"
  by simp

lemma redraw_ctx:
  "redraw iv t L = Inr L' \<Longrightarrow> key_states (ctx L') = key_states (ctx L) \<and> frame (ctx L') = frame (ctx L) + 1"
  by (auto simp: redraw_def Let_def advance_frame_def split: if_splits sum.splits)

lemma handle_keyboard_event_held:
  assumes "pressed c k" and "\<not> (virtual_keycode i = Some k \<and> ki_state i = ElementReleased)"
  shows "key_states (handle_keyboard_event c i) ! k = key_states c ! k"
proof (cases "virtual_keycode i = Some k")
  case True
  then show ?thesis using assms by (auto simp: handle_keyboard_event_def pressed_def split: element_state.splits)
next
  case False
  then show ?thesis by (rule handle_keyboard_event_other_key)
qed

lemma drawn_fields [simp]:
  "surface_config (drawn r) = surface_config r" "renderer_size (drawn r) = renderer_size r"
  "configured (drawn r) = configured r"
  by (simp_all add: drawn_def)

lemma draw_frame_ok:
  "draw_ok t \<Longrightarrow> draw_frame t L =
     Inr (frame_state L ((ui_rend L)\<lparr>last_cursor := Some (frame_cursor t)\<rparr>) (drawn (renderer (cstate L))))"
  by (simp add: draw_frame_def draw_ok_def get_output_def create_texture_view_def create_command_encoder_def
      create_render_pass_def present_def client_ui_def client_render_def ui_render_def update_cursor_eq
      drawn_def main_pass_def Let_def)

lemma draw_frame_fail: "\<not> draw_ok t \<Longrightarrow> draw_frame t L = Inl ()"
  by (auto simp: draw_frame_def draw_ok_def get_output_def ui_render_fail Let_def)

lemma draw_frame_result:
  "draw_frame t L = Inr L' \<Longrightarrow>
   draw_ok t \<and> L' = frame_state L ((ui_rend L)\<lparr>last_cursor := Some (frame_cursor t)\<rparr>) (drawn (renderer (cstate L)))"
  by (cases "draw_ok t") (simp_all add: draw_frame_ok draw_frame_fail)

lemma redraw_keeps_ui: "redraw iv t L = Inr L' \<Longrightarrow> ui_rend L' = ui_rend L"
  by (auto simp: redraw_def Let_def split: sum.splits prod.splits if_splits)

lemma client_event_redraw:
  "client_event iv t L (RedrawRequested w) = Inr L' \<Longrightarrow>
   L' = L \<or> (\<exists>L1. redraw iv t L = Inr L1 \<and> draw_ok t \<and>
     L' = frame_state L1 ((ui_rend L1)\<lparr>last_cursor := Some (frame_cursor t)\<rparr>) (drawn (renderer (cstate L1))))"
  by (auto split: if_splits sum.splits dest: draw_frame_result)

lemma client_event_held:
  assumes "client_event iv t L e = Inr L'" and "pressed (ctx L) k" and "\<not> key_release_event k e"
  shows "key_states (ctx L') ! k = key_states (ctx L) ! k"
  using assms
proof (cases e)
  case (WindowEvent w we)
  then show ?thesis using assms
    by (cases we) (auto simp: handle_keyboard_event_held split: if_splits)
next
  case (RedrawRequested w)
  then show ?thesis
    using client_event_redraw [of iv t L w L'] assms(1) redraw_ctx [of iv t L] by auto
qed auto

lemma pressed_by_entry: "key_states c' ! k = key_states c ! k \<Longrightarrow> pressed c' k = pressed c k"
  by (simp add: pressed_def)

lemma redraw_frame_fields:
  "redraw iv t L = Inr L' \<Longrightarrow> window_id (cstate L') = window_id (cstate L) \<and> exit_requested L' = exit_requested L \<and>
     loop_destroyed L' = loop_destroyed L"
  by (auto simp: redraw_def Let_def client_update_def send_player_movement_packet_def send_reliable_packet_def
      send_packet_action_def chan_send_def split: if_splits sum.splits)

lemma redraw_renderer:
  "redraw iv t L = Inr L' \<Longrightarrow> renderer (cstate L') = renderer (cstate L)"
  by (auto simp: redraw_def Let_def client_update_def send_player_movement_packet_def send_reliable_packet_def
      send_packet_action_def chan_send_def update_player_movement_def split: if_splits sum.splits)

lemma client_event_renderer_wf:
  "client_event iv t L e = Inr L' \<Longrightarrow> renderer_wf (renderer (cstate L)) \<Longrightarrow> renderer_wf (renderer (cstate L'))"
proof (cases e)
  case (WindowEvent w we)
  then show "client_event iv t L e = Inr L' \<Longrightarrow> renderer_wf (renderer (cstate L)) \<Longrightarrow> ?thesis"
    by (cases we) (auto simp: resize_wf split: if_splits)
next
  case (RedrawRequested w)
  then show "client_event iv t L e = Inr L' \<Longrightarrow> renderer_wf (renderer (cstate L)) \<Longrightarrow> ?thesis"
    using client_event_redraw [of iv t L w L'] redraw_renderer [of iv t L] by (auto simp: renderer_wf_def)
qed auto

lemma client_event_flags:
  "client_event iv t L e = Inr L' \<Longrightarrow> loop_destroyed L' = loop_destroyed L \<and>
     (exit_requested L' \<longleftrightarrow> exit_requested L \<or> e = WindowEvent (window_id (cstate L)) CloseRequested)"
proof (cases e)
  case (WindowEvent w we)
  then show "client_event iv t L e = Inr L' \<Longrightarrow> ?thesis" by (cases we) (auto split: if_splits)
next
  case (RedrawRequested w)
  then show "client_event iv t L e = Inr L' \<Longrightarrow> ?thesis"
    using client_event_redraw [of iv t L w L'] redraw_frame_fields [of iv t L] by auto
qed auto

lemma client_run_invariant:
  assumes step: "\<And>L L' e t. client_event iv t L e = Inr L' \<Longrightarrow> P L \<Longrightarrow> P L'"
    and stop: "\<And>L. P L \<Longrightarrow> P (L\<lparr>loop_destroyed := True\<rparr>)"
  shows "client_run iv es L = Inr L' \<Longrightarrow> P L \<Longrightarrow> P L'"
proof (induction es arbitrary: L)
  case Nil
  then show ?case by simp
next
  case (Cons et es)
  obtain e t where et: "et = (e, t)" by (cases et)
  show ?case
  proof (cases "loop_destroyed L")
    case True
    then show ?thesis using Cons.prems et by auto
  next
    case False
    then obtain L1 where L1: "client_event iv t L e = Inr L1"
      and run: "client_run iv es (if e = RedrawEventsCleared \<and> exit_requested L1 then L1\<lparr>loop_destroyed := True\<rparr> else L1) = Inr L'"
      using Cons.prems(1) et by (auto split: sum.splits)
    have "P L1" using step [OF L1 Cons.prems(2)] .
    then have "P (if e = RedrawEventsCleared \<and> exit_requested L1 then L1\<lparr>loop_destroyed := True\<rparr> else L1)"
      using stop by simp
    then show ?thesis using Cons.IH [OF run] by blast
  qed
qed

lemma client_event_ui_format:
  "client_event iv t L e = Inr L' \<Longrightarrow> ui_format_ok L \<Longrightarrow> ui_format_ok L'"
proof (cases e)
  case (WindowEvent w we)
  then show "client_event iv t L e = Inr L' \<Longrightarrow> ui_format_ok L \<Longrightarrow> ?thesis"
    by (cases we) (auto simp: ui_format_ok_def split: if_splits)
next
  case (RedrawRequested w)
  show "client_event iv t L e = Inr L' \<Longrightarrow> ui_format_ok L \<Longrightarrow> ?thesis"
  proof (cases "w = window_id (cstate L)")
    case True
    assume ev: "client_event iv t L e = Inr L'" and ok: "ui_format_ok L"
    then obtain L1 where r: "redraw iv t L = Inr L1" and d: "draw_frame t L1 = Inr L'"
      using RedrawRequested True by (auto split: sum.splits)
    show ?thesis
      using ok draw_frame_result [OF d] redraw_renderer [OF r] redraw_keeps_ui [OF r]
      by (simp add: ui_format_ok_def)
  qed (use RedrawRequested in auto)
qed (auto simp: ui_format_ok_def)

lemma redraw_open: "chan_open (packet_action_sender (cstate L)) \<Longrightarrow> \<exists>L'. redraw iv t L = Inr L'"
  using redraw_fixed [of L iv t] redraw_not_fixed [of L iv t] by (cases "read_check t - last_fixed_tick L > iv") auto

lemma movement_log_cong:
  "key_states c = key_states c' \<Longrightarrow> frame c = frame c' \<Longrightarrow> movement_log w b c es = movement_log w b c' es"
proof (induction es arbitrary: b c c')
  case Nil
  then show ?case by simp
next
  case (Cons e es)
  have ih: "movement_log w b' c es = movement_log w b' c' es" for b' by (rule Cons.IH [OF Cons.prems])
  have pr: "pressed c = pressed c'" using Cons.prems(1) by (simp add: pressed_def fun_eq_iff)
  have af: "movement_log w b (advance_frame c) es = movement_log w b (advance_frame c') es"
    by (rule Cons.IH) (simp_all add: Cons.prems)
  show ?case
  proof (cases e)
    case (RedrawRequested w')
    then show ?thesis using ih pr af by simp
  next
    case (WindowEvent w' we)
    show ?thesis
    proof (cases we)
      case (KeyboardInput i)
      have "movement_log w b (handle_keyboard_event c i) es = movement_log w b (handle_keyboard_event c' i) es"
        by (rule Cons.IH) (simp_all add: Cons.prems handle_keyboard_event_def split: option.splits element_state.splits)
      then show ?thesis using WindowEvent KeyboardInput ih by simp
    qed (use WindowEvent ih in simp_all)
  next
    case MainEventsCleared
    then show ?thesis using ih by simp
  next
    case RedrawEventsCleared
    then show ?thesis using ih by simp
  next
    case OtherEvent
    then show ?thesis using ih by simp
  qed
qed

lemma client_run_stopped: "loop_destroyed L \<Longrightarrow> client_run iv es L = Inr L"
  by (cases es) auto

lemma client_run_append:
  "client_run iv (es1 @ es2) L = (case client_run iv es1 L of Inl x \<Rightarrow> Inl x | Inr L1 \<Rightarrow> client_run iv es2 L1)"
proof (induction es1 arbitrary: L)
  case (Cons et es1)
  obtain e t where et: "et = (e, t)" by (cases et)
  show ?case
  proof (cases "loop_destroyed L")
    case True
    then show ?thesis using et by (simp add: client_run_stopped)
  next
    case False
    then show ?thesis using et Cons.IH by (simp split: sum.split)
  qed
qed simp

text \<open>Inside one iteration, before its \<open>RedrawEventsCleared\<close>, the loop stays alive.\<close>

lemma client_run_keeps_alive:
  "RedrawEventsCleared \<notin> fst ` set es \<Longrightarrow> client_run iv es L = Inr L' \<Longrightarrow> \<not> loop_destroyed L \<Longrightarrow> \<not> loop_destroyed L'"
proof (induction es arbitrary: L)
  case (Cons et es)
  obtain e t where et: "et = (e, t)" by (cases et)
  obtain L1 where L1: "client_event iv t L e = Inr L1" and run: "client_run iv es L1 = Inr L'"
    using Cons.prems et by (auto split: sum.splits)
  show ?case using Cons.IH [OF _ run] Cons.prems(1) client_event_flags [OF L1] Cons.prems(3) by auto
qed simp

lemma redraw_cstate:
  "chan_open (packet_action_sender (cstate L)) \<Longrightarrow> redraw iv t L = Inr L1 \<Longrightarrow> cstate L1 = sent_state (ctx L) (cstate L)"
  using redraw_fixed [of L iv t] redraw_not_fixed [of L iv t] by (cases "read_check t - last_fixed_tick L > iv") auto

lemma sent_state_window [simp]: "window_id (sent_state c st) = window_id st"
  by (simp add: sent_state_def)

lemma movement_wf_renderer [simp]: "movement_wf (st\<lparr>renderer := r\<rparr>) = movement_wf st"
  by (simp add: movement_wf_def)

lemma movement_wf_sent: "movement_wf st \<Longrightarrow> movement_wf (sent_state c st)"
  by (simp add: sent_state_def movement_wf_def update_player_movement_def Let_def)

text \<open>One event of the loop against the abstract log: the handler returns, keeps the
  window, the open channel, the movement shape and the runner's state, and queues
  exactly the packets the log emits for this event; the log continues with the new
  context and \<open>closing\<close> flag, or ends at the \<open>RedrawEventsCleared\<close> of a closing
  iteration.\<close>

lemma client_event_log_step:
  assumes "chan_open (packet_action_sender (cstate L))" and "movement_wf (cstate L)" and "draw_ok t"
  shows "\<exists>L1 ps. client_event iv t L e = Inr L1 \<and> window_id (cstate L1) = window_id (cstate L) \<and>
     chan_open (packet_action_sender (cstate L1)) \<and> movement_wf (cstate L1) \<and> loop_destroyed L1 = loop_destroyed L \<and>
     chan_queue (packet_action_sender (cstate L1)) = chan_queue (packet_action_sender (cstate L)) @ map Reliable ps \<and>
     movement_log (window_id (cstate L)) (exit_requested L) (ctx L) (e # es) =
       ps @ (if e = RedrawEventsCleared \<and> exit_requested L1 then []
             else movement_log (window_id (cstate L)) (exit_requested L1) (ctx L1) es)"
proof (cases e)
  case (WindowEvent w' we)
  then show ?thesis using assms
    by (cases we) (auto simp: movement_wf_def)
next
  case (RedrawRequested w')
  show ?thesis
  proof (cases "w' = window_id (cstate L)")
    case True
    obtain L1 where r: "redraw iv t L = Inr L1" using redraw_open [OF assms(1)] by blast
    have c: "cstate L1 = sent_state (ctx L) (cstate L)" by (rule redraw_cstate [OF assms(1) r])
    have k: "key_states (ctx L1) = key_states (ctx L)" "frame (ctx L1) = frame (ctx L) + 1"
      using redraw_ctx [OF r] by simp_all
    have f: "exit_requested L1 = exit_requested L" "loop_destroyed L1 = loop_destroyed L"
      using redraw_frame_fields [OF r] by simp_all
    have log: "movement_log (window_id (cstate L)) (exit_requested L) (ctx L1) es =
        movement_log (window_id (cstate L)) (exit_requested L) (advance_frame (ctx L)) es"
      by (rule movement_log_cong) (simp_all add: k)
    show ?thesis
      using RedrawRequested True r c f log draw_frame_ok [OF assms(3), of L1] assms(1,2)
      by (intro exI [of _ "frame_state L1 ((ui_rend L1)\<lparr>last_cursor := Some (frame_cursor t)\<rparr>) (drawn (renderer (cstate L1)))"]
          exI [of _ "[MovementInput (map (pressed (ctx L)) movement_keys) [0, 0]]"])
        (simp add: sent_state_queue movement_wf_sent)
  qed (use RedrawRequested assms in auto)
qed (use assms in auto)

lemma redraw_queue_length:
  "redraw iv t L = Inr L' \<Longrightarrow>
   length (chan_queue (packet_action_sender (cstate L'))) = Suc (length (chan_queue (packet_action_sender (cstate L))))"
  by (auto simp: redraw_def Let_def client_update_def send_player_movement_packet_def send_reliable_packet_def
      send_packet_action_def chan_send_def update_player_movement_def split: if_splits sum.splits)

text \<open>One event moves the count of presented frames and the count of queued packets
  by the same amount.\<close>

lemma client_event_lockstep:
  "client_event iv t L e = Inr L' \<Longrightarrow>
   length (presented (renderer (cstate L'))) + length (chan_queue (packet_action_sender (cstate L))) =
   length (presented (renderer (cstate L))) + length (chan_queue (packet_action_sender (cstate L')))"
proof (cases e)
  case (WindowEvent w we)
  then show "client_event iv t L e = Inr L' \<Longrightarrow> ?thesis"
    by (cases we) (auto split: if_splits)
next
  case (RedrawRequested w)
  then show "client_event iv t L e = Inr L' \<Longrightarrow> ?thesis"
    using client_event_redraw [of iv t L w L'] redraw_renderer [of iv t L] redraw_queue_length [of iv t L]
    by (auto simp: drawn_def)
qed auto

text \<open>One event advances the frame counter by exactly the number of frames it
  presents (none, or one for a redraw of the window).\<close>

lemma client_event_frame_count:
  "client_event iv t L e = Inr L' \<Longrightarrow>
   length (presented (renderer (cstate L))) \<le> length (presented (renderer (cstate L'))) \<and>
   frame (ctx L') = frame (ctx L) + of_nat (length (presented (renderer (cstate L'))) - length (presented (renderer (cstate L))))"
proof (cases e)
  case (WindowEvent w we)
  then show "client_event iv t L e = Inr L' \<Longrightarrow> ?thesis"
    by (cases we) (auto split: if_splits)
next
  case (RedrawRequested w)
  then show "client_event iv t L e = Inr L' \<Longrightarrow> ?thesis"
    using client_event_redraw [of iv t L w L'] redraw_renderer [of iv t L] redraw_ctx [of iv t L]
    by (auto simp: drawn_def)
qed auto

lemma client_run_presented_mono:
  "client_run iv es L = Inr L' \<Longrightarrow> length (presented (renderer (cstate L))) \<le> length (presented (renderer (cstate L')))"
proof -
  assume run: "client_run iv es L = Inr L'"
  let ?P = "\<lambda>X. length (presented (renderer (cstate L))) \<le> length (presented (renderer (cstate X)))"
  have step: "client_event iv t X e = Inr X' \<Longrightarrow> ?P X \<Longrightarrow> ?P X'" for X X' e t
    using client_event_frame_count [of iv t X e X'] by simp
  show ?thesis using client_run_invariant [where P = ?P, OF step _ run] by simp
qed

lemma client_event_frames_ok:
  "client_event iv t L e = Inr L' \<Longrightarrow> frames_ok (renderer (cstate L)) \<Longrightarrow> frames_ok (renderer (cstate L'))"
proof (cases e)
  case (WindowEvent w we)
  then show "client_event iv t L e = Inr L' \<Longrightarrow> frames_ok (renderer (cstate L)) \<Longrightarrow> ?thesis"
    by (cases we) (auto simp: frames_ok_def split: if_splits)
next
  case (RedrawRequested w)
  then show "client_event iv t L e = Inr L' \<Longrightarrow> frames_ok (renderer (cstate L)) \<Longrightarrow> ?thesis"
    using client_event_redraw [of iv t L w L'] redraw_renderer [of iv t L] by (auto simp: frames_ok_def drawn_def)
qed auto

subsection \<open>Properties of the client loop\<close>

text \<open>C3: fixed-tick cadence: given monotonic clock readings whose spread inside one iteration is at most \<open>d \<le> interval\<close>, a run of redraws returns, and the number of fixed ticks times \<open>interval + 1 - d\<close> never exceeds the time from the last fixed tick before the run to the last redraw; with one reading per iteration this is at most \<open>N / (interval + 1)\<close> ticks in \<open>N\<close> nanoseconds.\<close>

theorem fixed_tick_cadence:
  assumes "clock_ok d (last_tick L) ts" and "d \<le> iv"
    and "last_fixed_tick L \<le> last_tick L" and "chan_open (packet_action_sender (cstate L))"
  shows "\<exists>tr. redraw_trace iv ts L = Inr tr \<and>
     last_fixed_tick L + length (filter (\<lambda>L'. is_fixed (ctx L')) tr) * (iv + 1 - d)
       \<le> last_tick (last (L # tr))"
  using assms(1,3,4)
proof (induction ts arbitrary: L)
  case Nil
  then show ?case by simp
next
  case (Cons t ts)
  have ok: "clock_ok d (read_now t) ts"
    using Cons.prems(1) clock_ok_mono [of d "read_fixed t" ts "read_now t"] by auto
  show ?case
  proof (cases "read_check t - last_fixed_tick L > iv")
    case True
    let ?L' = "L\<lparr>ctx := advance_frame ((ctx L)\<lparr>delta_time := read_delta t - last_tick L,
      is_fixed := True, fixed_delta_time := read_fixed t - last_fixed_tick L\<rparr>),
      cstate := sent_state (ctx L) (cstate L), last_tick := read_now t, last_fixed_tick := read_now t\<rparr>"
    have step: "redraw iv t L = Inr ?L'" using redraw_fixed [OF Cons.prems(3) True] .
    obtain tr where tr: "redraw_trace iv ts ?L' = Inr tr"
      and bound: "read_now t + length (filter (\<lambda>L'. is_fixed (ctx L')) tr) * (iv + 1 - d)
                  \<le> last_tick (last (?L' # tr))"
      using Cons.IH [of ?L'] ok Cons.prems(3) by auto
    have gap: "last_fixed_tick L + (iv + 1 - d) \<le> read_now t"
      using True Cons.prems(1) assms(2) by auto
    have cnt: "length (filter (\<lambda>L'. is_fixed (ctx L')) (?L' # tr))
               = Suc (length (filter (\<lambda>L'. is_fixed (ctx L')) tr))"
      by (simp add: advance_frame_def)
    have "last_fixed_tick L + Suc (length (filter (\<lambda>L'. is_fixed (ctx L')) tr)) * (iv + 1 - d)
          \<le> last_tick (last (?L' # tr))"
      using add_gap_steps [OF gap bound] .
    then show ?thesis using step tr cnt by simp
  next
    case False
    let ?L' = "L\<lparr>ctx := advance_frame ((ctx L)\<lparr>delta_time := read_delta t - last_tick L,
      is_fixed := False\<rparr>), cstate := sent_state (ctx L) (cstate L), last_tick := read_now t\<rparr>"
    have step: "redraw iv t L = Inr ?L'" using redraw_not_fixed [OF Cons.prems(3) False] .
    have "last_fixed_tick ?L' \<le> last_tick ?L'" using Cons.prems(1,2) by simp
    then obtain tr where tr: "redraw_trace iv ts ?L' = Inr tr"
      and bound: "last_fixed_tick L + length (filter (\<lambda>L'. is_fixed (ctx L')) tr) * (iv + 1 - d)
                  \<le> last_tick (last (?L' # tr))"
      using Cons.IH [of ?L'] ok Cons.prems(3) by auto
    show ?thesis using step tr bound by (simp add: advance_frame_def)
  qed
qed

text \<open>C10: fixed ticks are not starved: when redraws come at least every \<open>g\<close> time units and the run starts at most \<open>interval\<close> after the last fixed tick, the time from that fixed tick to the last redraw is at most \<open>interval\<close> plus the number of fixed ticks times \<open>interval + g\<close>; with the upper bound of the cadence theorem this pins the number of fixed ticks in \<open>N\<close> time units between \<open>(N - interval) / (interval + g)\<close> and \<open>N / (interval + 1 - d)\<close>.\<close>

theorem fixed_tick_liveness:
  assumes "clock_ok d (last_tick L) ts" and "clock_gap g (last_tick L) ts"
    and "last_fixed_tick L \<le> last_tick L" and "last_tick L \<le> last_fixed_tick L + iv"
    and "chan_open (packet_action_sender (cstate L))"
  shows "\<exists>tr. redraw_trace iv ts L = Inr tr \<and>
     last_tick (last (L # tr)) \<le> last_fixed_tick L + length (filter (\<lambda>L'. is_fixed (ctx L')) tr) * (iv + g) + iv"
  using assms
proof (induction ts arbitrary: L)
  case Nil
  then show ?case by simp
next
  case (Cons t ts)
  have ok: "clock_ok d (read_now t) ts"
    using Cons.prems(1) clock_ok_mono [of d "read_fixed t" ts "read_now t"] by auto
  have gap: "clock_gap g (read_now t) ts" and near: "read_now t \<le> last_tick L + g"
    using Cons.prems(2) by auto
  show ?case
  proof (cases "read_check t - last_fixed_tick L > iv")
    case True
    let ?L' = "L\<lparr>ctx := advance_frame ((ctx L)\<lparr>delta_time := read_delta t - last_tick L,
      is_fixed := True, fixed_delta_time := read_fixed t - last_fixed_tick L\<rparr>),
      cstate := sent_state (ctx L) (cstate L), last_tick := read_now t, last_fixed_tick := read_now t\<rparr>"
    have step: "redraw iv t L = Inr ?L'" using redraw_fixed [OF Cons.prems(5) True] .
    obtain tr where tr: "redraw_trace iv ts ?L' = Inr tr"
      and bound: "last_tick (last (?L' # tr)) \<le> read_now t + length (filter (\<lambda>L'. is_fixed (ctx L')) tr) * (iv + g) + iv"
      using Cons.IH [of ?L'] ok gap Cons.prems(5) by auto
    have cnt: "length (filter (\<lambda>L'. is_fixed (ctx L')) (?L' # tr))
               = Suc (length (filter (\<lambda>L'. is_fixed (ctx L')) tr))"
      by (simp add: advance_frame_def)
    have "read_now t \<le> last_fixed_tick L + (iv + g)" using near Cons.prems(4) by simp
    then have "last_tick (last (?L' # tr)) \<le> last_fixed_tick L + Suc (length (filter (\<lambda>L'. is_fixed (ctx L')) tr)) * (iv + g) + iv"
      using bound by simp
    then show ?thesis using step tr cnt by simp
  next
    case False
    let ?L' = "L\<lparr>ctx := advance_frame ((ctx L)\<lparr>delta_time := read_delta t - last_tick L,
      is_fixed := False\<rparr>), cstate := sent_state (ctx L) (cstate L), last_tick := read_now t\<rparr>"
    have step: "redraw iv t L = Inr ?L'" using redraw_not_fixed [OF Cons.prems(5) False] .
    have lag: "read_now t \<le> last_fixed_tick L + iv" using False Cons.prems(1) by auto
    have "last_fixed_tick ?L' \<le> last_tick ?L'" "last_tick ?L' \<le> last_fixed_tick ?L' + iv"
      using Cons.prems(1,3) lag by auto
    then obtain tr where tr: "redraw_trace iv ts ?L' = Inr tr"
      and bound: "last_tick (last (?L' # tr)) \<le> last_fixed_tick L + length (filter (\<lambda>L'. is_fixed (ctx L')) tr) * (iv + g) + iv"
      using Cons.IH [of ?L'] ok gap Cons.prems(5) by auto
    show ?thesis using step tr bound by (simp add: advance_frame_def)
  qed
qed

text \<open>C6: every redraw, fixed tick or not, sends exactly one reliable \<open>MovementInput\<close> whose directions are the \<open>pressed\<close> states of A, W, D, S, LShift and Space and whose rotations are zero, and advances the frame counter by one.\<close>

theorem one_packet_per_redraw:
  assumes "chan_open (packet_action_sender (cstate L))" and "movement_wf (cstate L)"
  shows "\<exists>L'. redraw iv t L = Inr L' \<and> frame (ctx L') = frame (ctx L) + 1 \<and>
     chan_queue (packet_action_sender (cstate L')) = chan_queue (packet_action_sender (cstate L)) @
       [Reliable (MovementInput (map (pressed (ctx L)) movement_keys) [0, 0])]"
  using assms redraw_fixed [OF assms(1), of iv t] redraw_not_fixed [OF assms(1), of iv t]
  by (cases "read_check t - last_fixed_tick L > iv") (simp_all add: sent_state_queue)

text \<open>C11: a held key stays held: over any run of the event loop that does not panic and delivers no release of key \<open>k\<close>, a pressed key keeps its table entry, so \<open>pressed\<close> stays true with the stamp of its press, while the 64-bit frame counter advances by exactly the number of frames presented during the run (one per redraw of the window); \<open>just_pressed\<close> can hold again only when the counter has come back to that stamp.\<close>

theorem held_key_stable:
  assumes "client_run iv es L = Inr L'" and "pressed (ctx L) k"
    and "\<forall>(e, t) \<in> set es. \<not> key_release_event k e"
  shows "key_states (ctx L') ! k = key_states (ctx L) ! k \<and>
         frame (ctx L') = frame (ctx L) +
           of_nat (length (presented (renderer (cstate L'))) - length (presented (renderer (cstate L))))"
  using assms
proof (induction es arbitrary: L)
  case Nil
  then show ?case by auto
next
  case (Cons et es)
  obtain e t where et: "et = (e, t)" by (cases et)
  show ?case
  proof (cases "loop_destroyed L")
    case True
    then show ?thesis using Cons.prems et by auto
  next
    case False
    then obtain L1 where L1: "client_event iv t L e = Inr L1"
      and run: "client_run iv es (if e = RedrawEventsCleared \<and> exit_requested L1 then L1\<lparr>loop_destroyed := True\<rparr> else L1) = Inr L'"
      using Cons.prems(1) et by (auto split: sum.splits)
    let ?L2 = "if e = RedrawEventsCleared \<and> exit_requested L1 then L1\<lparr>loop_destroyed := True\<rparr> else L1"
    have rel: "\<not> key_release_event k e" using Cons.prems(3) et by auto
    have k1: "key_states (ctx ?L2) ! k = key_states (ctx L) ! k"
      using client_event_held [OF L1 Cons.prems(2) rel] by simp
    have f1: "length (presented (renderer (cstate L))) \<le> length (presented (renderer (cstate ?L2)))"
      "frame (ctx ?L2) = frame (ctx L) + of_nat (length (presented (renderer (cstate ?L2))) - length (presented (renderer (cstate L))))"
      using client_event_frame_count [OF L1] by simp_all
    have "pressed (ctx ?L2) k" using pressed_by_entry [OF k1] Cons.prems(2) by simp
    then have ih: "key_states (ctx L') ! k = key_states (ctx ?L2) ! k"
      "frame (ctx L') = frame (ctx ?L2) + of_nat (length (presented (renderer (cstate L'))) - length (presented (renderer (cstate ?L2))))"
      using Cons.IH [OF run] Cons.prems(3) by auto
    have "length (presented (renderer (cstate ?L2))) \<le> length (presented (renderer (cstate L')))"
      by (rule client_run_presented_mono [OF run])
    then have d: "length (presented (renderer (cstate L'))) - length (presented (renderer (cstate L))) =
        (length (presented (renderer (cstate ?L2))) - length (presented (renderer (cstate L)))) +
        (length (presented (renderer (cstate L'))) - length (presented (renderer (cstate ?L2))))"
      using f1(1) by arith
    show ?thesis using ih k1 f1(2) unfolding d of_nat_add by (simp add: add.assoc)
  qed
qed

text \<open>C31: when the receiving end of the outbound channel is gone, a redraw panics (the \<open>unwrap\<close> of \<open>Sender::send\<close>), ending the loop.\<close>

theorem closed_channel_panics:
  "\<not> chan_open (packet_action_sender (cstate L)) \<Longrightarrow> redraw iv t L = Inl ()"
  by (simp add: redraw_def Let_def client_update_def send_player_movement_packet_def
      send_reliable_packet_def send_packet_action_def split: prod.splits)

text \<open>C21: every frame the client submits is the frame it means to draw: over any run of the event loop that does not panic, each command buffer submitted to the queue holds exactly one render pass, on a view of the texture presented with it, cleared to \<open>(0.1, 0.2, 0.3, 1.0)\<close> and stored, without depth-stencil attachment, whose only commands are imgui's draw of the \<open>"sask"\<close> window; submissions and presentations stay paired one to one, in order.\<close>

theorem submitted_frames_match_presented:
  "client_run iv es L = Inr L' \<Longrightarrow>
   submitted (renderer (cstate L)) = map (\<lambda>cfg. [main_pass cfg]) (presented (renderer (cstate L))) \<Longrightarrow>
   submitted (renderer (cstate L')) = map (\<lambda>cfg. [main_pass cfg]) (presented (renderer (cstate L')))"
  using client_run_invariant [where P = "\<lambda>L. frames_ok (renderer (cstate L))", OF client_event_frames_ok]
  by (simp add: frames_ok_def)

text \<open>C22: drawing and sending stay in lockstep: over any run of the event loop that does not panic, the number of textures the renderer presents grows exactly as much as the number of packets queued on the outbound channel, one of each per redraw of the client's window.\<close>

theorem frames_and_packets_lockstep:
  "client_run iv es L = Inr L' \<Longrightarrow>
   length (presented (renderer (cstate L'))) + length (chan_queue (packet_action_sender (cstate L))) =
   length (presented (renderer (cstate L))) + length (chan_queue (packet_action_sender (cstate L')))"
proof -
  assume run: "client_run iv es L = Inr L'"
  let ?P = "\<lambda>X. length (presented (renderer (cstate X))) + length (chan_queue (packet_action_sender (cstate L))) =
     length (presented (renderer (cstate L))) + length (chan_queue (packet_action_sender (cstate X)))"
  have step: "client_event iv t X e = Inr X' \<Longrightarrow> ?P X \<Longrightarrow> ?P X'" for X X' e t
    using client_event_lockstep [of iv t X e X'] by simp
  show ?thesis using client_run_invariant [where P = ?P, OF step _ run] by simp
qed

text \<open>C7: refinement of the client's output: from an open channel and a live loop whose frames all draw, every run of the event loop returns, and what it queues on the outbound channel is, packet by packet and in order, the abstract \<open>movement_log\<close> of the events: one \<open>MovementInput\<close> per redraw of the client's window with the movement keys held at that point, including the redraws of the iteration in which a close is requested (winit's \<open>ControlFlow::Exit\<close> takes effect at the end of the iteration), nothing after that iteration; resizes, other windows and other events queue nothing.\<close>

theorem client_output_refines_log:
  assumes "chan_open (packet_action_sender (cstate L))" and "movement_wf (cstate L)"
    and "\<not> loop_destroyed L" and "list_all (\<lambda>(e, t). draw_ok t) es"
  shows "\<exists>L'. client_run iv es L = Inr L' \<and>
     chan_queue (packet_action_sender (cstate L')) =
       chan_queue (packet_action_sender (cstate L)) @
         map Reliable (movement_log (window_id (cstate L)) (exit_requested L) (ctx L) (map fst es))"
  using assms
proof (induction es arbitrary: L)
  case Nil
  then show ?case by simp
next
  case (Cons et es)
  obtain e t where et: "et = (e, t)" by (cases et)
  have dr: "draw_ok t" and rest: "list_all (\<lambda>(e, t). draw_ok t) es" using Cons.prems(4) et by auto
  obtain L1 ps where
    ev: "client_event iv t L e = Inr L1" and w: "window_id (cstate L1) = window_id (cstate L)"
    and o: "chan_open (packet_action_sender (cstate L1))" and m: "movement_wf (cstate L1)"
    and d: "loop_destroyed L1 = loop_destroyed L"
    and q: "chan_queue (packet_action_sender (cstate L1)) = chan_queue (packet_action_sender (cstate L)) @ map Reliable ps"
    and lg: "movement_log (window_id (cstate L)) (exit_requested L) (ctx L) (e # map fst es) =
       ps @ (if e = RedrawEventsCleared \<and> exit_requested L1 then []
             else movement_log (window_id (cstate L)) (exit_requested L1) (ctx L1) (map fst es))"
    using client_event_log_step [OF Cons.prems(1,2) dr, of iv e "map fst es"] by blast
  have run: "client_run iv (et # es) L =
      client_run iv es (if e = RedrawEventsCleared \<and> exit_requested L1 then L1\<lparr>loop_destroyed := True\<rparr> else L1)"
    using Cons.prems(3) et ev by simp
  show ?case
  proof (cases "e = RedrawEventsCleared \<and> exit_requested L1")
    case True
    then show ?thesis using lg run q client_run_stopped [of "L1\<lparr>loop_destroyed := True\<rparr>" iv es] et by simp
  next
    case False
    obtain L' where r: "client_run iv es L1 = Inr L'" and q': "chan_queue (packet_action_sender (cstate L')) =
        chan_queue (packet_action_sender (cstate L1)) @
          map Reliable (movement_log (window_id (cstate L1)) (exit_requested L1) (ctx L1) (map fst es))"
      using Cons.IH [OF o m _ rest] d Cons.prems(3) by blast
    have run': "client_run iv (et # es) L = client_run iv es L1" using run by (simp only: if_not_P [OF False])
    have lg': "movement_log (window_id (cstate L)) (exit_requested L) (ctx L) (e # map fst es) =
        ps @ movement_log (window_id (cstate L)) (exit_requested L1) (ctx L1) (map fst es)"
      using lg by (simp only: if_not_P [OF False])
    show ?thesis using lg' run' r q q' w et by simp
  qed
qed


text \<open>C18: a close request ends the loop at the end of its iteration: after \<open>CloseRequested\<close> for the client's window the handler sets the sticky \<open>ControlFlow::Exit\<close>; the rest of that iteration is still handled, exactly as a run from the state with exit requested (so its redraw still draws and sends), and at the iteration's \<open>RedrawEventsCleared\<close> the loop is destroyed, so no event of a later iteration is processed.\<close>

theorem close_request_ends_loop:
  assumes "\<not> loop_destroyed L" and "client_run iv es1 (L\<lparr>exit_requested := True\<rparr>) = Inr L1"
    and "RedrawEventsCleared \<notin> fst ` set es1"
  shows "client_run iv ((WindowEvent (window_id (cstate L)) CloseRequested, t) # es1 @ (RedrawEventsCleared, t') # es2) L =
     Inr (L1\<lparr>loop_destroyed := True\<rparr>)"
proof -
  have ex: "exit_requested L1"
    using client_run_invariant [where P = exit_requested, OF _ _ assms(2)] client_event_flags by fastforce
  have alive: "\<not> loop_destroyed L1"
    using client_run_keeps_alive [OF assms(3,2)] assms(1) by simp
  show ?thesis
    using assms(1,2) ex alive client_run_append [of iv es1 "(RedrawEventsCleared, t') # es2" "L\<lparr>exit_requested := True\<rparr>"]
    by (simp add: client_run_stopped)
qed

text \<open>C19: across the event loop, the renderer stays consistent: over any run that does not panic, window resizes (a minimised window included) and redraws keep the surface configuration equal to the tracked window size and to the last configuration the surface was given.\<close>

theorem client_run_renderer_wf:
  "client_run iv es L = Inr L' \<Longrightarrow> renderer_wf (renderer (cstate L)) \<Longrightarrow> renderer_wf (renderer (cstate L'))"
  by (rule client_run_invariant [where P = "\<lambda>L. renderer_wf (renderer (cstate L))"]) (auto dest: client_event_renderer_wf)

text \<open>C20: the UI is drawn in the surface's texture format: \<open>UiRenderer::new\<close> builds the imgui renderer for the format of the renderer's surface configuration, and over any run of the event loop that does not panic (resizes, key input, redraws and their frames) that format and the surface's stay equal.\<close>

theorem imgui_format_matches_surface:
  "client_run iv es (start_client_loop st t0) = Inr L' \<Longrightarrow>
   imgui_texture_format (ui_rend L') = sc_format (surface_config (renderer (cstate L')))"
proof -
  assume run: "client_run iv es (start_client_loop st t0) = Inr L'"
  have "ui_format_ok (start_client_loop st t0)"
    by (simp add: ui_format_ok_def start_client_loop_def ui_renderer_new_def Let_def)
  moreover have "client_run iv es L = Inr L' \<Longrightarrow> ui_format_ok L \<Longrightarrow> ui_format_ok L'" for L
    by (rule client_run_invariant [where P = ui_format_ok]) (auto dest: client_event_ui_format simp: ui_format_ok_def)
  ultimately have "ui_format_ok L'" using run by blast
  then show ?thesis by (simp add: ui_format_ok_def)
qed

text \<open>C30: drawing failures end the loop: with the outbound channel open, a redraw whose surface yields no texture, or whose imgui \<open>prepare_frame\<close> or \<open>render\<close> fails, panics (the \<open>unwrap\<close> of \<open>get_output\<close> and the two \<open>expect\<close> calls of \<open>UiRenderer::render\<close>), after the movement packet has been queued.\<close>

theorem failed_draw_panics:
  assumes "chan_open (packet_action_sender (cstate L))" and "\<not> draw_ok t"
  shows "client_event iv t L (RedrawRequested (window_id (cstate L))) = Inl ()"
proof -
  obtain L' where "redraw iv t L = Inr L'" using redraw_open [OF assms(1)] by blast
  then show ?thesis using draw_frame_fail [OF assms(2)] by simp
qed

subsection \<open>Witnesses\<close>

lemmas frame_defs = draw_frame_def get_output_def create_texture_view_def create_command_encoder_def
  create_render_pass_def present_def client_ui_def client_render_def ui_render_def update_cursor_def

definition example_pressed_loop :: "nat client_loop" where
  "example_pressed_loop = (start_client_loop example_client_state 0)\<lparr>ctx := handle_keyboard_event initial_context (press 10)\<rparr>"

theorem fixed_tick_cadence_witness:
  "clock_ok 0 (last_tick (start_client_loop example_client_state 0))
     [\<lparr>read_now = 5, read_delta = 5, read_check = 5, read_fixed = 5\<rparr>,
      \<lparr>read_now = 20, read_delta = 20, read_check = 20, read_fixed = 20\<rparr>] \<and>
   (0::nat) \<le> 10 \<and>
   last_fixed_tick (start_client_loop example_client_state 0) \<le> last_tick (start_client_loop example_client_state 0) \<and>
   chan_open (packet_action_sender (cstate (start_client_loop example_client_state 0))) \<and>
   (\<exists>tr. redraw_trace 10
      [\<lparr>read_now = 5, read_delta = 5, read_check = 5, read_fixed = 5\<rparr>,
       \<lparr>read_now = 20, read_delta = 20, read_check = 20, read_fixed = 20\<rparr>] (start_client_loop example_client_state 0) = Inr tr \<and>
     last_fixed_tick (start_client_loop example_client_state 0) + length (filter (\<lambda>L'. is_fixed (ctx L')) tr) * (10 + 1 - 0)
       \<le> last_tick (last (start_client_loop example_client_state 0 # tr)))"
proof -
  have h: "clock_ok 0 (last_tick (start_client_loop example_client_state 0))
     [\<lparr>read_now = 5, read_delta = 5, read_check = 5, read_fixed = 5\<rparr>,
      \<lparr>read_now = 20, read_delta = 20, read_check = 20, read_fixed = 20\<rparr>]"
    "(0::nat) \<le> 10"
    "last_fixed_tick (start_client_loop example_client_state 0) \<le> last_tick (start_client_loop example_client_state 0)"
    "chan_open (packet_action_sender (cstate (start_client_loop example_client_state 0)))"
    by (simp_all add: start_client_loop_def example_client_state_def)
  show ?thesis using fixed_tick_cadence [OF h] h by simp
qed

theorem fixed_tick_liveness_witness:
  "clock_ok 0 (last_tick (start_client_loop example_client_state 0))
     [\<lparr>read_now = 5, read_delta = 5, read_check = 5, read_fixed = 5\<rparr>,
      \<lparr>read_now = 12, read_delta = 12, read_check = 12, read_fixed = 12\<rparr>] \<and>
   clock_gap 10 (last_tick (start_client_loop example_client_state 0))
     [\<lparr>read_now = 5, read_delta = 5, read_check = 5, read_fixed = 5\<rparr>,
      \<lparr>read_now = 12, read_delta = 12, read_check = 12, read_fixed = 12\<rparr>] \<and>
   last_fixed_tick (start_client_loop example_client_state 0) \<le> last_tick (start_client_loop example_client_state 0) \<and>
   last_tick (start_client_loop example_client_state 0) \<le> last_fixed_tick (start_client_loop example_client_state 0) + 10 \<and>
   chan_open (packet_action_sender (cstate (start_client_loop example_client_state 0))) \<and>
   (\<exists>tr. redraw_trace 10
      [\<lparr>read_now = 5, read_delta = 5, read_check = 5, read_fixed = 5\<rparr>,
       \<lparr>read_now = 12, read_delta = 12, read_check = 12, read_fixed = 12\<rparr>] (start_client_loop example_client_state 0) = Inr tr \<and>
     last_tick (last (start_client_loop example_client_state 0 # tr))
       \<le> last_fixed_tick (start_client_loop example_client_state 0) + length (filter (\<lambda>L'. is_fixed (ctx L')) tr) * (10 + 10) + 10)"
proof -
  have h: "clock_ok 0 (last_tick (start_client_loop example_client_state 0))
     [\<lparr>read_now = 5, read_delta = 5, read_check = 5, read_fixed = 5\<rparr>,
      \<lparr>read_now = 12, read_delta = 12, read_check = 12, read_fixed = 12\<rparr>]"
    "clock_gap 10 (last_tick (start_client_loop example_client_state 0))
     [\<lparr>read_now = 5, read_delta = 5, read_check = 5, read_fixed = 5\<rparr>,
      \<lparr>read_now = 12, read_delta = 12, read_check = 12, read_fixed = 12\<rparr>]"
    "last_fixed_tick (start_client_loop example_client_state 0) \<le> last_tick (start_client_loop example_client_state 0)"
    "last_tick (start_client_loop example_client_state 0) \<le> last_fixed_tick (start_client_loop example_client_state 0) + 10"
    "chan_open (packet_action_sender (cstate (start_client_loop example_client_state 0)))"
    by (simp_all add: start_client_loop_def example_client_state_def)
  show ?thesis using fixed_tick_liveness [OF h] h by simp
qed

theorem one_packet_per_redraw_witness:
  "chan_open (packet_action_sender (cstate (start_client_loop example_client_state 0))) \<and>
   movement_wf (cstate (start_client_loop example_client_state 0)) \<and>
   (\<exists>L'. redraw 10 \<lparr>read_now = 3, read_delta = 3, read_check = 3, read_fixed = 3\<rparr> (start_client_loop example_client_state 0) = Inr L' \<and>
     frame (ctx L') = frame (ctx (start_client_loop example_client_state 0)) + 1 \<and>
     chan_queue (packet_action_sender (cstate L')) =
       chan_queue (packet_action_sender (cstate (start_client_loop example_client_state 0))) @
       [Reliable (MovementInput (map (pressed (ctx (start_client_loop example_client_state 0))) movement_keys) [0, 0])])"
proof -
  have h: "chan_open (packet_action_sender (cstate (start_client_loop example_client_state 0)))"
    "movement_wf (cstate (start_client_loop example_client_state 0))"
    by (simp_all add: start_client_loop_def example_client_state_def movement_wf_def new_client_player_def)
  show ?thesis using one_packet_per_redraw [OF h] h by blast
qed

theorem closed_channel_panics_witness:
  "\<not> chan_open (packet_action_sender (cstate (start_client_loop
       (example_client_state\<lparr>packet_action_sender := \<lparr>chan_open = False, chan_queue = []\<rparr>\<rparr>) 0))) \<and>
   redraw 10 \<lparr>read_now = 3, read_delta = 3, read_check = 3, read_fixed = 3\<rparr>
     (start_client_loop (example_client_state\<lparr>packet_action_sender := \<lparr>chan_open = False, chan_queue = []\<rparr>\<rparr>) 0) = Inl ()"
  using closed_channel_panics [of "start_client_loop (example_client_state\<lparr>packet_action_sender := \<lparr>chan_open = False, chan_queue = []\<rparr>\<rparr>) 0"]
  by (simp add: start_client_loop_def)

theorem held_key_stable_witness:
  "\<exists>L'. client_run 10 [(RedrawRequested 0, \<lparr>read_now = 3, read_delta = 3, read_check = 3, read_fixed = 3, surface_available = True, imgui_prepare_ok = True, frame_cursor = None, imgui_render_ok = True\<rparr>),
        (WindowEvent 0 (KeyboardInput (press 13)), \<lparr>read_now = 4, read_delta = 4, read_check = 4, read_fixed = 4, surface_available = True, imgui_prepare_ok = True, frame_cursor = None, imgui_render_ok = True\<rparr>)]
      example_pressed_loop = Inr L' \<and>
    key_states (ctx L') ! 10 = key_states (ctx example_pressed_loop) ! 10 \<and>
    frame (ctx L') = frame (ctx example_pressed_loop) +
      of_nat (length (presented (renderer (cstate L'))) - length (presented (renderer (cstate example_pressed_loop))))"
proof -
  let ?es = "[(RedrawRequested 0, \<lparr>read_now = 3, read_delta = 3, read_check = 3, read_fixed = 3, surface_available = True, imgui_prepare_ok = True, frame_cursor = None, imgui_render_ok = True\<rparr>),
        (WindowEvent 0 (KeyboardInput (press 13)), \<lparr>read_now = 4, read_delta = 4, read_check = 4, read_fixed = 4, surface_available = True, imgui_prepare_ok = True, frame_cursor = None, imgui_render_ok = True\<rparr>)]"
  have p: "pressed (ctx example_pressed_loop) 10"
    by (simp add: example_pressed_loop_def pressed_def handle_keyboard_event_def press_def initial_context_def key_count_def)
  have r: "\<forall>(e, t) \<in> set ?es. \<not> key_release_event 10 e" by (simp add: press_def)
  have "\<exists>L'. client_run 10 ?es example_pressed_loop = Inr L'"
    by (simp add: example_pressed_loop_def start_client_loop_def example_client_state_def redraw_def Let_def
        client_update_def send_player_movement_packet_def send_reliable_packet_def send_packet_action_def
        frame_defs ui_renderer_new_def)
  then obtain L' where run: "client_run 10 ?es example_pressed_loop = Inr L'" by blast
  show ?thesis using held_key_stable [OF run p r] run by blast
qed

theorem close_request_ends_loop_witness:
  "\<exists>L1. \<not> loop_destroyed (start_client_loop example_client_state 0) \<and>
     client_run 10 [(MainEventsCleared, \<lparr>read_now = 3, read_delta = 3, read_check = 3, read_fixed = 3, surface_available = True, imgui_prepare_ok = True, frame_cursor = None, imgui_render_ok = True\<rparr>), (RedrawRequested 0, \<lparr>read_now = 3, read_delta = 3, read_check = 3, read_fixed = 3, surface_available = True, imgui_prepare_ok = True, frame_cursor = None, imgui_render_ok = True\<rparr>)]
       ((start_client_loop example_client_state 0)\<lparr>exit_requested := True\<rparr>) = Inr L1 \<and>
     RedrawEventsCleared \<notin> fst ` set [(MainEventsCleared, \<lparr>read_now = 3, read_delta = 3, read_check = 3, read_fixed = 3, surface_available = True, imgui_prepare_ok = True, frame_cursor = None, imgui_render_ok = True\<rparr>), (RedrawRequested 0, \<lparr>read_now = 3, read_delta = 3, read_check = 3, read_fixed = 3, surface_available = True, imgui_prepare_ok = True, frame_cursor = None, imgui_render_ok = True\<rparr>)] \<and>
     client_run 10 ((WindowEvent (window_id (cstate (start_client_loop example_client_state 0))) CloseRequested, \<lparr>read_now = 3, read_delta = 3, read_check = 3, read_fixed = 3, surface_available = True, imgui_prepare_ok = True, frame_cursor = None, imgui_render_ok = True\<rparr>) #
         [(MainEventsCleared, \<lparr>read_now = 3, read_delta = 3, read_check = 3, read_fixed = 3, surface_available = True, imgui_prepare_ok = True, frame_cursor = None, imgui_render_ok = True\<rparr>), (RedrawRequested 0, \<lparr>read_now = 3, read_delta = 3, read_check = 3, read_fixed = 3, surface_available = True, imgui_prepare_ok = True, frame_cursor = None, imgui_render_ok = True\<rparr>)] @ (RedrawEventsCleared, \<lparr>read_now = 3, read_delta = 3, read_check = 3, read_fixed = 3, surface_available = True, imgui_prepare_ok = True, frame_cursor = None, imgui_render_ok = True\<rparr>) # [(RedrawRequested 0, \<lparr>read_now = 3, read_delta = 3, read_check = 3, read_fixed = 3, surface_available = True, imgui_prepare_ok = True, frame_cursor = None, imgui_render_ok = True\<rparr>)])
       (start_client_loop example_client_state 0) = Inr (L1\<lparr>loop_destroyed := True\<rparr>) \<and>
     chan_queue (packet_action_sender (cstate L1)) = [Reliable (MovementInput [False, False, False, False, False, False] [0, 0])]"
proof -
  let ?es1 = "[(MainEventsCleared, \<lparr>read_now = 3, read_delta = 3, read_check = 3, read_fixed = 3, surface_available = True, imgui_prepare_ok = True, frame_cursor = None, imgui_render_ok = True\<rparr>), (RedrawRequested 0, \<lparr>read_now = 3, read_delta = 3, read_check = 3, read_fixed = 3, surface_available = True, imgui_prepare_ok = True, frame_cursor = None, imgui_render_ok = True\<rparr>)]"
  let ?L1 = "projr (client_run 10 ?es1 ((start_client_loop example_client_state 0)\<lparr>exit_requested := True\<rparr>))"
  have run: "client_run 10 ?es1 ((start_client_loop example_client_state 0)\<lparr>exit_requested := True\<rparr>) = Inr ?L1"
    by (simp add: start_client_loop_def example_client_state_def redraw_def Let_def
        client_update_def send_player_movement_packet_def send_reliable_packet_def send_packet_action_def
        frame_defs ui_renderer_new_def)
  have q: "chan_queue (packet_action_sender (cstate ?L1)) = [Reliable (MovementInput [False, False, False, False, False, False] [0, 0])]"
    by (simp add: start_client_loop_def example_client_state_def redraw_def Let_def
        client_update_def send_player_movement_packet_def send_reliable_packet_def send_packet_action_def
        frame_defs ui_renderer_new_def chan_send_def initial_context_def pressed_def movement_keys_def key_A_def key_W_def
        key_D_def key_S_def key_LShift_def key_Space_def key_count_def update_player_movement_def new_client_player_def
        numeral_eq_Suc)
  have h: "\<not> loop_destroyed (start_client_loop example_client_state 0)" "RedrawEventsCleared \<notin> fst ` set ?es1"
    by (simp_all add: start_client_loop_def)
  show ?thesis using close_request_ends_loop [OF h(1) run h(2), of "\<lparr>read_now = 3, read_delta = 3, read_check = 3, read_fixed = 3, surface_available = True, imgui_prepare_ok = True, frame_cursor = None, imgui_render_ok = True\<rparr>" "\<lparr>read_now = 3, read_delta = 3, read_check = 3, read_fixed = 3, surface_available = True, imgui_prepare_ok = True, frame_cursor = None, imgui_render_ok = True\<rparr>" "[(RedrawRequested 0, \<lparr>read_now = 3, read_delta = 3, read_check = 3, read_fixed = 3, surface_available = True, imgui_prepare_ok = True, frame_cursor = None, imgui_render_ok = True\<rparr>)]"] run q h
    by blast
qed

theorem client_run_renderer_wf_witness:
  "\<exists>L'. client_run 10 [(WindowEvent 0 (Resized \<lparr>ps_width = 0, ps_height = 600\<rparr>), \<lparr>read_now = 3, read_delta = 3, read_check = 3, read_fixed = 3, surface_available = True, imgui_prepare_ok = True, frame_cursor = None, imgui_render_ok = True\<rparr>),
        (RedrawRequested 0, \<lparr>read_now = 3, read_delta = 3, read_check = 3, read_fixed = 3, surface_available = True, imgui_prepare_ok = True, frame_cursor = None, imgui_render_ok = True\<rparr>), (WindowEvent 0 (Resized \<lparr>ps_width = 1024, ps_height = 768\<rparr>), \<lparr>read_now = 3, read_delta = 3, read_check = 3, read_fixed = 3, surface_available = True, imgui_prepare_ok = True, frame_cursor = None, imgui_render_ok = True\<rparr>)]
      (start_client_loop example_client_state 0) = Inr L' \<and> renderer_wf (renderer (cstate L'))"
proof -
  let ?es = "[(WindowEvent 0 (Resized \<lparr>ps_width = 0, ps_height = 600\<rparr>), \<lparr>read_now = 3, read_delta = 3, read_check = 3, read_fixed = 3, surface_available = True, imgui_prepare_ok = True, frame_cursor = None, imgui_render_ok = True\<rparr>),
        (RedrawRequested 0, \<lparr>read_now = 3, read_delta = 3, read_check = 3, read_fixed = 3, surface_available = True, imgui_prepare_ok = True, frame_cursor = None, imgui_render_ok = True\<rparr>), (WindowEvent 0 (Resized \<lparr>ps_width = 1024, ps_height = 768\<rparr>), \<lparr>read_now = 3, read_delta = 3, read_check = 3, read_fixed = 3, surface_available = True, imgui_prepare_ok = True, frame_cursor = None, imgui_render_ok = True\<rparr>)]"
  have "\<exists>L'. client_run 10 ?es (start_client_loop example_client_state 0) = Inr L'"
    by (simp add: start_client_loop_def example_client_state_def redraw_def Let_def
        client_update_def send_player_movement_packet_def send_reliable_packet_def send_packet_action_def
        frame_defs ui_renderer_new_def)
  then obtain L' where run: "client_run 10 ?es (start_client_loop example_client_state 0) = Inr L'" by blast
  have w: "renderer_wf (renderer (cstate (start_client_loop example_client_state 0)))"
    by (simp add: start_client_loop_def example_client_state_def example_renderer_def renderer_wf_def Let_def)
  show ?thesis using client_run_renderer_wf [OF run w] run by blast
qed

theorem imgui_format_matches_surface_witness:
  "client_run 10 [(WindowEvent 0 (Resized \<lparr>ps_width = 1024, ps_height = 768\<rparr>), \<lparr>read_now = 3, read_delta = 3, read_check = 3, read_fixed = 3, surface_available = True, imgui_prepare_ok = True, frame_cursor = None, imgui_render_ok = True\<rparr>),
        (RedrawRequested 0, \<lparr>read_now = 3, read_delta = 3, read_check = 3, read_fixed = 3, surface_available = True, imgui_prepare_ok = True, frame_cursor = Some 1, imgui_render_ok = True\<rparr>)]
      (start_client_loop example_client_state 0) = Inr (projr (client_run 10 [(WindowEvent 0 (Resized \<lparr>ps_width = 1024, ps_height = 768\<rparr>), \<lparr>read_now = 3, read_delta = 3, read_check = 3, read_fixed = 3, surface_available = True, imgui_prepare_ok = True, frame_cursor = None, imgui_render_ok = True\<rparr>),
        (RedrawRequested 0, \<lparr>read_now = 3, read_delta = 3, read_check = 3, read_fixed = 3, surface_available = True, imgui_prepare_ok = True, frame_cursor = Some 1, imgui_render_ok = True\<rparr>)]
      (start_client_loop example_client_state 0))) \<and>
   imgui_texture_format (ui_rend (projr (client_run 10 [(WindowEvent 0 (Resized \<lparr>ps_width = 1024, ps_height = 768\<rparr>), \<lparr>read_now = 3, read_delta = 3, read_check = 3, read_fixed = 3, surface_available = True, imgui_prepare_ok = True, frame_cursor = None, imgui_render_ok = True\<rparr>),
        (RedrawRequested 0, \<lparr>read_now = 3, read_delta = 3, read_check = 3, read_fixed = 3, surface_available = True, imgui_prepare_ok = True, frame_cursor = Some 1, imgui_render_ok = True\<rparr>)]
      (start_client_loop example_client_state 0)))) = \<lparr>tf_id = 0, tf_is_srgb = True\<rparr>"
proof -
  let ?es = "[(WindowEvent 0 (Resized \<lparr>ps_width = 1024, ps_height = 768\<rparr>), \<lparr>read_now = 3, read_delta = 3, read_check = 3, read_fixed = 3, surface_available = True, imgui_prepare_ok = True, frame_cursor = None, imgui_render_ok = True\<rparr>),
        (RedrawRequested 0, \<lparr>read_now = 3, read_delta = 3, read_check = 3, read_fixed = 3, surface_available = True, imgui_prepare_ok = True, frame_cursor = Some 1, imgui_render_ok = True\<rparr>)]"
  have run: "client_run 10 ?es (start_client_loop example_client_state 0) =
      Inr (projr (client_run 10 ?es (start_client_loop example_client_state 0)))"
    by (simp add: start_client_loop_def example_client_state_def redraw_def Let_def
        client_update_def send_player_movement_packet_def send_reliable_packet_def send_packet_action_def
        frame_defs ui_renderer_new_def)
  have "sc_format (surface_config (renderer (cstate (projr (client_run 10 ?es (start_client_loop example_client_state 0))))))
      = \<lparr>tf_id = 0, tf_is_srgb = True\<rparr>"
    by (simp add: start_client_loop_def example_client_state_def example_renderer_def redraw_def Let_def
        client_update_def send_player_movement_packet_def send_reliable_packet_def send_packet_action_def
        frame_defs ui_renderer_new_def resize_def update_player_movement_def)
  then show ?thesis using imgui_format_matches_surface [OF run] run by simp
qed

theorem client_output_refines_log_witness:
  "\<exists>L'. client_run 10 [(WindowEvent 0 (KeyboardInput (press key_W)), \<lparr>read_now = 3, read_delta = 3, read_check = 3, read_fixed = 3, surface_available = True, imgui_prepare_ok = True, frame_cursor = None, imgui_render_ok = True\<rparr>), (RedrawRequested 0, \<lparr>read_now = 3, read_delta = 3, read_check = 3, read_fixed = 3, surface_available = True, imgui_prepare_ok = True, frame_cursor = None, imgui_render_ok = True\<rparr>),
      (WindowEvent 0 (KeyboardInput (release key_W)), \<lparr>read_now = 3, read_delta = 3, read_check = 3, read_fixed = 3, surface_available = True, imgui_prepare_ok = True, frame_cursor = None, imgui_render_ok = True\<rparr>), (RedrawRequested 0, \<lparr>read_now = 3, read_delta = 3, read_check = 3, read_fixed = 3, surface_available = True, imgui_prepare_ok = True, frame_cursor = None, imgui_render_ok = True\<rparr>),
      (WindowEvent 0 CloseRequested, \<lparr>read_now = 3, read_delta = 3, read_check = 3, read_fixed = 3, surface_available = True, imgui_prepare_ok = True, frame_cursor = None, imgui_render_ok = True\<rparr>), (RedrawRequested 0, \<lparr>read_now = 3, read_delta = 3, read_check = 3, read_fixed = 3, surface_available = True, imgui_prepare_ok = True, frame_cursor = None, imgui_render_ok = True\<rparr>),
      (RedrawEventsCleared, \<lparr>read_now = 3, read_delta = 3, read_check = 3, read_fixed = 3, surface_available = True, imgui_prepare_ok = True, frame_cursor = None, imgui_render_ok = True\<rparr>), (RedrawRequested 0, \<lparr>read_now = 3, read_delta = 3, read_check = 3, read_fixed = 3, surface_available = True, imgui_prepare_ok = True, frame_cursor = None, imgui_render_ok = True\<rparr>)]
      (start_client_loop example_client_state 0) = Inr L' \<and>
     chan_queue (packet_action_sender (cstate L')) =
       [Reliable (MovementInput [False, True, False, False, False, False] [0, 0]),
        Reliable (MovementInput [False, False, False, False, False, False] [0, 0]),
        Reliable (MovementInput [False, False, False, False, False, False] [0, 0])]"
proof -
  let ?es = "[(WindowEvent 0 (KeyboardInput (press key_W)), \<lparr>read_now = 3, read_delta = 3, read_check = 3, read_fixed = 3, surface_available = True, imgui_prepare_ok = True, frame_cursor = None, imgui_render_ok = True\<rparr>), (RedrawRequested 0, \<lparr>read_now = 3, read_delta = 3, read_check = 3, read_fixed = 3, surface_available = True, imgui_prepare_ok = True, frame_cursor = None, imgui_render_ok = True\<rparr>),
      (WindowEvent 0 (KeyboardInput (release key_W)), \<lparr>read_now = 3, read_delta = 3, read_check = 3, read_fixed = 3, surface_available = True, imgui_prepare_ok = True, frame_cursor = None, imgui_render_ok = True\<rparr>), (RedrawRequested 0, \<lparr>read_now = 3, read_delta = 3, read_check = 3, read_fixed = 3, surface_available = True, imgui_prepare_ok = True, frame_cursor = None, imgui_render_ok = True\<rparr>),
      (WindowEvent 0 CloseRequested, \<lparr>read_now = 3, read_delta = 3, read_check = 3, read_fixed = 3, surface_available = True, imgui_prepare_ok = True, frame_cursor = None, imgui_render_ok = True\<rparr>), (RedrawRequested 0, \<lparr>read_now = 3, read_delta = 3, read_check = 3, read_fixed = 3, surface_available = True, imgui_prepare_ok = True, frame_cursor = None, imgui_render_ok = True\<rparr>),
      (RedrawEventsCleared, \<lparr>read_now = 3, read_delta = 3, read_check = 3, read_fixed = 3, surface_available = True, imgui_prepare_ok = True, frame_cursor = None, imgui_render_ok = True\<rparr>), (RedrawRequested 0, \<lparr>read_now = 3, read_delta = 3, read_check = 3, read_fixed = 3, surface_available = True, imgui_prepare_ok = True, frame_cursor = None, imgui_render_ok = True\<rparr>)]"
  have h: "chan_open (packet_action_sender (cstate (start_client_loop example_client_state 0)))"
    "movement_wf (cstate (start_client_loop example_client_state 0))"
    "\<not> loop_destroyed (start_client_loop example_client_state 0)"
    "list_all (\<lambda>(e, t). draw_ok t) ?es"
    by (simp_all add: start_client_loop_def example_client_state_def movement_wf_def new_client_player_def draw_ok_def)
  have log: "movement_log (window_id (cstate (start_client_loop example_client_state 0)))
      (exit_requested (start_client_loop example_client_state 0)) (ctx (start_client_loop example_client_state 0)) (map fst ?es) =
      [MovementInput [False, True, False, False, False, False] [0, 0],
       MovementInput [False, False, False, False, False, False] [0, 0],
       MovementInput [False, False, False, False, False, False] [0, 0]]"
    by (simp add: start_client_loop_def example_client_state_def initial_context_def handle_keyboard_event_def
        press_def release_def pressed_def movement_keys_def key_A_def key_W_def key_D_def key_S_def
        key_LShift_def key_Space_def key_count_def advance_frame_def)
  have q0: "chan_queue (packet_action_sender (cstate (start_client_loop example_client_state 0))) = []"
    by (simp add: start_client_loop_def example_client_state_def)
  show ?thesis using client_output_refines_log [OF h, of 10] log q0 by simp
qed

theorem submitted_frames_match_presented_witness:
  "submitted (renderer (cstate (start_client_loop example_client_state 0))) =
     map (\<lambda>cfg. [main_pass cfg]) (presented (renderer (cstate (start_client_loop example_client_state 0)))) \<and>
   (\<exists>L'. client_run 10 [(RedrawRequested 0, \<lparr>read_now = 3, read_delta = 3, read_check = 3, read_fixed = 3, surface_available = True, imgui_prepare_ok = True, frame_cursor = None, imgui_render_ok = True\<rparr>), (WindowEvent 0 (Resized \<lparr>ps_width = 1024, ps_height = 768\<rparr>), \<lparr>read_now = 3, read_delta = 3, read_check = 3, read_fixed = 3, surface_available = True, imgui_prepare_ok = True, frame_cursor = None, imgui_render_ok = True\<rparr>), (RedrawRequested 0, \<lparr>read_now = 3, read_delta = 3, read_check = 3, read_fixed = 3, surface_available = True, imgui_prepare_ok = True, frame_cursor = None, imgui_render_ok = True\<rparr>)] (start_client_loop example_client_state 0) = Inr L' \<and>
     submitted (renderer (cstate L')) = map (\<lambda>cfg. [main_pass cfg]) (presented (renderer (cstate L'))))"
proof -
  let ?es = "[(RedrawRequested 0, \<lparr>read_now = 3, read_delta = 3, read_check = 3, read_fixed = 3, surface_available = True, imgui_prepare_ok = True, frame_cursor = None, imgui_render_ok = True\<rparr>), (WindowEvent 0 (Resized \<lparr>ps_width = 1024, ps_height = 768\<rparr>), \<lparr>read_now = 3, read_delta = 3, read_check = 3, read_fixed = 3, surface_available = True, imgui_prepare_ok = True, frame_cursor = None, imgui_render_ok = True\<rparr>), (RedrawRequested 0, \<lparr>read_now = 3, read_delta = 3, read_check = 3, read_fixed = 3, surface_available = True, imgui_prepare_ok = True, frame_cursor = None, imgui_render_ok = True\<rparr>)]"
  have h: "submitted (renderer (cstate (start_client_loop example_client_state 0))) =
     map (\<lambda>cfg. [main_pass cfg]) (presented (renderer (cstate (start_client_loop example_client_state 0))))"
    by (simp add: start_client_loop_def example_client_state_def example_renderer_def Let_def)
  have "\<exists>L'. client_run 10 ?es (start_client_loop example_client_state 0) = Inr L'"
    by (simp add: start_client_loop_def example_client_state_def redraw_def Let_def
        client_update_def send_player_movement_packet_def send_reliable_packet_def send_packet_action_def
        frame_defs ui_renderer_new_def)
  then obtain L' where run: "client_run 10 ?es (start_client_loop example_client_state 0) = Inr L'" by blast
  show ?thesis using submitted_frames_match_presented [OF run h] run h by blast
qed

theorem frames_and_packets_lockstep_witness:
  "\<exists>L'. client_run 10 [(RedrawRequested 0, \<lparr>read_now = 3, read_delta = 3, read_check = 3, read_fixed = 3, surface_available = True, imgui_prepare_ok = True, frame_cursor = None, imgui_render_ok = True\<rparr>), (WindowEvent 0 (Resized \<lparr>ps_width = 1024, ps_height = 768\<rparr>), \<lparr>read_now = 3, read_delta = 3, read_check = 3, read_fixed = 3, surface_available = True, imgui_prepare_ok = True, frame_cursor = None, imgui_render_ok = True\<rparr>), (RedrawRequested 0, \<lparr>read_now = 3, read_delta = 3, read_check = 3, read_fixed = 3, surface_available = True, imgui_prepare_ok = True, frame_cursor = None, imgui_render_ok = True\<rparr>)] (start_client_loop example_client_state 0) = Inr L' \<and>
     length (presented (renderer (cstate L'))) + length (chan_queue (packet_action_sender (cstate (start_client_loop example_client_state 0)))) =
     length (presented (renderer (cstate (start_client_loop example_client_state 0)))) + length (chan_queue (packet_action_sender (cstate L')))"
proof -
  let ?es = "[(RedrawRequested 0, \<lparr>read_now = 3, read_delta = 3, read_check = 3, read_fixed = 3, surface_available = True, imgui_prepare_ok = True, frame_cursor = None, imgui_render_ok = True\<rparr>), (WindowEvent 0 (Resized \<lparr>ps_width = 1024, ps_height = 768\<rparr>), \<lparr>read_now = 3, read_delta = 3, read_check = 3, read_fixed = 3, surface_available = True, imgui_prepare_ok = True, frame_cursor = None, imgui_render_ok = True\<rparr>), (RedrawRequested 0, \<lparr>read_now = 3, read_delta = 3, read_check = 3, read_fixed = 3, surface_available = True, imgui_prepare_ok = True, frame_cursor = None, imgui_render_ok = True\<rparr>)]"
  have "\<exists>L'. client_run 10 ?es (start_client_loop example_client_state 0) = Inr L'"
    by (simp add: start_client_loop_def example_client_state_def redraw_def Let_def
        client_update_def send_player_movement_packet_def send_reliable_packet_def send_packet_action_def
        frame_defs ui_renderer_new_def)
  then obtain L' where run: "client_run 10 ?es (start_client_loop example_client_state 0) = Inr L'" by blast
  show ?thesis using frames_and_packets_lockstep [OF run] run by blast
qed

theorem failed_draw_panics_witness:
  "chan_open (packet_action_sender (cstate (start_client_loop example_client_state 0))) \<and>
   \<not> draw_ok \<lparr>read_now = 3, read_delta = 3, read_check = 3, read_fixed = 3, surface_available = False,
      imgui_prepare_ok = True, frame_cursor = None, imgui_render_ok = True\<rparr> \<and>
   client_event 10 \<lparr>read_now = 3, read_delta = 3, read_check = 3, read_fixed = 3, surface_available = False,
      imgui_prepare_ok = True, frame_cursor = None, imgui_render_ok = True\<rparr> (start_client_loop example_client_state 0)
     (RedrawRequested (window_id (cstate (start_client_loop example_client_state 0)))) = Inl ()"
proof -
  have h: "chan_open (packet_action_sender (cstate (start_client_loop example_client_state 0)))"
    "\<not> draw_ok \<lparr>read_now = 3, read_delta = 3, read_check = 3, read_fixed = 3, surface_available = False,
      imgui_prepare_ok = True, frame_cursor = None, imgui_render_ok = True\<rparr>"
    by (simp_all add: start_client_loop_def example_client_state_def draw_ok_def)
  show ?thesis using failed_draw_panics [OF h, of 10] h by simp
qed

end
