(* ===== verification/Server.thy ===== *)
theory Server
  imports Framing
begin

text \<open>
  The server's session registry and its fixed update: \<open>Player\<close> of
  \<open>src/server/src/player.rs\<close>, \<open>ServerState\<close> of \<open>src/server/src/state.rs\<close>, the
  \<open>TcpEvent\<close> of \<open>src/server/src/networking.rs\<close> and \<open>update\<close>, \<open>fixed_update\<close>,
  \<open>receive_packets\<close>, \<open>receive_tcp_packets\<close> and \<open>handle_tcp_packet_received\<close> of
  \<open>src/server/src/main.rs\<close>. A player's \<open>Sender<PacketAction>\<close> is a handle into a
  store of channels, so that two players holding clones of one sender share its queue,
  as they do in the program. The \<open>tracing\<close> macros append to a log.
  \<open>UdpEvent\<close> has no variants, so its type is the parameter \<open>'v\<close>.
\<close>

type_synonym sender = nat

record server_player =
  sp_id :: "32 word"
  sp_tcp_addr :: socket_addr
  sp_udp_addr :: socket_addr
  sp_sender :: sender

datatype tcp_event =
    NewConnection "32 word" socket_addr socket_addr sender
  | PacketReceived socket_addr reliable_packet

datatype log_entry =
    NewConnectionInfo socket_addr "32 word"
  | InvalidPacketWarn socket_addr
  | PacketSentInfo socket_addr reliable_packet

record ('u, 'v) server_state =
  tcp_receiver :: "tcp_event channel"
  udp_receiver :: "'v channel"
  players :: "32 word \<rightharpoonup> server_player"
  outboxes :: "sender \<Rightarrow> 'u packet_action channel"
  server_log :: "log_entry list"

subsection \<open>\<open>Player\<close>\<close>

definition new_server_player :: "32 word \<Rightarrow> socket_addr \<Rightarrow> socket_addr \<Rightarrow> sender \<Rightarrow> server_player" where
  "new_server_player i tcp udp s = \<lparr>sp_id = i, sp_tcp_addr = tcp, sp_udp_addr = udp, sp_sender = s\<rparr>"

definition player_send_packet_action ::
  "server_player \<Rightarrow> 'u packet_action \<Rightarrow> ('u, 'v) server_state \<Rightarrow> unit + ('u, 'v) server_state" where
  "player_send_packet_action p a st =
     (case chan_send a (outboxes st (sp_sender p)) of
        Inl e \<Rightarrow> Inl e
      | Inr c \<Rightarrow> Inr (st\<lparr>outboxes := (outboxes st)(sp_sender p := c)\<rparr>))"

definition player_send_reliable_packet ::
  "server_player \<Rightarrow> reliable_packet \<Rightarrow> ('u, 'v) server_state \<Rightarrow> unit + ('u, 'v) server_state" where
  "player_send_reliable_packet p m st = player_send_packet_action p (Reliable m) st"

definition player_send_unreliable_packet ::
  "server_player \<Rightarrow> 'u \<Rightarrow> ('u, 'v) server_state \<Rightarrow> unit + ('u, 'v) server_state" where
  "player_send_unreliable_packet p m st = player_send_packet_action p (Unreliable m) st"

subsection \<open>The fixed update\<close>

text \<open>\<open>handle_tcp_packet_received\<close>: its \<open>match\<close> has the single arm \<open>_\<close>, which warns
  that the packet is invalid; then the packet is logged. No state but the log changes.\<close>

definition handle_tcp_packet_received ::
  "('u, 'v) server_state \<Rightarrow> socket_addr \<Rightarrow> reliable_packet \<Rightarrow> ('u, 'v) server_state" where
  "handle_tcp_packet_received st addr packet =
     (let st = (case packet of _ \<Rightarrow> st\<lparr>server_log := server_log st @ [InvalidPacketWarn addr]\<rparr>)
      in st\<lparr>server_log := server_log st @ [PacketSentInfo addr packet]\<rparr>)"

text \<open>One iteration of the \<open>while let\<close> loop of \<open>receive_tcp_packets\<close>, on the event
  it received.\<close>

fun apply_tcp_event :: "('u, 'v) server_state \<Rightarrow> tcp_event \<Rightarrow> ('u, 'v) server_state" where
  "apply_tcp_event st (NewConnection i tcp udp s) =
     (let player = new_server_player i tcp udp s;
          st = st\<lparr>players := (players st)(i \<mapsto> player)\<rparr>
      in st\<lparr>server_log := server_log st @ [NewConnectionInfo tcp i]\<rparr>)"
| "apply_tcp_event st (PacketReceived addr packet) = handle_tcp_packet_received st addr packet"

lemma apply_tcp_event_receiver [simp]:
  "tcp_receiver (apply_tcp_event st ev) = tcp_receiver st"
  by (cases ev) (simp_all add: handle_tcp_packet_received_def Let_def)

text \<open>\<open>receive_tcp_packets\<close>: \<open>try_recv\<close> until the queue is empty. The loop ends
  because each iteration takes one event off the queue and handling an event never
  adds one.\<close>

function receive_tcp_packets :: "('u, 'v) server_state \<Rightarrow> ('u, 'v) server_state" where
  "receive_tcp_packets st =
     (case chan_try_recv (tcp_receiver st) of
        None \<Rightarrow> st
      | Some (ev, rx) \<Rightarrow> receive_tcp_packets (apply_tcp_event (st\<lparr>tcp_receiver := rx\<rparr>) ev))"
  by pat_completeness auto
termination
  by (relation "measure (\<lambda>st. length (chan_queue (tcp_receiver st)))")
     (auto simp: chan_try_recv_def split: list.splits)

definition receive_packets :: "('u, 'v) server_state \<Rightarrow> duration \<Rightarrow> ('u, 'v) server_state" where
  "receive_packets st dt = receive_tcp_packets st"

definition server_update :: "('u, 'v) server_state \<Rightarrow> duration \<Rightarrow> ('u, 'v) server_state" where
  "server_update st dt = st"

definition server_fixed_update :: "('u, 'v) server_state \<Rightarrow> duration \<Rightarrow> ('u, 'v) server_state" where
  "server_fixed_update st dt = receive_packets st dt"

subsection \<open>The abstract registry update\<close>

text \<open>What a drain of the event queue promises: each new connection registers its player, in queue order; each event leaves its log lines.\<close>

fun register_event :: "(32 word \<rightharpoonup> server_player) \<Rightarrow> tcp_event \<Rightarrow> (32 word \<rightharpoonup> server_player)" where
  "register_event m (NewConnection i tcp udp s) = m(i \<mapsto> new_server_player i tcp udp s)"
| "register_event m (PacketReceived a p) = m"

definition register_all :: "(32 word \<rightharpoonup> server_player) \<Rightarrow> tcp_event list \<Rightarrow> (32 word \<rightharpoonup> server_player)" where
  "register_all m evs = fold (\<lambda>ev m. register_event m ev) evs m"

fun event_log :: "tcp_event \<Rightarrow> log_entry list" where
  "event_log (NewConnection i tcp udp s) = [NewConnectionInfo tcp i]"
| "event_log (PacketReceived a p) = [InvalidPacketWarn a, PacketSentInfo a p]"

subsection \<open>Registry invariant\<close>

text \<open>Every registered player is stored under its own id.\<close>

definition registry_wf :: "('u, 'v) server_state \<Rightarrow> bool" where
  "registry_wf st \<longleftrightarrow> (\<forall>i p. players st i = Some p \<longrightarrow> sp_id p = i)"

subsection \<open>The drain as a fold\<close>

declare receive_tcp_packets.simps [simp del]

lemma receive_tcp_packets_fold:
  "receive_tcp_packets st =
     fold (\<lambda>ev s. apply_tcp_event s ev) (chan_queue (tcp_receiver st))
       (st\<lparr>tcp_receiver := (tcp_receiver st)\<lparr>chan_queue := []\<rparr>\<rparr>)"
proof (induction st rule: receive_tcp_packets.induct)
  case (1 st)
  show ?case
  proof (cases "chan_queue (tcp_receiver st)")
    case Nil
    then show ?thesis
      by (subst receive_tcp_packets.simps) (simp add: chan_try_recv_def)
  next
    case (Cons ev evs)
    have step: "receive_tcp_packets st =
        receive_tcp_packets (apply_tcp_event (st\<lparr>tcp_receiver := (tcp_receiver st)\<lparr>chan_queue := evs\<rparr>\<rparr>) ev)"
      using Cons by (subst receive_tcp_packets.simps) (simp add: chan_try_recv_def)
    have ih: "receive_tcp_packets (apply_tcp_event (st\<lparr>tcp_receiver := (tcp_receiver st)\<lparr>chan_queue := evs\<rparr>\<rparr>) ev) =
       fold (\<lambda>ev s. apply_tcp_event s ev) evs
         ((apply_tcp_event (st\<lparr>tcp_receiver := (tcp_receiver st)\<lparr>chan_queue := evs\<rparr>\<rparr>) ev)
            \<lparr>tcp_receiver := (tcp_receiver st)\<lparr>chan_queue := []\<rparr>\<rparr>)"
      using "1" [of "(ev, (tcp_receiver st)\<lparr>chan_queue := evs\<rparr>)" ev "(tcp_receiver st)\<lparr>chan_queue := evs\<rparr>"] Cons
      by (simp add: chan_try_recv_def)
    have swap: "(apply_tcp_event s ev)\<lparr>tcp_receiver := r\<rparr> = apply_tcp_event (s\<lparr>tcp_receiver := r\<rparr>) ev" for s r
      by (cases ev) (simp_all add: handle_tcp_packet_received_def Let_def)
    show ?thesis using step ih Cons by (simp add: swap)
  qed
qed

lemma apply_tcp_event_fields [simp]:
  "players (apply_tcp_event st ev) = register_event (players st) ev"
  "server_log (apply_tcp_event st ev) = server_log st @ event_log ev"
  "outboxes (apply_tcp_event st ev) = outboxes st"
  "udp_receiver (apply_tcp_event st ev) = udp_receiver st"
  by (cases ev; simp add: handle_tcp_packet_received_def Let_def)+

lemma fold_apply_tcp_event:
  "players (fold (\<lambda>ev s. apply_tcp_event s ev) evs s) = register_all (players s) evs \<and>
   server_log (fold (\<lambda>ev s. apply_tcp_event s ev) evs s) = server_log s @ concat (map event_log evs) \<and>
   outboxes (fold (\<lambda>ev s. apply_tcp_event s ev) evs s) = outboxes s \<and>
   udp_receiver (fold (\<lambda>ev s. apply_tcp_event s ev) evs s) = udp_receiver s \<and>
   tcp_receiver (fold (\<lambda>ev s. apply_tcp_event s ev) evs s) = tcp_receiver s"
  by (induction evs arbitrary: s) (simp_all add: register_all_def)

lemma register_event_wf:
  "\<forall>i p. m i = Some p \<longrightarrow> sp_id p = i \<Longrightarrow> m' = register_event m ev \<Longrightarrow>
   \<forall>i p. m' i = Some p \<longrightarrow> sp_id p = i"
  by (cases ev) (auto simp: new_server_player_def)

lemma register_all_wf:
  "\<forall>i p. m i = Some p \<longrightarrow> sp_id p = i \<Longrightarrow> \<forall>i p. register_all m evs i = Some p \<longrightarrow> sp_id p = i"
proof (induction evs arbitrary: m)
  case Nil
  then show ?case by (simp add: register_all_def)
next
  case (Cons ev evs)
  have "\<forall>i p. register_event m ev i = Some p \<longrightarrow> sp_id p = i"
    using register_event_wf [OF Cons.prems refl] .
  then have "\<forall>i p. register_all (register_event m ev) evs i = Some p \<longrightarrow> sp_id p = i"
    by (rule Cons.IH)
  then show ?case by (simp add: register_all_def)
qed

lemma register_all_no_connection:
  "\<forall>ev \<in> set evs. \<exists>a p. ev = PacketReceived a p \<Longrightarrow> register_all m evs = m"
proof (induction evs)
  case Nil
  then show ?case by (simp add: register_all_def)
next
  case (Cons ev evs)
  then obtain a p where "ev = PacketReceived a p" by auto
  with Cons show ?case by (simp add: register_all_def)
qed

lemma receive_tcp_packets_fields:
  "players (receive_tcp_packets st) = register_all (players st) (chan_queue (tcp_receiver st))"
  "server_log (receive_tcp_packets st) = server_log st @ concat (map event_log (chan_queue (tcp_receiver st)))"
  "outboxes (receive_tcp_packets st) = outboxes st"
  "udp_receiver (receive_tcp_packets st) = udp_receiver st"
  "tcp_receiver (receive_tcp_packets st) = (tcp_receiver st)\<lparr>chan_queue := []\<rparr>"
  using fold_apply_tcp_event [of "chan_queue (tcp_receiver st)"
      "st\<lparr>tcp_receiver := (tcp_receiver st)\<lparr>chan_queue := []\<rparr>\<rparr>"]
  by (simp_all add: receive_tcp_packets_fold)

subsection \<open>Properties of the registry and the fixed update\<close>

text \<open>C5: refinement: draining the TCP event queue (\<open>receive_tcp_packets\<close>) leaves the queue empty and the registry equal to the abstract registry update, every \<open>NewConnection\<close> in queue order inserting its player (a later one replacing an earlier one with the same id); the players' outbound channels and the UDP receiver are untouched.\<close>

theorem drain_refines_registry:
  "players (receive_tcp_packets st) = register_all (players st) (chan_queue (tcp_receiver st)) \<and>
   chan_queue (tcp_receiver (receive_tcp_packets st)) = [] \<and>
   outboxes (receive_tcp_packets st) = outboxes st \<and>
   udp_receiver (receive_tcp_packets st) = udp_receiver st"
  by (simp add: receive_tcp_packets_fields)

text \<open>every registered player is stored under its own id, and a drain of the event queue keeps it so.\<close>

theorem drain_preserves_registry_wf:
  "registry_wf st \<Longrightarrow> registry_wf (receive_tcp_packets st)"
  unfolding registry_wf_def receive_tcp_packets_fields by (rule register_all_wf)

text \<open>C25: \<open>handle_tcp_packet_received\<close> has only the catch-all arm, so the drain logs every received packet, valid or not, as an invalid packet (then logs the packet); a new connection is logged once.\<close>

theorem every_packet_warned_invalid:
  "server_log (receive_tcp_packets st) = server_log st @ concat (map event_log (chan_queue (tcp_receiver st)))"
  by (simp add: receive_tcp_packets_fields)

text \<open>a queue holding only received packets changes no session: the registry and every player's outbound channel are the same after the drain.\<close>

theorem packets_leave_sessions:
  "\<forall>ev \<in> set (chan_queue (tcp_receiver st)). \<exists>a p. ev = PacketReceived a p \<Longrightarrow>
   players (receive_tcp_packets st) = players st \<and> outboxes (receive_tcp_packets st) = outboxes st"
  by (simp add: receive_tcp_packets_fields register_all_no_connection)

text \<open>\<open>Player::send_packet_action\<close> appends the action to the player's own channel and changes no other channel and no registry entry; players that share a sender share that one queue.\<close>

theorem send_touches_only_own_channel:
  assumes "player_send_packet_action p a st = Inr st'"
  shows "chan_queue (outboxes st' (sp_sender p)) = chan_queue (outboxes st (sp_sender p)) @ [a] \<and>
         (\<forall>s. s \<noteq> sp_sender p \<longrightarrow> outboxes st' s = outboxes st s) \<and>
         players st' = players st"
  using assms
  by (auto simp: player_send_packet_action_def chan_send_def split: sum.splits if_splits)

subsection \<open>Witnesses\<close>

text \<open>A server whose queue holds a new connection for player 7 followed by a handshake
  from the same address; every outbound channel is open and empty.\<close>

definition example_server_state :: "(nat, unit) server_state" where
  "example_server_state =
     \<lparr>tcp_receiver = \<lparr>chan_open = True, chan_queue =
        [NewConnection 7 (SocketAddrV4 1 4000) (SocketAddrV4 1 4001) 0,
         PacketReceived (SocketAddrV4 1 4000) (Handshake 4001)]\<rparr>,
      udp_receiver = \<lparr>chan_open = True, chan_queue = []\<rparr>,
      players = Map.empty,
      outboxes = (\<lambda>_. \<lparr>chan_open = True, chan_queue = []\<rparr>),
      server_log = []\<rparr>"

theorem drain_preserves_registry_wf_witness:
  "registry_wf example_server_state \<and> registry_wf (receive_tcp_packets example_server_state)"
proof -
  have h: "registry_wf example_server_state"
    by (simp add: registry_wf_def example_server_state_def)
  show ?thesis using drain_preserves_registry_wf [OF h] h by simp
qed

theorem packets_leave_sessions_witness:
  "chan_queue (tcp_receiver (example_server_state\<lparr>tcp_receiver :=
        \<lparr>chan_open = True, chan_queue = [PacketReceived (SocketAddrV4 1 4000) (Handshake 4001)]\<rparr>\<rparr>))
     = [PacketReceived (SocketAddrV4 1 4000) (Handshake 4001)] \<and>
   players (receive_tcp_packets (example_server_state\<lparr>tcp_receiver :=
        \<lparr>chan_open = True, chan_queue = [PacketReceived (SocketAddrV4 1 4000) (Handshake 4001)]\<rparr>\<rparr>))
     = players example_server_state \<and>
   outboxes (receive_tcp_packets (example_server_state\<lparr>tcp_receiver :=
        \<lparr>chan_open = True, chan_queue = [PacketReceived (SocketAddrV4 1 4000) (Handshake 4001)]\<rparr>\<rparr>))
     = outboxes example_server_state"
  using packets_leave_sessions [of "example_server_state\<lparr>tcp_receiver :=
        \<lparr>chan_open = True, chan_queue = [PacketReceived (SocketAddrV4 1 4000) (Handshake 4001)]\<rparr>\<rparr>"]
  by simp

theorem send_touches_only_own_channel_witness:
  "player_send_packet_action (new_server_player 7 (SocketAddrV4 1 4000) (SocketAddrV4 1 4001) 0)
      (Reliable (HandshakeRes 7)) example_server_state
     = Inr (example_server_state\<lparr>outboxes := (outboxes example_server_state)
         (0 := \<lparr>chan_open = True, chan_queue = [Reliable (HandshakeRes 7)]\<rparr>)\<rparr>) \<and>
   chan_queue (outboxes (example_server_state\<lparr>outboxes := (outboxes example_server_state)
         (0 := \<lparr>chan_open = True, chan_queue = [Reliable (HandshakeRes 7)]\<rparr>)\<rparr>) 0)
     = chan_queue (outboxes example_server_state 0) @ [Reliable (HandshakeRes 7)]"
proof -
  have e: "player_send_packet_action (new_server_player 7 (SocketAddrV4 1 4000) (SocketAddrV4 1 4001) 0)
      (Reliable (HandshakeRes 7)) example_server_state
     = Inr (example_server_state\<lparr>outboxes := (outboxes example_server_state)
         (0 := \<lparr>chan_open = True, chan_queue = [Reliable (HandshakeRes 7)]\<rparr>)\<rparr>)"
    by (simp add: player_send_packet_action_def example_server_state_def new_server_player_def)
  show ?thesis using send_touches_only_own_channel [OF e] e by (simp add: new_server_player_def)
qed

end
