(* ===== verification/ServerLoop.thy ===== *)
theory ServerLoop
  imports Server
begin

text \<open>
  The server's fixed-rate loop, \<open>server_game_loop\<close> of \<open>src/server/src/game_loop.rs\<close>.
  It never returns (its type is \<open>Infallible\<close>); the model is one iteration as a state
  transformer and the run of any finite number of iterations. An iteration reads the
  clock twice: \<open>Instant::now()\<close> and, later, \<open>last_fixed_tick.elapsed()\<close>. The
  callbacks are parameters, as the function pointers of the source are. \<open>Instant - Instant\<close>
  saturates at zero, as \<open>nat\<close> subtraction does.
\<close>

record 's server_loop =
  sstate :: 's
  s_last_tick :: instant
  s_last_fixed_tick :: instant

definition start_server_loop :: "'s \<Rightarrow> instant \<Rightarrow> 's server_loop" where
  "start_server_loop st t0 = \<lparr>sstate = st, s_last_tick = t0, s_last_fixed_tick = t0\<rparr>"

definition server_iteration ::
  "('s \<Rightarrow> duration \<Rightarrow> 's) \<Rightarrow> ('s \<Rightarrow> duration \<Rightarrow> 's) \<Rightarrow> duration \<Rightarrow> instant \<times> instant
   \<Rightarrow> 's server_loop \<Rightarrow> 's server_loop" where
  "server_iteration update fixed_update interval r L =
     (let now = fst r;
          L = L\<lparr>sstate := update (sstate L) (s_last_tick L - now)\<rparr>;
          L = L\<lparr>s_last_tick := now\<rparr>
      in if snd r - s_last_fixed_tick L < interval then L
         else let L = L\<lparr>sstate := fixed_update (sstate L) (s_last_fixed_tick L - now)\<rparr>
              in L\<lparr>s_last_fixed_tick := now\<rparr>)"

fun server_loop_run ::
  "('s \<Rightarrow> duration \<Rightarrow> 's) \<Rightarrow> ('s \<Rightarrow> duration \<Rightarrow> 's) \<Rightarrow> duration \<Rightarrow> (instant \<times> instant) list
   \<Rightarrow> 's server_loop \<Rightarrow> 's server_loop" where
  "server_loop_run update fixed_update interval [] L = L"
| "server_loop_run update fixed_update interval (r # rs) L =
     server_loop_run update fixed_update interval rs (server_iteration update fixed_update interval r L)"

text \<open>Monotonic readings: each iteration's \<open>now\<close> is at or after the previous reading
  and its \<open>elapsed()\<close> reading at or after its \<open>now\<close>, by at most \<open>d\<close>.\<close>

fun server_clock_ok :: "nat \<Rightarrow> instant \<Rightarrow> (instant \<times> instant) list \<Rightarrow> bool" where
  "server_clock_ok d p [] = True"
| "server_clock_ok d p (r # rs) \<longleftrightarrow>
     p \<le> fst r \<and> fst r \<le> snd r \<and> snd r \<le> fst r + d \<and> server_clock_ok d (snd r) rs"

text \<open>Counting fixed updates: a counter paired with the state, advanced by the fixed update only.\<close>

definition count_fixed :: "('s \<Rightarrow> duration \<Rightarrow> 's) \<Rightarrow> ('s \<Rightarrow> duration \<Rightarrow> 's) \<Rightarrow> (nat \<times> 's \<Rightarrow> duration \<Rightarrow> nat \<times> 's) \<times> (nat \<times> 's \<Rightarrow> duration \<Rightarrow> nat \<times> 's)" where
  "count_fixed upd fupd = ((\<lambda>(n, s) dt. (n, upd s dt)), (\<lambda>(n, s) dt. (Suc n, fupd s dt)))"

subsection \<open>Iterations on a monotonic clock\<close>

lemma server_iteration_mono:
  assumes "s_last_tick L \<le> fst r" and "s_last_fixed_tick L \<le> fst r"
  shows "server_iteration upd fupd iv r L =
    (if snd r - s_last_fixed_tick L < iv then L\<lparr>sstate := upd (sstate L) 0, s_last_tick := fst r\<rparr>
     else L\<lparr>sstate := fupd (upd (sstate L) 0) 0, s_last_tick := fst r, s_last_fixed_tick := fst r\<rparr>)"
  using assms by (simp add: server_iteration_def Let_def)

lemma server_clock_ok_mono: "server_clock_ok d p rs \<Longrightarrow> q \<le> p \<Longrightarrow> server_clock_ok d q rs"
  by (cases rs) auto

subsection \<open>Properties of the server loop\<close>

text \<open>C8: with a monotonic clock, \<open>update\<close> and \<open>fixed_update\<close> are always passed a zero duration: the loop computes \<open>last_tick - now\<close> and \<open>last_fixed_tick - now\<close>, earlier minus later, which saturates at zero; so any run equals the run whose callbacks ignore their duration argument.\<close>

theorem server_durations_always_zero:
  assumes "server_clock_ok d (s_last_tick L) rs" and "s_last_fixed_tick L \<le> s_last_tick L"
  shows "server_loop_run upd fupd iv rs L = server_loop_run (\<lambda>s _. upd s 0) (\<lambda>s _. fupd s 0) iv rs L"
  using assms
proof (induction rs arbitrary: L)
  case Nil
  then show ?case by simp
next
  case (Cons r rs)
  have le: "s_last_tick L \<le> fst r" "s_last_fixed_tick L \<le> fst r" using Cons.prems by auto
  let ?L' = "server_iteration upd fupd iv r L"
  have eq: "server_iteration (\<lambda>s _. upd s 0) (\<lambda>s _. fupd s 0) iv r L = ?L'"
    using server_iteration_mono [OF le, of upd fupd iv] server_iteration_mono [OF le, of "\<lambda>s _. upd s 0" "\<lambda>s _. fupd s 0" iv]
    by simp
  have "s_last_tick ?L' = fst r" "s_last_fixed_tick ?L' \<le> fst r"
    using server_iteration_mono [OF le, of upd fupd iv] le by auto
  moreover have "server_clock_ok d (fst r) rs"
    using Cons.prems(1) server_clock_ok_mono [of d "snd r" rs "fst r"] by auto
  ultimately have "server_loop_run upd fupd iv rs ?L' = server_loop_run (\<lambda>s _. upd s 0) (\<lambda>s _. fupd s 0) iv rs ?L'"
    using Cons.IH by simp
  then show ?case using eq by simp
qed

text \<open>C16: fixed updates are at least \<open>interval - d\<close> apart: over any run with monotonic readings whose two readings per iteration differ by at most \<open>d \<le> interval\<close>, the number of fixed updates times \<open>interval - d\<close> never exceeds the advance of the last fixed tick.\<close>

theorem server_fixed_cadence:
  assumes "server_clock_ok d (s_last_tick L) rs" and "s_last_fixed_tick L \<le> s_last_tick L" and "d \<le> iv"
  shows "s_last_fixed_tick L + (fst (sstate (server_loop_run (fst (count_fixed upd fupd)) (snd (count_fixed upd fupd)) iv rs L))
            - fst (sstate L)) * (iv - d)
         \<le> s_last_fixed_tick (server_loop_run (fst (count_fixed upd fupd)) (snd (count_fixed upd fupd)) iv rs L)
       \<and> fst (sstate L) \<le> fst (sstate (server_loop_run (fst (count_fixed upd fupd)) (snd (count_fixed upd fupd)) iv rs L))"
  using assms(1,2)
proof (induction rs arbitrary: L)
  case Nil
  then show ?case by simp
next
  case (Cons r rs)
  have le: "s_last_tick L \<le> fst r" "s_last_fixed_tick L \<le> fst r" using Cons.prems by auto
  have ok: "server_clock_ok d (fst r) rs"
    using Cons.prems(1) server_clock_ok_mono [of d "snd r" rs "fst r"] by auto
  let ?u = "fst (count_fixed upd fupd)" and ?f = "snd (count_fixed upd fupd)"
  let ?L' = "server_iteration ?u ?f iv r L"
  obtain n s where ns: "sstate L = (n, s)" by (cases "sstate L")
  have st: "s_last_tick ?L' = fst r" "s_last_fixed_tick ?L' \<le> fst r"
    using server_iteration_mono [OF le, of ?u ?f iv] le by auto
  have IH: "s_last_fixed_tick ?L' + (fst (sstate (server_loop_run ?u ?f iv rs ?L')) - fst (sstate ?L')) * (iv - d)
         \<le> s_last_fixed_tick (server_loop_run ?u ?f iv rs ?L') \<and>
       fst (sstate ?L') \<le> fst (sstate (server_loop_run ?u ?f iv rs ?L'))"
    using Cons.IH [of ?L'] ok st by simp
  show ?case
  proof (cases "snd r - s_last_fixed_tick L < iv")
    case True
    then have "fst (sstate ?L') = n" "s_last_fixed_tick ?L' = s_last_fixed_tick L"
      using server_iteration_mono [OF le, of ?u ?f iv] ns by (simp_all add: count_fixed_def)
    with IH ns show ?thesis by simp
  next
    case False
    then have n': "fst (sstate ?L') = Suc n" and lf': "s_last_fixed_tick ?L' = fst r"
      using server_iteration_mono [OF le, of ?u ?f iv] ns by (simp_all add: count_fixed_def)
    have "snd r \<le> fst r + d" using Cons.prems(1) by simp
    then have gap: "s_last_fixed_tick L + (iv - d) \<le> fst r"
      using False le(2) by arith
    have "s_last_fixed_tick L + (fst (sstate (server_loop_run ?u ?f iv rs ?L')) - n) * (iv - d)
          \<le> s_last_fixed_tick (server_loop_run ?u ?f iv rs ?L')"
    proof -
      let ?m = "fst (sstate (server_loop_run ?u ?f iv rs ?L'))"
      have m: "Suc n \<le> ?m" using IH n' by simp
      then have "?m - n = Suc (?m - Suc n)" by simp
      moreover have "fst r + (?m - Suc n) * (iv - d) \<le> s_last_fixed_tick (server_loop_run ?u ?f iv rs ?L')"
        using IH n' lf' by simp
      ultimately show ?thesis using gap by (simp add: algebra_simps)
    qed
    then show ?thesis using IH n' ns by simp
  qed
qed

text \<open>an iteration on which the fixed update fires drains the TCP event queue of the server, and the registry afterwards is the abstract registry update over the drained events.\<close>

theorem fixed_iteration_drains_queue:
  assumes "s_last_tick L \<le> fst r" and "s_last_fixed_tick L \<le> fst r"
    and "\<not> snd r - s_last_fixed_tick L < iv"
  shows "chan_queue (tcp_receiver (sstate (server_iteration server_update server_fixed_update iv r L))) = [] \<and>
    players (sstate (server_iteration server_update server_fixed_update iv r L)) =
      register_all (players (sstate L)) (chan_queue (tcp_receiver (sstate L)))"
  using server_iteration_mono [OF assms(1,2), of server_update server_fixed_update iv] assms(3)
  by (simp add: server_update_def server_fixed_update_def receive_packets_def receive_tcp_packets_fields)

subsection \<open>Witnesses\<close>

theorem server_durations_always_zero_witness:
  "server_clock_ok 1 (s_last_tick (start_server_loop (0::nat) 0)) [(5, 6), (20, 21)] \<and>
   s_last_fixed_tick (start_server_loop (0::nat) 0) \<le> s_last_tick (start_server_loop (0::nat) 0) \<and>
   server_loop_run (\<lambda>s dt. s + dt) (\<lambda>s dt. 2 * s + dt) 10 [(5, 6), (20, 21)] (start_server_loop 0 0)
     = server_loop_run (\<lambda>s _. s + 0) (\<lambda>s _. 2 * s + 0) 10 [(5, 6), (20, 21)] (start_server_loop 0 0)"
proof -
  have h: "server_clock_ok 1 (s_last_tick (start_server_loop (0::nat) 0)) [(5, 6), (20, 21)]"
    "s_last_fixed_tick (start_server_loop (0::nat) 0) \<le> s_last_tick (start_server_loop (0::nat) 0)"
    by (simp_all add: start_server_loop_def)
  show ?thesis
    using server_durations_always_zero [OF h, of "\<lambda>s dt. s + dt" "\<lambda>s dt. 2 * s + dt" 10] h by simp
qed

theorem server_fixed_cadence_witness:
  "server_clock_ok 1 (s_last_tick (start_server_loop (0::nat, ()) 0)) [(5, 6), (20, 21)] \<and>
   s_last_fixed_tick (start_server_loop (0::nat, ()) 0) \<le> s_last_tick (start_server_loop (0::nat, ()) 0) \<and>
   (1::nat) \<le> 10 \<and>
   s_last_fixed_tick (start_server_loop (0::nat, ()) 0) +
     (fst (sstate (server_loop_run (fst (count_fixed (\<lambda>s _. s) (\<lambda>s _. s))) (snd (count_fixed (\<lambda>s _. s) (\<lambda>s _. s)))
        10 [(5, 6), (20, 21)] (start_server_loop (0, ()) 0))) - fst (sstate (start_server_loop (0::nat, ()) 0))) * (10 - 1)
     \<le> s_last_fixed_tick (server_loop_run (fst (count_fixed (\<lambda>s _. s) (\<lambda>s _. s))) (snd (count_fixed (\<lambda>s _. s) (\<lambda>s _. s)))
        10 [(5, 6), (20, 21)] (start_server_loop (0, ()) 0)) \<and>
   fst (sstate (start_server_loop (0::nat, ()) 0)) \<le> fst (sstate (server_loop_run (fst (count_fixed (\<lambda>s _. s) (\<lambda>s _. s)))
        (snd (count_fixed (\<lambda>s _. s) (\<lambda>s _. s))) 10 [(5, 6), (20, 21)] (start_server_loop (0, ()) 0)))"
proof -
  have h: "server_clock_ok 1 (s_last_tick (start_server_loop (0::nat, ()) 0)) [(5, 6), (20, 21)]"
    "s_last_fixed_tick (start_server_loop (0::nat, ()) 0) \<le> s_last_tick (start_server_loop (0::nat, ()) 0)"
    "(1::nat) \<le> 10"
    by (simp_all add: start_server_loop_def)
  show ?thesis using server_fixed_cadence [OF h, of "\<lambda>s _. s" "\<lambda>s _. s"] h by simp
qed

theorem fixed_iteration_drains_queue_witness:
  "s_last_tick (start_server_loop example_server_state 0) \<le> fst (20::nat, 20::nat) \<and>
   s_last_fixed_tick (start_server_loop example_server_state 0) \<le> fst (20::nat, 20::nat) \<and>
   \<not> snd (20::nat, 20::nat) - s_last_fixed_tick (start_server_loop example_server_state 0) < 10 \<and>
   chan_queue (tcp_receiver (sstate (server_iteration server_update server_fixed_update 10 (20, 20)
      (start_server_loop example_server_state 0)))) = [] \<and>
   players (sstate (server_iteration server_update server_fixed_update 10 (20, 20)
      (start_server_loop example_server_state 0))) =
     register_all (players (sstate (start_server_loop example_server_state 0)))
       (chan_queue (tcp_receiver (sstate (start_server_loop example_server_state 0))))"
proof -
  have h: "s_last_tick (start_server_loop example_server_state 0) \<le> fst (20::nat, 20::nat)"
    "s_last_fixed_tick (start_server_loop example_server_state 0) \<le> fst (20::nat, 20::nat)"
    "\<not> snd (20::nat, 20::nat) - s_last_fixed_tick (start_server_loop example_server_state 0) < 10"
    by (simp_all add: start_server_loop_def)
  show ?thesis using fixed_iteration_drains_queue [OF h] h by simp
qed

end
