(* ===== verification/ServerSystem.thy ===== *)
theory ServerSystem
  imports ServerLoop
begin

text \<open>
  The server as a concurrent system: transport tasks push \<open>TcpEvent\<close>s onto the
  multi-producer queue whose receiver \<open>ServerState\<close> owns, while \<open>server_game_loop\<close>
  runs its iterations with the \<open>update\<close> and \<open>fixed_update\<close> of
  \<open>src/server/src/main.rs\<close>. The two interleave arbitrarily; \<open>sys_pushed\<close> records
  every event ever sent, in send order, so that the order in which the loop applies
  events can be compared with the order in which they were sent.
\<close>

record ('u, 'v) server_system =
  sys_loop :: "('u, 'v) server_state server_loop"
  sys_pushed :: "tcp_event list"

abbreviation sys_state :: "('u, 'v) server_system \<Rightarrow> ('u, 'v) server_state" where
  "sys_state S \<equiv> sstate (sys_loop S)"

abbreviation sys_queue :: "('u, 'v) server_system \<Rightarrow> tcp_event list" where
  "sys_queue S \<equiv> chan_queue (tcp_receiver (sys_state S))"

definition sys_start :: "('u, 'v) server_state \<Rightarrow> instant \<Rightarrow> ('u, 'v) server_system" where
  "sys_start st t0 = \<lparr>sys_loop = start_server_loop st t0, sys_pushed = chan_queue (tcp_receiver st)\<rparr>"

text \<open>A transport task's \<open>Sender::send\<close> on the event queue.\<close>

definition sys_push :: "tcp_event \<Rightarrow> ('u, 'v) server_system \<Rightarrow> ('u, 'v) server_system option" where
  "sys_push ev S = (case chan_send ev (tcp_receiver (sys_state S)) of
       Inl _ \<Rightarrow> None
     | Inr c \<Rightarrow> Some (S\<lparr>sys_loop := (sys_loop S)\<lparr>sstate := (sys_state S)\<lparr>tcp_receiver := c\<rparr>\<rparr>,
                         sys_pushed := sys_pushed S @ [ev]\<rparr>))"

text \<open>One iteration of \<open>server_game_loop\<close> with the server's callbacks.\<close>

definition sys_tick :: "duration \<Rightarrow> instant \<times> instant \<Rightarrow> ('u, 'v) server_system \<Rightarrow> ('u, 'v) server_system" where
  "sys_tick iv r S = S\<lparr>sys_loop := server_iteration server_update server_fixed_update iv r (sys_loop S)\<rparr>"

text \<open>The fixed interval \<open>main.rs\<close> would pass to the loop,
  \<open>Duration::from_millis(1000 / 60)\<close>, in nanoseconds: the division is on integers.\<close>

definition INTERVAL :: duration where
  "INTERVAL = (1000 div 60) * 1000000"

inductive server_reach :: "duration \<Rightarrow> ('u, 'v) server_system \<Rightarrow> bool" for iv where
  start: "players st = Map.empty \<Longrightarrow> server_reach iv (sys_start st t0)"
| push: "server_reach iv S \<Longrightarrow> sys_push ev S = Some S' \<Longrightarrow> server_reach iv S'"
| tick: "server_reach iv S \<Longrightarrow> server_reach iv (sys_tick iv r S)"

text \<open>Events are consumed in send order: the queue holds the events sent and not yet
  consumed, and the registry is the abstract registry update over those consumed.\<close>

definition sys_consumed :: "('u, 'v) server_system \<Rightarrow> tcp_event list" where
  "sys_consumed S = take (length (sys_pushed S) - length (sys_queue S)) (sys_pushed S)"

definition sys_fifo :: "('u, 'v) server_system \<Rightarrow> bool" where
  "sys_fifo S \<longleftrightarrow> length (sys_queue S) \<le> length (sys_pushed S) \<and>
     sys_pushed S = sys_consumed S @ sys_queue S \<and>
     players (sys_state S) = register_all Map.empty (sys_consumed S)"

subsection \<open>Steps\<close>

lemma register_all_append: "register_all m (xs @ ys) = register_all (register_all m xs) ys"
  by (simp add: register_all_def)

lemma server_iteration_sstate:
  "sstate (server_iteration server_update server_fixed_update iv r L) =
     (if snd r - s_last_fixed_tick L < iv then sstate L else receive_tcp_packets (sstate L))"
  by (simp add: server_iteration_def Let_def server_update_def server_fixed_update_def receive_packets_def)

lemma sys_push_Some:
  "sys_push ev S = Some S' \<Longrightarrow>
   sys_queue S' = sys_queue S @ [ev] \<and> sys_pushed S' = sys_pushed S @ [ev] \<and>
   players (sys_state S') = players (sys_state S)"
  by (auto simp: sys_push_def chan_send_def split: if_splits)

lemma sys_consumed_split:
  "sys_pushed S = c @ sys_queue S \<Longrightarrow> sys_consumed S = c"
  by (simp add: sys_consumed_def)

text \<open>The interval truncates \<open>1000 / 60\<close> to 16 milliseconds: with one reading
  every 16 ms the loop runs 62 fixed updates within the first second, not 60.\<close>

lemma interval_62_per_second:
  "INTERVAL = 16000000 \<and> 62 * INTERVAL < 1000000000 \<and>
   fst (sstate (server_loop_run (fst (count_fixed upd fupd)) (snd (count_fixed upd fupd)) INTERVAL
      (map (\<lambda>k. (k * INTERVAL, k * INTERVAL)) [1..<63]) (start_server_loop (0, s) 0))) = 62"
  by (simp add: INTERVAL_def upt_rec server_iteration_def count_fixed_def start_server_loop_def Let_def)

subsection \<open>Properties of the server system\<close>

lemma server_reach_fifo: "server_reach iv S \<Longrightarrow> sys_fifo S"
proof (induction rule: server_reach.induct)
  case (start st t0)
  then show ?case
    by (simp add: sys_fifo_def sys_consumed_def sys_start_def start_server_loop_def register_all_def)
next
  case (push S ev S')
  then have c: "sys_pushed S = sys_consumed S @ sys_queue S" and p: "players (sys_state S) = register_all Map.empty (sys_consumed S)"
    by (simp_all add: sys_fifo_def)
  have s: "sys_queue S' = sys_queue S @ [ev]" "sys_pushed S' = sys_pushed S @ [ev]"
    "players (sys_state S') = players (sys_state S)"
    using sys_push_Some [OF push.hyps(2)] by simp_all
  have "sys_pushed S' = sys_consumed S @ sys_queue S'" using c s by simp
  moreover from this have "sys_consumed S' = sys_consumed S" by (rule sys_consumed_split)
  ultimately show ?case using p s by (simp add: sys_fifo_def)
next
  case (tick S r)
  then have c: "sys_pushed S = sys_consumed S @ sys_queue S" and p: "players (sys_state S) = register_all Map.empty (sys_consumed S)"
    by (simp_all add: sys_fifo_def)
  show ?case
  proof (cases "snd r - s_last_fixed_tick (sys_loop S) < iv")
    case True
    then have "sys_state (sys_tick iv r S) = sys_state S"
      by (simp add: sys_tick_def server_iteration_sstate)
    moreover have "sys_pushed (sys_tick iv r S) = sys_pushed S" by (simp add: sys_tick_def)
    moreover have "sys_consumed (sys_tick iv r S) = sys_consumed S"
      by (simp add: sys_consumed_def sys_tick_def server_iteration_sstate True)
    ultimately show ?thesis using tick.IH by (simp add: sys_fifo_def)
  next
    case False
    then have st: "sys_state (sys_tick iv r S) = receive_tcp_packets (sys_state S)"
      by (simp add: sys_tick_def server_iteration_sstate)
    have q: "sys_queue (sys_tick iv r S) = []" and pl: "players (sys_state (sys_tick iv r S)) =
        register_all (players (sys_state S)) (sys_queue S)"
      using st by (simp_all add: receive_tcp_packets_fields)
    have pu: "sys_pushed (sys_tick iv r S) = sys_pushed S" by (simp add: sys_tick_def)
    have "sys_consumed (sys_tick iv r S) = sys_pushed S" using q pu by (simp add: sys_consumed_def)
    then show ?thesis using q pl pu c p by (simp add: sys_fifo_def register_all_append)
  qed
qed

text \<open>C13: with transport tasks sending events at any moment between loop iterations, every player in the registry is stored under its own id in every reachable state of the server.\<close>

theorem sys_registry_wf: "server_reach iv S \<Longrightarrow> registry_wf (sys_state S)"
proof (induction rule: server_reach.induct)
  case (start st t0)
  then show ?case by (simp add: registry_wf_def sys_start_def start_server_loop_def)
next
  case (push S ev S')
  then show ?case using sys_push_Some [OF push.hyps(2)] by (simp add: registry_wf_def)
next
  case (tick S r)
  show ?case
  proof (cases "snd r - s_last_fixed_tick (sys_loop S) < iv")
    case True
    then show ?thesis using tick.IH by (simp add: sys_tick_def server_iteration_sstate)
  next
    case False
    then have pl: "players (sys_state (sys_tick iv r S)) = register_all (players (sys_state S)) (sys_queue S)"
      by (simp add: sys_tick_def server_iteration_sstate receive_tcp_packets_fields)
    have "\<forall>i p. players (sys_state S) i = Some p \<longrightarrow> sp_id p = i"
      using tick.IH by (simp only: registry_wf_def)
    then have "\<forall>i p. register_all (players (sys_state S)) (sys_queue S) i = Some p \<longrightarrow> sp_id p = i"
      by (rule register_all_wf)
    then show ?thesis by (simp only: registry_wf_def pl)
  qed
qed

text \<open>C12: whatever the interleaving of sends and loop iterations, an iteration on which the fixed update fires consumes every event sent so far, none lost and none twice, and leaves the registry equal to the abstract registry update over all sent events in send order.\<close>

theorem fixed_tick_consumes_all:
  assumes "server_reach iv S" and "\<not> snd r - s_last_fixed_tick (sys_loop S) < iv"
  shows "sys_queue (sys_tick iv r S) = [] \<and> sys_consumed (sys_tick iv r S) = sys_pushed S \<and>
         players (sys_state (sys_tick iv r S)) = register_all Map.empty (sys_pushed S)"
proof -
  have f: "sys_fifo (sys_tick iv r S)" using server_reach.tick [OF assms(1)] by (rule server_reach_fifo)
  have q: "sys_queue (sys_tick iv r S) = []"
    using assms(2) by (simp add: sys_tick_def server_iteration_sstate receive_tcp_packets_fields)
  have "sys_pushed (sys_tick iv r S) = sys_pushed S" by (simp add: sys_tick_def)
  then show ?thesis using f q by (simp add: sys_fifo_def)
qed

subsection \<open>Witnesses\<close>

text \<open>The example server of \<open>Server\<close> after a transport task sends one more packet.\<close>

definition example_pushed :: "(nat, unit) server_system" where
  "example_pushed = \<lparr>sys_loop = start_server_loop (example_server_state\<lparr>tcp_receiver :=
       (tcp_receiver example_server_state)\<lparr>chan_queue := chan_queue (tcp_receiver example_server_state) @
          [PacketReceived (SocketAddrV4 1 4000) (Handshake 4001)]\<rparr>\<rparr>) 0,
     sys_pushed = chan_queue (tcp_receiver example_server_state) @ [PacketReceived (SocketAddrV4 1 4000) (Handshake 4001)]\<rparr>"

lemma example_pushed_reach: "server_reach 10 example_pushed"
proof -
  have r0: "server_reach 10 (sys_start example_server_state 0)"
    by (rule server_reach.start) (simp add: example_server_state_def)
  have "sys_push (PacketReceived (SocketAddrV4 1 4000) (Handshake 4001)) (sys_start example_server_state 0) = Some example_pushed"
    by (simp add: sys_push_def chan_send_def sys_start_def start_server_loop_def example_pushed_def example_server_state_def)
  then show ?thesis by (rule server_reach.push [OF r0])
qed

theorem fixed_tick_consumes_all_witness:
  "server_reach 10 example_pushed \<and> \<not> snd (20, 20) - s_last_fixed_tick (sys_loop example_pushed) < (10::nat) \<and>
   sys_queue (sys_tick 10 (20, 20) example_pushed) = [] \<and>
   sys_consumed (sys_tick 10 (20, 20) example_pushed) = sys_pushed example_pushed \<and>
   players (sys_state (sys_tick 10 (20, 20) example_pushed)) = register_all Map.empty (sys_pushed example_pushed)"
proof -
  have h: "\<not> snd (20, 20) - s_last_fixed_tick (sys_loop example_pushed) < (10::nat)"
    by (simp add: example_pushed_def start_server_loop_def)
  show ?thesis using fixed_tick_consumes_all [OF example_pushed_reach h] example_pushed_reach h by simp
qed

theorem sys_registry_wf_witness:
  "server_reach 10 (sys_tick 10 (20, 20) example_pushed) \<and> registry_wf (sys_state (sys_tick 10 (20, 20) example_pushed))"
proof -
  have r: "server_reach 10 (sys_tick 10 (20, 20) example_pushed)" by (rule server_reach.tick [OF example_pushed_reach])
  show ?thesis using sys_registry_wf [OF r] r by simp
qed

end
