(* ===== verification/Handshake.thy ===== *)
theory Handshake
  imports Framing
begin

text \<open>
  The connection orchestrator: the accept task spawned by \<open>init\<close> in
  \<open>src/server/src/networking.rs\<close> and the client's \<open>init\<close> in
  \<open>src/client/src/networking.rs\<close>. Each turn of the accept loop sees what
  \<open>Endpoint::accept\<close> and the connection's handshake produced: nothing, a connection
  that failed, or a connection with the result of \<open>accept_bi\<close> and the outcome of
  reading the stream: the bytes the client wrote on it, or \<open>None\<close> when the read
  fails (the stream is reset or the connection lost). \<open>RecvStream::read\<close> fills at most the buffer it is given.
  \<open>init\<close> is passed the id counter (\<open>AtomicU32\<close>) but the spawned block does not
  capture it, so the task's state is whether it is alive and its log; \<open>tracing\<close> output is
  a log. An \<open>unwrap\<close> that fails panics the spawned task, after which no connection is
  accepted any more.
\<close>

datatype connecting =
    ConnectFailed
  | Connected bool "bytes option"

datatype incoming =
    NoIncoming
  | Incoming socket_addr connecting

datatype accept_log =
    IncomingInfo socket_addr
  | ConnectedInfo socket_addr
  | SentInfo socket_addr bytes
  | ConnectError socket_addr

record accept_task =
  accept_alive :: bool
  accept_log :: "accept_log list"

text \<open>\<open>RecvStream::read(&mut buf)\<close>: at most \<open>buf.len()\<close> bytes of what the peer sent.\<close>

definition recv_stream_read :: "bytes \<Rightarrow> bytes \<Rightarrow> bytes" where
  "recv_stream_read buf sent = take (length buf) sent"

definition accept_step :: "accept_task \<Rightarrow> incoming \<Rightarrow> accept_task" where
  "accept_step s inc =
     (if \<not> accept_alive s then s else
      case inc of
        NoIncoming \<Rightarrow> s
      | Incoming addr c \<Rightarrow>
          (let s = s\<lparr>accept_log := accept_log s @ [IncomingInfo addr]\<rparr> in
           case c of
             ConnectFailed \<Rightarrow> s\<lparr>accept_log := accept_log s @ [ConnectError addr]\<rparr>
           | Connected bi_ok sent \<Rightarrow>
               (let s = s\<lparr>accept_log := accept_log s @ [ConnectedInfo addr]\<rparr> in
                if \<not> bi_ok then s\<lparr>accept_alive := False\<rparr>
                else
                  let buf = [] in
                  case sent of
                    None \<Rightarrow> s\<lparr>accept_alive := False\<rparr>
                  | Some sent \<Rightarrow>
                      let data = recv_stream_read buf sent
                      in s\<lparr>accept_log := accept_log s @ [SentInfo addr data]\<rparr>)))"

definition accept_run :: "accept_task \<Rightarrow> incoming list \<Rightarrow> accept_task" where
  "accept_run s incs = fold (\<lambda>inc s. accept_step s inc) incs s"

definition start_accept_task :: accept_task where
  "start_accept_task = \<lparr>accept_alive = True, accept_log = []\<rparr>"

text \<open>The client's handshake: it writes \<open>"hello"\<close> once with \<open>SendStream::write\<close>,
  which may accept only a prefix (its count is not checked), and then spins.\<close>

definition hello :: bytes where
  "hello = [104, 101, 108, 108, 111]"

definition client_handshake :: "nat \<Rightarrow> bytes" where
  "client_handshake accepted = take accepted hello"

subsection \<open>Lemmas on one turn of the accept loop\<close>

lemma accept_step_dead [simp]: "\<not> accept_alive s \<Longrightarrow> accept_step s inc = s"
  by (simp add: accept_step_def)

lemma accept_step_log:
  "\<exists>new. accept_log (accept_step s inc) = accept_log s @ new \<and> (\<forall>a d. SentInfo a d \<in> set new \<longrightarrow> d = [])"
  by (auto simp: accept_step_def Let_def recv_stream_read_def split: incoming.splits connecting.splits option.splits)

lemma accept_run_log:
  "\<exists>new. accept_log (accept_run s incs) = accept_log s @ new \<and> (\<forall>a d. SentInfo a d \<in> set new \<longrightarrow> d = [])"
proof (induction incs arbitrary: s)
  case Nil
  then show ?case by (simp add: accept_run_def)
next
  case (Cons inc incs)
  obtain new where n: "accept_log (accept_step s inc) = accept_log s @ new"
    and e: "\<forall>a d. SentInfo a d \<in> set new \<longrightarrow> d = []"
    using accept_step_log by blast
  obtain new' where n': "accept_log (accept_run (accept_step s inc) incs) = accept_log (accept_step s inc) @ new'"
    and e': "\<forall>a d. SentInfo a d \<in> set new' \<longrightarrow> d = []"
    using Cons.IH by blast
  show ?case
    by (rule exI [where x = "new @ new'"]) (simp add: accept_run_def n n' [unfolded accept_run_def] e e')
qed

subsection \<open>Properties of the orchestrator\<close>

text \<open>C9: the server never sees handshake data: it reads the client's stream into an empty buffer, so every logged handshake message is empty.\<close>

theorem handshake_data_never_read:
  "(\<forall>a d. SentInfo a d \<in> set (accept_log s) \<longrightarrow> d = []) \<Longrightarrow>
   \<forall>a d. SentInfo a d \<in> set (accept_log (accept_run s incs)) \<longrightarrow> d = []"
  using accept_run_log [of s incs] by auto

text \<open>C29: a failed \<open>accept_bi\<close> panics the accept task: after it, no further connection is processed.\<close>

theorem accept_bi_failure_stops_task:
  "accept_run (accept_step s (Incoming a (Connected False sent))) incs =
     accept_step s (Incoming a (Connected False sent))"
proof -
  have dead: "\<not> accept_alive (accept_step s (Incoming a (Connected False sent)))"
    by (cases "accept_alive s") (simp_all add: accept_step_def Let_def)
  have "accept_run t incs = t" if "\<not> accept_alive t" for t
    using that by (induction incs) (simp_all add: accept_run_def)
  then show ?thesis using dead by blast
qed

text \<open>end to end: whatever prefix of \<open>"hello"\<close> the client manages to write, the first connection to the server is logged as incoming, connected and having sent nothing.\<close>

theorem client_hello_unseen:
  "accept_log (accept_step start_accept_task (Incoming a (Connected True (Some (client_handshake n))))) =
     [IncomingInfo a, ConnectedInfo a, SentInfo a []]"
  by (simp add: accept_step_def start_accept_task_def recv_stream_read_def Let_def)

subsection \<open>Witnesses\<close>

theorem handshake_data_never_read_witness:
  "accept_log start_accept_task = [] \<and>
   SentInfo (SocketAddrV4 1 5000) hello \<notin> set (accept_log (accept_run start_accept_task
      [Incoming (SocketAddrV4 1 5000) (Connected True (Some hello))]))"
proof -
  have h: "\<forall>a d. SentInfo a d \<in> set (accept_log start_accept_task) \<longrightarrow> d = []"
    by (simp add: start_accept_task_def)
  show ?thesis
    using handshake_data_never_read [OF h, of "[Incoming (SocketAddrV4 1 5000) (Connected True (Some hello))]"]
    by (auto simp: start_accept_task_def hello_def)
qed

end
