(* ===== verification/Tls.thy ===== *)
theory Tls
  imports Handshake
begin

text \<open>
  Endpoint setup: \<open>create_server\<close> of \<open>src/server/src/networking.rs\<close>,
  \<open>create_client\<close> and \<open>SkipServerVerification\<close> of \<open>src/client/src/networking.rs\<close>,
  and the address constants of \<open>src/shared/src/lib.rs\<close>. The libraries they call
  (rcgen, rustls, quinn) are not modelled: the self-signed certificate rcgen generates
  is an input (\<open>None\<close> when generation fails, which the \<open>unwrap\<close> turns into a
  panic), a certificate is its DER bytes, and an address constant is the
  \<open>SocketAddr\<close> its \<open>parse()\<close> yields. What the model keeps is the configuration the
  code chooses: which certificate the server presents, which verifier the client
  installs, and the stream limit and addresses.
\<close>

definition TCP_ADDRESS :: socket_addr where
  "TCP_ADDRESS = SocketAddrV4 0x7F000001 8080"

definition UDP_ADDRESS :: socket_addr where
  "UDP_ADDRESS = SocketAddrV4 0x7F000001 8081"

datatype certificate = Certificate bytes

record self_signed =
  ss_subject_alt_names :: "string list"
  ss_der :: bytes
  ss_private_key :: bytes

datatype setup_error = SetupPanic

record server_tls_config =
  srv_cert_chain :: "certificate list"
  srv_private_key :: bytes
  max_concurrent_uni_streams :: nat
  srv_listen :: socket_addr

definition create_server :: "(string list \<Rightarrow> self_signed option) \<Rightarrow> setup_error + server_tls_config" where
  "create_server generate_simple_self_signed =
     (case generate_simple_self_signed [''localhost''] of
        None \<Rightarrow> Inl SetupPanic
      | Some cert \<Rightarrow>
          (let cert_der = ss_der cert;
               priv_key = ss_private_key cert;
               cert_chain = [Certificate cert_der]
           in Inr \<lparr>srv_cert_chain = cert_chain, srv_private_key = priv_key,
                   max_concurrent_uni_streams = 0, srv_listen = TCP_ADDRESS\<rparr>))"

text \<open>\<open>ServerCertVerifier::verify_server_cert\<close>: the end-entity certificate, the
  intermediates and the server name (the SCTs, the OCSP response and the time are
  ignored by the only verifier the code has).\<close>

datatype verdict = ServerCertVerified | CertificateRejected

type_synonym cert_verifier = "certificate \<Rightarrow> certificate list \<Rightarrow> string \<Rightarrow> verdict"

definition skip_server_verification :: cert_verifier where
  "skip_server_verification end_entity intermediates server_name = ServerCertVerified"

record client_tls_config =
  cl_verifier :: cert_verifier
  cl_bind :: socket_addr

definition create_client :: client_tls_config where
  "create_client = \<lparr>cl_verifier = skip_server_verification, cl_bind = SocketAddrV4 0x7F000001 0\<rparr>"

text \<open>The TLS part of \<open>connect\<close>: the peer answering at the address presents a
  certificate chain; an empty chain or a rejected one fails the connection.\<close>

definition tls_accepts :: "client_tls_config \<Rightarrow> string \<Rightarrow> certificate list \<Rightarrow> bool" where
  "tls_accepts cfg server_name chain =
     (case chain of [] \<Rightarrow> False
      | ee # intermediates \<Rightarrow> cl_verifier cfg ee intermediates server_name = ServerCertVerified)"

text \<open>The client's \<open>init\<close>: connect to \<open>TCP_ADDRESS\<close> as \<open>"localhost"\<close> (a
  connection the certificate check refuses panics on \<open>unwrap\<close>), open a
  bidirectional stream and write \<open>"hello"\<close>, of which the stream accepts
  \<open>accepted\<close> bytes. The result is what the peer at the address receives. Of the
  four \<open>unwrap\<close> calls of lines 24 to 31 the model keeps the one that depends on the
  peer's certificate; the address parse, \<open>open_bi\<close> and \<open>write\<close> are taken to succeed
  (their failures are transport errors, each a further panic branch).\<close>

definition client_init :: "certificate list \<Rightarrow> nat \<Rightarrow> setup_error + bytes" where
  "client_init peer_chain accepted =
     (let cfg = create_client in
      if tls_accepts cfg ''localhost'' peer_chain then Inr (client_handshake accepted) else Inl SetupPanic)"

subsection \<open>Properties of the endpoint setup\<close>

text \<open>C23: the client cannot tell the server from an impostor: \<open>SkipServerVerification\<close> accepts every certificate chain for every name, so whatever peer answers at \<open>TCP_ADDRESS\<close> with any non-empty chain gets the connection and the handshake bytes the client writes.\<close>

theorem client_accepts_any_certificate:
  "peer_chain \<noteq> [] \<Longrightarrow> client_init peer_chain n = Inr (take n hello)"
  by (auto simp: client_init_def tls_accepts_def create_client_def skip_server_verification_def
      client_handshake_def split: list.splits)

lemma create_server_config:
  "create_server gen = Inr cfg \<Longrightarrow>
   (\<exists>c. gen [''localhost''] = Some c \<and> srv_cert_chain cfg = [Certificate (ss_der c)]) \<and>
   max_concurrent_uni_streams cfg = 0 \<and> srv_listen cfg = TCP_ADDRESS"
  by (auto simp: create_server_def Let_def split: option.splits)

subsection \<open>Witnesses\<close>

theorem client_accepts_any_certificate_witness:
  "[Certificate [1, 2, 3]] \<noteq> [] \<and> client_init [Certificate [1, 2, 3]] 5 = Inr hello"
  using client_accepts_any_certificate [of "[Certificate [1, 2, 3]]" 5] by (simp add: hello_def)

end
