(* ===== verification/Processes.thy ===== *)
theory Processes
  imports Tls
begin

text \<open>
  The two process entry points as the code runs them. The server's \<open>main\<close>
  (\<open>src/server/src/main.rs\<close>) creates the id counter, calls \<open>networking::init\<close>,
  which builds the endpoint with \<open>create_server\<close> and spawns the accept task, and then
  spins in \<open>loop {}\<close>; after any finite sequence of accept turns the process is the
  endpoint configuration and the accept task's state. The client's \<open>main\<close>
  (\<open>src/client/src/main.rs\<close>) calls its \<open>networking::init\<close>, which connects, writes the
  handshake and spins; its observable effect is the bytes the peer receives. The
  two meet at \<open>TCP_ADDRESS\<close>: the peer the client talks to is the server endpoint
  listening there, and the certificate chain it presents is the one
  \<open>create_server\<close> installed. \<open>shared::tracing::init\<close> has no source in the
  repository and is not modelled.
\<close>

type_synonym cert_generator = "string list \<Rightarrow> self_signed option"

text \<open>The server's \<open>networking::init(ids)\<close>: \<open>create_server\<close> (a panic there ends
  \<open>main\<close>), then the spawned accept task. The counter \<open>ids\<close> is a parameter, as in
  the code, and as in the code it is not handed to the task.\<close>

definition server_init :: "cert_generator \<Rightarrow> 32 word \<Rightarrow> setup_error + server_tls_config \<times> accept_task" where
  "server_init gen ids =
     (case create_server gen of
        Inl e \<Rightarrow> Inl e
      | Inr server \<Rightarrow> Inr (server, start_accept_task))"

text \<open>The server's \<open>main\<close>: the counter starts at \<open>0\<close>; after \<open>init\<close> the main
  task spins and only the accept task runs, one turn per element of \<open>incs\<close>.\<close>

definition server_main :: "cert_generator \<Rightarrow> incoming list \<Rightarrow> setup_error + server_tls_config \<times> accept_task" where
  "server_main gen incs =
     (let ids = 0 in
      case server_init gen ids of
        Inl e \<Rightarrow> Inl e
      | Inr (server, task) \<Rightarrow> Inr (server, accept_run task incs))"

text \<open>The client's \<open>main\<close>: \<open>networking::init\<close> against the peer at
  \<open>TCP_ADDRESS\<close>, then \<open>loop {}\<close>.\<close>

definition client_main :: "certificate list \<Rightarrow> nat \<Rightarrow> setup_error + bytes" where
  "client_main peer_chain accepted = client_init peer_chain accepted"

subsection \<open>Lemmas on the entry points\<close>

text \<open>The server process fails exactly when certificate generation fails, and is
  otherwise the endpoint \<open>create_server\<close> configured with the accept task after the
  given turns.\<close>

lemma server_main_result:
  "server_main gen incs =
     (case create_server gen of Inl e \<Rightarrow> Inl e | Inr server \<Rightarrow> Inr (server, accept_run start_accept_task incs))"
  by (simp add: server_main_def server_init_def split: sum.splits)

lemma server_main_fails: "server_main gen incs = Inl SetupPanic \<longleftrightarrow> gen [''localhost''] = None"
  by (simp add: server_main_result create_server_def Let_def split: option.splits)

end
