(* ===== verification/Spec2Isabelle.thy ===== *)
theory Spec2Isabelle
  imports Framing ClientLoop ServerSystem Processes Renderer
begin

text \<open>
  \<^bold>\<open>A verification library for rbmp-game.\<close>

  The program is a small client/server game in Rust. The shared crate
  (\<open>src/shared\<close>) defines the packet union \<open>ReliablePacket\<close> and \<open>PacketAction\<close>
  (\<open>protocol.rs\<close>), their bincode encoding (\<open>bincode_ext.rs\<close>) and the framing
  extensions that write and read packets over a TCP stream or a UDP socket
  (\<open>packet_ext.rs\<close>). The client (\<open>src/client\<close>) runs a winit event loop
  (\<open>game_loop.rs\<close>) that tracks key states in a \<open>FrameContext\<close>, decides on each
  redraw whether the iteration is a fixed tick, and calls \<open>update\<close> of \<open>main.rs\<close>,
  which reads the movement keys into the player (\<open>player.rs\<close>) and queues a
  \<open>MovementInput\<close> on the outbound channel of \<open>ClientState\<close> (\<open>state.rs\<close>). The
  server (\<open>src/server\<close>) starts an accept task (\<open>networking.rs\<close>) that logs
  incoming QUIC connections and their handshake, and has a tick loop
  (\<open>game_loop.rs\<close>) whose fixed update drains a queue of \<open>TcpEvent\<close>s into the
  player registry (\<open>main.rs\<close>, \<open>player.rs\<close>, \<open>state.rs\<close>).

  \<^bold>\<open>Theories.\<close>
  \<^item> \<open>Prelude\<close>: byte and instant types, the error monad \<open>sbind\<close> (Rust's \<open>?\<close>),
    little and big endian conversions on words, and \<open>std::sync::mpsc\<close> channels as a
    record of an open flag and a queue (\<open>chan_send\<close>, \<open>chan_try_recv\<close>).
  \<^item> \<open>Codec\<close>: bincode's \<open>config::standard()\<close> as the derive uses it: varint
    integers (one byte up to 250, markers 251 and 252 for u16 and u32; the marker
    253 of a u64 and the bytes 254 and 255 are rejected, as bincode rejects them),
    booleans as
    0/1, \<open>f32\<close> as its bit pattern, fixed arrays without length, the variant tag as a
    varint; \<open>encode_reliable\<close>/\<open>decode_reliable\<close> and the \<open>ToBuf\<close>,
    \<open>read_decoded\<close> and \<open>encode_into_slice\<close> wrappers of \<open>bincode_ext.rs\<close>. Errors
    are \<open>decode_error\<close> values; an \<open>unwrap\<close> is the \<open>Inl\<close> branch.
  \<^item> \<open>Framing\<close>: the eight methods of \<open>PacketStreamReadExt\<close> and
    \<open>PacketStreamWriteExt\<close> for \<open>TcpStream\<close> and \<open>UdpSocket\<close>, over explicit
    stream and socket records (bytes in, bytes out, datagram queue); a panic, an
    I/O error or a read that blocks forever is a \<open>failure\<close>.
  \<^item> \<open>Input\<close>: \<open>FrameContext\<close>, its table of 163 key states, the queries
    \<open>just_pressed\<close>, \<open>pressed\<close>, \<open>just_released\<close>, \<open>released\<close> and
    \<open>handle_keyboard_event\<close>.
  \<^item> \<open>ClientPlayer\<close>: the client player and \<open>ClientState\<close> (\<open>player.rs\<close>,
    \<open>state.rs\<close>), \<open>update_player_movement\<close>, \<open>send_player_movement_packet\<close> and
    the \<open>update\<close> callback of \<open>main.rs\<close> (\<open>client_update\<close>).
  \<^item> \<open>ClientLoop\<close>: \<open>client_game_loop\<close>'s event handler as \<open>client_event\<close>
    over a \<open>client_loop\<close> state (context, client state, the two tick instants, the
    \<open>ControlFlow::Exit\<close> flag, UI renderer, and whether winit has destroyed the
    loop); a redraw is the tick decision and \<open>update\<close> (\<open>redraw\<close>) followed by the
    frame (\<open>draw_frame\<close>: \<open>get_output\<close> and the UI render, either of which may fail
    and panic the loop); \<open>client_run\<close> is winit's runner over a finite event
    sequence: \<open>Exit\<close> is sticky, the iteration in which it is set is delivered up to
    its \<open>RedrawEventsCleared\<close>, and then the loop ends (\<open>LoopDestroyed\<close>).
  \<^item> \<open>Server\<close>: \<open>Player\<close>, \<open>ServerState\<close> (the players' senders are indices into
    a store of channels), \<open>receive_tcp_packets\<close> as a terminating function over
    the queue, \<open>fixed_update\<close>, and an abstract registry \<open>register_all\<close> that the
    drain refines.
  \<^item> \<open>ServerLoop\<close>: one iteration of \<open>server_game_loop\<close>, and its runs.
  \<^item> \<open>ServerSystem\<close>: the server as a concurrent system, an inductive
    reachability relation \<open>server_reach\<close> whose steps are a transport task's send
    on the event queue (\<open>sys_push\<close>) and a loop iteration with the callbacks of
    \<open>main.rs\<close> (\<open>sys_tick\<close>), interleaved arbitrarily; a ghost list
    \<open>sys_pushed\<close> records every send.
  \<^item> \<open>Handshake\<close>: one turn of the accept loop spawned by the server's \<open>init\<close>
    (its \<open>accept_bi\<close> and stream-read \<open>unwrap\<close>s panic the task), and the client's
    single write of \<open>"hello"\<close>.
  \<^item> \<open>Tls\<close>: \<open>create_server\<close>, \<open>create_client\<close>, \<open>SkipServerVerification\<close>,
    the address constants of \<open>lib.rs\<close>, and the client's \<open>init\<close> composed with
    its certificate check.
  \<^item> \<open>Processes\<close>: both \<open>main\<close> functions and the server's \<open>networking::init\<close>
    (\<open>server_init\<close>, \<open>server_main\<close>, \<open>client_main\<close>): the server process is the
    endpoint configuration and the accept task after any sequence of accept turns
    (the id counter \<open>main\<close> creates is passed to \<open>init\<close>, which does not use it),
    and it fails exactly when certificate generation fails; the client process is
    the bytes its handshake delivers to the peer.
  \<^item> \<open>Renderer\<close>: \<open>Renderer::new\<close>, \<open>resize\<close> (used by the client loop on
    \<open>Resized\<close>), the frame path (\<open>get_output\<close>, \<open>create_texture_view\<close>,
    \<open>create_command_encoder\<close>, \<open>create_render_pass\<close>, \<open>present\<close>, whose effects are
    the renderer's lists of submitted command buffers and presented textures),
    \<open>UiRenderer::new\<close> (the imgui settings and the texture format of the imgui
    renderer) and \<open>UiRenderer::render\<close> (the UI callback's widgets drawn into the
    pass, the cursor cache). \<open>ClientPlayer\<close> holds \<open>main.rs\<close>'s \<open>ui\<close> and
    \<open>render\<close> callbacks, which \<open>draw_frame\<close> of \<open>ClientLoop\<close> runs.

  \<^bold>\<open>What is proved.\<close> The codec round-trips every well-formed packet, rejects
  every truncation and every unknown tag without panicking, and accepts
  non-canonical varints; encoded lengths are bounded. The TCP reliable frame is
  unreadable by its own reader (eight-byte \<open>usize\<close> prefix, four-byte reader) while
  the four-byte frame of the specification reads back; the UDP unreliable frame
  starts with zero and its reader never returns; a packet on the wrong channel
  writes nothing. Key input is edge triggered, loses a tap within one frame, keeps
  its table well formed, and a held key keeps its entry over any run without its
  release, while the frame counter advances by exactly the frames presented. Every
  client redraw queues exactly one \<open>MovementInput\<close>, and over any run the outbound
  queue refines an abstract log of the events (\<open>movement_log\<close>: one packet per
  redraw of the window with the keys then held, the redraws of the iteration in
  which a close is requested included, nothing after that iteration);
  fixed ticks are at least \<open>interval + 1 - d\<close> apart and, when redraws come every
  \<open>g\<close> units, never more than \<open>interval\<close> behind (so their number in \<open>N\<close> units
  lies between \<open>(N - interval) / (interval + g)\<close> and \<open>N / (interval + 1 - d)\<close>);
  a frame that cannot draw panics the loop; a close request ends the loop at the
  end of its iteration, the rest of which is still handled; resizes keep the renderer consistent and the UI is always drawn
  in the surface's texture format; every submitted command buffer is exactly the
  client's frame (one pass cleared to \<open>(0.1, 0.2, 0.3, 1.0)\<close> holding imgui's draw of
  the \<open>"sask"\<close> window) for the texture presented with it, and presented frames
  and queued packets grow in lockstep. A press is \<open>just_pressed\<close> after exactly the
  multiples of \<open>2^64\<close> frame increments, the \<open>u64\<close> counter wrapping. The server drain
  refines the abstract registry, keeps every player under its own id and warns
  about every packet; its tick loop always passes zero durations and spaces fixed
  updates by \<open>interval - d\<close> (the shipped \<open>INTERVAL\<close> truncates to 16 ms, 62 updates
  in the first second); under any interleaving with transport sends, every
  fixed iteration consumes all events sent so far in send order and the registry
  stays well formed. The accept task never sees handshake bytes and dies on the
  first failed \<open>accept_bi\<close>; the client accepts any server certificate.
  \<open>resize\<close> ignores minimised windows, and the UI renderer prepares a render
  exactly once per change of cursor.

  \<^bold>\<open>Clock and bounds.\<close> \<open>Instant\<close> is a natural number of clock units and
  \<open>Instant - Instant\<close> is saturating subtraction, as \<open>std\<close> does. The loops read
  the clock several times per iteration (four on the client, two on the server);
  each reading is an input (\<open>clock_reads\<close>, pairs on the server), constrained only
  by monotonicity and a bound \<open>d\<close> on the spread inside one iteration
  (\<open>clock_ok\<close>, \<open>server_clock_ok\<close>). Both loops are infinite in the code: the
  model runs them over any finite list of events or readings, which covers every
  finite prefix of an execution; no fuel is needed because each step terminates.
  On the client the list is what winit delivers, grouped in iterations that each
  end with \<open>RedrawEventsCleared\<close>.
  \<open>usize\<close> is 64 bits and the frame counter a \<open>64 word\<close>; lengths in the codec
  stay below the varint markers for the packets the client builds.

  \<^bold>\<open>Not modelled.\<close> The winit platform of the UI renderer (\<open>handle_event\<close>,
  \<open>prepare_frame\<close>, \<open>prepare_render\<close>) updates imgui's IO state, which the program
  never reads back except through the cursor imgui reports; that cursor is an
  input of each frame, as are whether the surface yields a texture and whether
  imgui prepares and renders. The getters \<open>device()\<close>, \<open>queue()\<close> and
  \<open>surface()\<close> of \<open>renderer.rs\<close> return handles and change nothing. The TLS
  handshake and QUIC transport of rustls and quinn, and the async runtime: each
  accept turn, each stream read and the certificate the peer presents are inputs;
  rcgen's certificate generation is an input. Of the client \<open>init\<close>'s
  \<open>unwrap\<close>s only the certificate check is modelled; \<open>open_bi\<close> and
  \<open>write\<close> are taken to succeed. A \<open>bincode\<close> decode that runs out of input is
  \<open>UnexpectedEnd\<close> (\<open>decode_from_std_read\<close> reports it as an I/O error of its reader; both
  end in the same \<open>unwrap\<close> panic). Writes to a stream (\<open>write_all\<close>) are taken
  to succeed; their \<open>unwrap\<close> would only add a panic branch. The \<open>tracing\<close> module is called but
  its source is not in the repository. \<open>UnreliablePacket\<close> is an enum without
  variants, which HOL cannot express as a datatype: it is the type parameter
  \<open>'u\<close> throughout. The client's
  own \<open>TcpEvent\<close> and \<open>UdpEvent\<close> and the getters of the server's \<open>Player\<close> are
  never used. The packet code only copies floating-point values, so there \<open>f32\<close>
  is its bit pattern; the one computation on floats, the font size and scale of
  \<open>UiRenderer::new\<close>, is taken exactly over the reals. Both \<open>main\<close> functions
  spin in \<open>loop {}\<close> with the game loops commented out (\<open>Processes\<close> models
  them as written); the loops are modelled as the commented code would run
  them.\<close>

end
